(* ===== verification/Prelude.thy ===== *)
theory Prelude
  imports Main
begin

text \<open>
  Shared vocabulary of the development: the JavaScript values the two Angular services
  pass around (numbers that may be \<open>NaN\<close>, strings, the loosely typed payloads of
  provider events), the few runtime functions the code calls on them
  (\<open>Number.prototype.toString\<close> in radix 10 and 16, \<open>parseInt(s, 16)\<close>, the
  truthiness of a \<open>localStorage.getItem\<close> result, \<open>a || b\<close> on strings), the named
  theorem collections the component theories fill, and the generic lemmas on these
  helpers that the component proofs share.
\<close>

named_theorems js_simps "evaluation rules of the JavaScript runtime helpers"
named_theorems op_defs "unfolding rules of the service operations"
named_theorems exc_simps "evaluation rules of the state-exception combinators"
named_theorems preserves_rules "compositional rules for invariants of state-exception computations"

type_synonym address = string
type_synonym storage = "string \<rightharpoonup> string"

text \<open>
  A JavaScript \<open>number\<close> that the code obtains by parsing or by converting a chain id.
  Integral values are kept exactly as \<open>int\<close> (the chain ids involved are far below
  \<open>2^53\<close>, where doubles are exact); \<open>NaN\<close> is the result of \<open>parseInt\<close> on a
  string without digits. Strict equality \<open>===\<close> with \<open>NaN\<close> is always false.
\<close>

datatype jsnum = Num int | NaN

fun js_num_eq :: "jsnum \<Rightarrow> int \<Rightarrow> bool" where
  "js_num_eq (Num i) k = (i = k)"
| "js_num_eq NaN k = False"

text \<open>The untyped payload of a provider event (\<open>unknown\<close> in the TypeScript).\<close>

datatype js_val = JStr string | JStrArr "string list" | JOther

subsection \<open>Printing numbers: \<open>Number.prototype.toString(radix)\<close>\<close>

definition digit_char :: "nat \<Rightarrow> char" where
  "digit_char d = (if d < 10 then char_of (48 + d) else char_of (87 + d))"

function radix_digits :: "nat \<Rightarrow> nat \<Rightarrow> string" where
  "radix_digits b n =
     (if n < b \<or> b < 2 then [digit_char n]
      else radix_digits b (n div b) @ [digit_char (n mod b)])"
  by pat_completeness auto
termination
  by (relation "measure (\<lambda>(b, n). n)") auto

declare radix_digits.simps [simp del]

definition int_to_radix :: "nat \<Rightarrow> int \<Rightarrow> string" where
  "int_to_radix b i =
     (if i < 0 then CHR ''-'' # radix_digits b (nat (- i)) else radix_digits b (nat i))"

definition jsnum_to_string :: "jsnum \<Rightarrow> string" where
  "jsnum_to_string x = (case x of Num i \<Rightarrow> int_to_radix 10 i | NaN \<Rightarrow> ''NaN'')"

subsection \<open>Parsing: \<open>parseInt(s, 16)\<close>\<close>

text \<open>
  ECMAScript \<open>parseInt\<close> with radix 16: skip leading white space, read an optional sign,
  drop an optional \<open>0x\<close>/\<open>0X\<close> prefix, then take the longest prefix of hexadecimal
  digits; no digit at all gives \<open>NaN\<close>. White space is modelled by its ASCII members.
\<close>

definition is_js_space :: "char \<Rightarrow> bool" where
  "is_js_space c \<longleftrightarrow> of_char c \<in> {9, 10, 11, 12, 13, 32 :: nat}"

definition is_hex_char :: "char \<Rightarrow> bool" where
  "is_hex_char c \<longleftrightarrow>
     (let k = (of_char c :: nat) in (48 \<le> k \<and> k \<le> 57) \<or> (97 \<le> k \<and> k \<le> 102) \<or> (65 \<le> k \<and> k \<le> 70))"

definition hex_val :: "char \<Rightarrow> nat" where
  "hex_val c =
     (let k = (of_char c :: nat) in
      if 48 \<le> k \<and> k \<le> 57 then k - 48 else if 97 \<le> k \<and> k \<le> 102 then k - 87 else k - 55)"

definition digits_value :: "nat \<Rightarrow> string \<Rightarrow> nat" where
  "digits_value b ds = foldl (\<lambda>acc c. acc * b + hex_val c) 0 ds"

definition parseInt_hex :: "string \<Rightarrow> jsnum" where
  "parseInt_hex str =
     (let s1 = dropWhile is_js_space str;
          (sg, s2) = (if s1 \<noteq> [] \<and> hd s1 = CHR ''-'' then (-1 :: int, tl s1)
                      else if s1 \<noteq> [] \<and> hd s1 = CHR ''+'' then (1, tl s1) else (1, s1));
          s3 = (if take 2 s2 = ''0x'' \<or> take 2 s2 = ''0X'' then drop 2 s2 else s2);
          ds = takeWhile is_hex_char s3
      in if ds = [] then NaN else Num (sg * int (digits_value 16 ds)))"

subsection \<open>Truthiness\<close>

text \<open>\<open>localStorage.getItem\<close> gives \<open>null\<close> or a string; both \<open>null\<close> and \<open>''''\<close> are falsy.\<close>

definition js_truthy :: "string option \<Rightarrow> bool" where
  "js_truthy x = (case x of None \<Rightarrow> False | Some s \<Rightarrow> s \<noteq> [])"

text \<open>\<open>a || b\<close> where \<open>a\<close> is a lookup in an object (\<open>undefined\<close> when absent).\<close>

definition js_or_str :: "string option \<Rightarrow> string \<Rightarrow> string" where
  "js_or_str x d = (case x of None \<Rightarrow> d | Some s \<Rightarrow> if s = [] then d else s)"

subsection \<open>Async methods: a state-exception monad\<close>

text \<open>
  An \<open>async\<close> method that awaits several calls and may throw is a computation from a
  state to the new state and either the thrown error (\<open>Inl\<close>) or the returned value
  (\<open>Inr\<close>). \<open>bindE\<close> is \<open>await\<close> followed by the rest of the method (a throw skips
  the rest), \<open>catchE\<close> is \<open>try \<dots> catch\<close> (the handler runs on the state reached at
  the throw), \<open>modifyE\<close> is an assignment. Effects made before a throw are kept.
\<close>

type_synonym ('s, 'e, 'a) exc = "'s \<Rightarrow> 's \<times> ('e + 'a)"

definition returnE :: "'a \<Rightarrow> ('s, 'e, 'a) exc" where
  "returnE a = (\<lambda>s. (s, Inr a))"

definition throwE :: "'e \<Rightarrow> ('s, 'e, 'a) exc" where
  "throwE e = (\<lambda>s. (s, Inl e))"

definition bindE :: "('s, 'e, 'a) exc \<Rightarrow> ('a \<Rightarrow> ('s, 'e, 'b) exc) \<Rightarrow> ('s, 'e, 'b) exc" where
  "bindE m f = (\<lambda>s. case m s of (s', Inl e) \<Rightarrow> (s', Inl e) | (s', Inr a) \<Rightarrow> f a s')"

definition seqE :: "('s, 'e, 'a) exc \<Rightarrow> ('s, 'e, 'b) exc \<Rightarrow> ('s, 'e, 'b) exc" where
  "seqE m n = bindE m (\<lambda>_. n)"

definition catchE :: "('s, 'e, 'a) exc \<Rightarrow> ('e \<Rightarrow> ('s, 'e, 'a) exc) \<Rightarrow> ('s, 'e, 'a) exc" where
  "catchE m h = (\<lambda>s. case m s of (s', Inl e) \<Rightarrow> h e s' | (s', Inr a) \<Rightarrow> (s', Inr a))"

definition modifyE :: "('s \<Rightarrow> 's) \<Rightarrow> ('s, 'e, unit) exc" where
  "modifyE f = (\<lambda>s. (f s, Inr ()))"

definition getsE :: "('s \<Rightarrow> 'a) \<Rightarrow> ('s, 'e, 'a) exc" where
  "getsE f = (\<lambda>s. (s, Inr (f s)))"

text \<open>An invariant of computations: every run from a state satisfying it ends in one.\<close>

definition preservesE :: "('s \<Rightarrow> bool) \<Rightarrow> ('s, 'e, 'a) exc \<Rightarrow> bool" where
  "preservesE P m \<longleftrightarrow> (\<forall>s. P s \<longrightarrow> P (fst (m s)))"

text \<open>A pre- and postcondition of computations: every run from a state satisfying \<open>P\<close>
  ends, returning or throwing, in a state satisfying \<open>Q\<close>. Unlike an invariant it lets a
  method's later statements rely on what its earlier ones established.\<close>

definition validE :: "('s \<Rightarrow> bool) \<Rightarrow> ('s, 'e, 'a) exc \<Rightarrow> ('s \<Rightarrow> bool) \<Rightarrow> bool" where
  "validE P m Q \<longleftrightarrow> (\<forall>s. P s \<longrightarrow> Q (fst (m s)))"

subsection \<open>Lemmas on the helpers\<close>

lemma js_num_eq_iff [js_simps]: "js_num_eq x k \<longleftrightarrow> x = Num k"
  by (cases x) auto

lemma digit_char_hex [simp]: "d < 16 \<Longrightarrow> is_hex_char (digit_char d)"
  by (auto simp: digit_char_def is_hex_char_def Let_def)

lemma hex_val_digit_char [simp]: "d < 16 \<Longrightarrow> hex_val (digit_char d) = d"
  by (auto simp: digit_char_def hex_val_def Let_def)

lemma digit_char_not_space [simp]: "d < 16 \<Longrightarrow> \<not> is_js_space (digit_char d)"
  by (auto simp: digit_char_def is_js_space_def)

lemma digits_value_snoc [simp]:
  "digits_value b (ds @ [c]) = digits_value b ds * b + hex_val c"
  by (simp add: digits_value_def)

lemma radix_digits_lt [js_simps]: "n < b \<Longrightarrow> radix_digits b n = [digit_char n]"
  by (simp add: radix_digits.simps)

lemma radix_digits_ge [js_simps]:
  "2 \<le> b \<Longrightarrow> b \<le> n \<Longrightarrow> radix_digits b n = radix_digits b (n div b) @ [digit_char (n mod b)]"
  by (subst radix_digits.simps) simp

lemma radix_digits_nonempty [simp]: "radix_digits b n \<noteq> []"
  by (subst radix_digits.simps) simp

lemma radix_digits_hex: "c \<in> set (radix_digits 16 n) \<Longrightarrow> is_hex_char c"
proof (induction "16::nat" n rule: radix_digits.induct)
  case (1 n)
  then show ?case
    by (subst (asm) radix_digits.simps) (auto split: if_splits)
qed

lemma digits_value_radix_digits_gen:
  "2 \<le> b \<Longrightarrow> b \<le> 16 \<Longrightarrow> digits_value b (radix_digits b n) = n"
proof (induction b n rule: radix_digits.induct)
  case (1 b n)
  show ?case
  proof (cases "n < b")
    case True
    with "1.prems" show ?thesis
      by (subst radix_digits.simps) (simp add: digits_value_def)
  next
    case False
    from "1.prems" have "n mod b < 16"
      using mod_less_divisor [of b n] by linarith
    with False "1.prems" "1.IH" show ?thesis
      by (subst radix_digits.simps) simp
  qed
qed

lemma digits_value_radix_digits: "digits_value 16 (radix_digits 16 n) = n"
  by (rule digits_value_radix_digits_gen) simp_all

lemma radix_digits_10_inj: "radix_digits 10 m = radix_digits 10 n \<Longrightarrow> m = n"
proof -
  assume eq: "radix_digits 10 m = radix_digits 10 n"
  have "m = digits_value 10 (radix_digits 10 m)"
    by (rule digits_value_radix_digits_gen [symmetric]) simp_all
  also have "\<dots> = digits_value 10 (radix_digits 10 n)" by (simp only: eq)
  also have "\<dots> = n"
    by (rule digits_value_radix_digits_gen) simp_all
  finally show ?thesis .
qed

lemma radix_digits_hd:
  "2 \<le> b \<Longrightarrow> b \<le> 16 \<Longrightarrow> \<exists>d<16. hd (radix_digits b n) = digit_char d"
proof (induction b n rule: radix_digits.induct)
  case (1 b n)
  show ?case
  proof (cases "n < b")
    case True
    with "1.prems" have "n < 16" by simp
    with True show ?thesis by (subst radix_digits.simps) auto
  next
    case False
    with "1.prems" "1.IH" show ?thesis by (subst radix_digits.simps) simp
  qed
qed

lemma of_char_digit_char:
  "d < 16 \<Longrightarrow> (of_char (digit_char d) :: nat) = (if d < 10 then 48 + d else 87 + d)"
  by (simp add: digit_char_def)

lemma digit_char_neq:
  assumes "d < 16" and "(of_char c :: nat) < 48 \<or> (58 \<le> (of_char c :: nat) \<and> (of_char c :: nat) < 97)"
  shows "digit_char d \<noteq> c"
proof
  assume "digit_char d = c"
  then have "(of_char (digit_char d) :: nat) = of_char c" by simp
  with assms show False by (simp add: of_char_digit_char split: if_splits)
qed

lemma radix_digits_10_hd: "hd (radix_digits 10 n) \<noteq> CHR ''-'' \<and> hd (radix_digits 10 n) \<noteq> CHR ''N''"
proof -
  obtain d where "d < 16" and "hd (radix_digits 10 n) = digit_char d"
    using radix_digits_hd [of 10 n] by auto
  then show ?thesis using digit_char_neq [of d] by simp
qed

lemma int_to_radix_10_inj: "int_to_radix 10 i = int_to_radix 10 j \<Longrightarrow> i = j"
proof -
  assume eq: "int_to_radix 10 i = int_to_radix 10 j"
  have hd_i: "hd (int_to_radix 10 i) = CHR ''-'' \<longleftrightarrow> i < 0"
    and hd_j: "hd (int_to_radix 10 j) = CHR ''-'' \<longleftrightarrow> j < 0"
    using radix_digits_10_hd by (auto simp: int_to_radix_def)
  show "i = j"
  proof (cases "i < 0")
    case True
    with eq hd_i hd_j have "j < 0" and "radix_digits 10 (nat (- i)) = radix_digits 10 (nat (- j))"
      by (auto simp: int_to_radix_def)
    with True show ?thesis by (auto dest: radix_digits_10_inj)
  next
    case False
    with eq hd_i hd_j have "\<not> j < 0" and "radix_digits 10 (nat i) = radix_digits 10 (nat j)"
      by (auto simp: int_to_radix_def)
    with False show ?thesis by (auto dest: radix_digits_10_inj)
  qed
qed

lemma jsnum_to_string_inj: "jsnum_to_string x = jsnum_to_string y \<Longrightarrow> x = y"
proof -
  have nan: "int_to_radix 10 i \<noteq> ''NaN''" for i
  proof
    assume "int_to_radix 10 i = ''NaN''"
    then have "hd (int_to_radix 10 i) = CHR ''N''" by simp
    then show False using radix_digits_10_hd by (auto simp: int_to_radix_def split: if_splits)
  qed
  assume "jsnum_to_string x = jsnum_to_string y"
  with nan show "x = y"
    by (cases x; cases y) (auto simp: jsnum_to_string_def dest: int_to_radix_10_inj dest: sym)
qed

lemma radix_digits_hd_digit: "\<exists>d<16. hd (radix_digits 16 n) = digit_char d"
proof (induction "16::nat" n rule: radix_digits.induct)
  case (1 n)
  then show ?case
    by (subst radix_digits.simps) (auto split: if_splits)
qed

lemma takeWhile_all_hex: "takeWhile is_hex_char (radix_digits 16 n) = radix_digits 16 n"
  by (simp add: takeWhile_eq_all_conv radix_digits_hex)

text \<open>Printing in radix 16 behind a \<open>0x\<close> prefix and parsing back is the identity.\<close>

lemma parseInt_hex_0x: "parseInt_hex (''0x'' @ radix_digits 16 n) = Num (int n)"
proof -
  have sp: "\<not> is_js_space (CHR ''0'')" by (simp add: is_js_space_def)
  show ?thesis
    by (simp add: parseInt_hex_def sp takeWhile_all_hex digits_value_radix_digits)
qed

lemma jsnum_to_string_Num_nonneg [js_simps]:
  "0 \<le> i \<Longrightarrow> jsnum_to_string (Num i) = radix_digits 10 (nat i)"
  by (simp add: jsnum_to_string_def int_to_radix_def)


subsection \<open>Lemmas on the state-exception combinators\<close>

lemmas exc_defs = returnE_def throwE_def bindE_def seqE_def catchE_def modifyE_def getsE_def

lemma bindE_returnE [exc_simps]: "bindE (returnE a) f = f a"
  by (simp add: exc_defs)

lemma bindE_Inr [exc_simps]: "m s = (s', Inr a) \<Longrightarrow> bindE m f s = f a s'"
  by (simp add: bindE_def)

lemma bindE_Inl [exc_simps]: "m s = (s', Inl e) \<Longrightarrow> bindE m f s = (s', Inl e)"
  by (simp add: bindE_def)

lemma seqE_Inr [exc_simps]: "m s = (s', Inr a) \<Longrightarrow> seqE m n s = n s'"
  by (simp add: seqE_def bindE_def)

lemma seqE_Inl [exc_simps]: "m s = (s', Inl e) \<Longrightarrow> seqE m n s = (s', Inl e)"
  by (simp add: seqE_def bindE_def)

lemma catchE_Inr [exc_simps]: "m s = (s', Inr a) \<Longrightarrow> catchE m h s = (s', Inr a)"
  by (simp add: catchE_def)

lemma catchE_Inl [exc_simps]: "m s = (s', Inl e) \<Longrightarrow> catchE m h s = h e s'"
  by (simp add: catchE_def)

lemma modifyE_apply [exc_simps]: "modifyE f s = (f s, Inr ())"
  by (simp add: modifyE_def)

lemma getsE_apply [exc_simps]: "getsE f s = (s, Inr (f s))"
  by (simp add: getsE_def)

lemma returnE_apply [exc_simps]: "returnE a s = (s, Inr a)"
  by (simp add: returnE_def)

lemma throwE_apply [exc_simps]: "throwE e s = (s, Inl e)"
  by (simp add: throwE_def)

lemma preservesE_D: "preservesE P m \<Longrightarrow> P s \<Longrightarrow> m s = (s', r) \<Longrightarrow> P s'"
  by (metis fst_conv preservesE_def)

lemma preservesE_fst: "preservesE P m \<Longrightarrow> P s \<Longrightarrow> P (fst (m s))"
  by (simp add: preservesE_def)

lemma preserves_returnE [preserves_rules]: "preservesE P (returnE a)"
  and preserves_throwE [preserves_rules]: "preservesE P (throwE e)"
  and preserves_getsE [preserves_rules]: "preservesE P (getsE f)"
  by (simp_all add: preservesE_def exc_defs)

lemma preserves_modifyE [preserves_rules]:
  "(\<And>s. P s \<Longrightarrow> P (f s)) \<Longrightarrow> preservesE P (modifyE f)"
  by (simp add: preservesE_def modifyE_def)

lemma preserves_bindE [preserves_rules]:
  assumes "preservesE P m" and "\<And>a. preservesE P (f a)"
  shows "preservesE P (bindE m f)"
  unfolding preservesE_def
proof (intro allI impI)
  fix s assume "P s"
  obtain s' r where m: "m s = (s', r)" by (cases "m s")
  with assms(1) \<open>P s\<close> have "P s'" by (rule preservesE_D)
  with m assms(2) show "P (fst (bindE m f s))"
    by (cases r) (auto simp: bindE_def preservesE_def)
qed

lemma preserves_seqE [preserves_rules]:
  "preservesE P m \<Longrightarrow> preservesE P n \<Longrightarrow> preservesE P (seqE m n)"
  unfolding seqE_def by (rule preserves_bindE)

lemma preserves_catchE [preserves_rules]:
  assumes "preservesE P m" and "\<And>e. preservesE P (h e)"
  shows "preservesE P (catchE m h)"
  unfolding preservesE_def
proof (intro allI impI)
  fix s assume "P s"
  obtain s' r where m: "m s = (s', r)" by (cases "m s")
  with assms(1) \<open>P s\<close> have "P s'" by (rule preservesE_D)
  with m assms(2) show "P (fst (catchE m h s))"
    by (cases r) (auto simp: catchE_def preservesE_def)
qed

lemma preserves_if [preserves_rules]:
  "preservesE P m \<Longrightarrow> preservesE P n \<Longrightarrow> preservesE P (if b then m else n)"
  by simp

lemma preserves_option [preserves_rules]:
  "preservesE P m \<Longrightarrow> (\<And>a. preservesE P (f a)) \<Longrightarrow> preservesE P (case x of None \<Rightarrow> m | Some a \<Rightarrow> f a)"
  by (cases x) simp_all

subsection \<open>Rules for pre- and postconditions\<close>

text \<open>Each rule asks the intermediate condition to imply the final one, since a throw
  can end the computation at that point.\<close>

named_theorems valid_rules "rules for pre- and postconditions of state-exception computations"

lemma validE_preserves: "preservesE P m \<Longrightarrow> validE P m P"
  by (simp add: preservesE_def validE_def)

lemma validE_fst: "validE P m Q \<Longrightarrow> P s \<Longrightarrow> Q (fst (m s))"
  by (simp add: validE_def)

lemma validE_weaken:
  "validE P' m Q' \<Longrightarrow> (\<And>s. P s \<Longrightarrow> P' s) \<Longrightarrow> (\<And>s. Q' s \<Longrightarrow> Q s) \<Longrightarrow> validE P m Q"
  by (simp add: validE_def)

lemma validE_False: "(\<And>s. P s \<Longrightarrow> False) \<Longrightarrow> validE P m Q"
  unfolding validE_def by blast

lemma validE_modifyE [valid_rules]: "(\<And>s. P s \<Longrightarrow> Q (f s)) \<Longrightarrow> validE P (modifyE f) Q"
  by (simp add: validE_def modifyE_def)

lemma validE_returnE [valid_rules]: "(\<And>s. P s \<Longrightarrow> Q s) \<Longrightarrow> validE P (returnE a) Q"
  and validE_throwE [valid_rules]: "(\<And>s. P s \<Longrightarrow> Q s) \<Longrightarrow> validE P (throwE e) Q"
  by (simp_all add: validE_def exc_defs)

lemma validE_bindE [valid_rules]:
  assumes "validE P m R" and "\<And>a. validE R (f a) Q" and "\<And>s. R s \<Longrightarrow> Q s"
  shows "validE P (bindE m f) Q"
  unfolding validE_def
proof (intro allI impI)
  fix s assume "P s"
  obtain s' r where m: "m s = (s', r)" by (cases "m s")
  then have "R s'" using assms(1) \<open>P s\<close> by (metis fst_conv validE_def)
  with m assms(2,3) show "Q (fst (bindE m f s))"
    by (cases r) (auto simp: bindE_def validE_def)
qed

lemma validE_seqE [valid_rules]:
  "validE P m R \<Longrightarrow> validE R n Q \<Longrightarrow> (\<And>s. R s \<Longrightarrow> Q s) \<Longrightarrow> validE P (seqE m n) Q"
  unfolding seqE_def by (rule validE_bindE)

lemma validE_catchE [valid_rules]:
  assumes "validE P m R" and "\<And>e. validE R (h e) Q" and "\<And>s. R s \<Longrightarrow> Q s"
  shows "validE P (catchE m h) Q"
  unfolding validE_def
proof (intro allI impI)
  fix s assume "P s"
  obtain s' r where m: "m s = (s', r)" by (cases "m s")
  then have "R s'" using assms(1) \<open>P s\<close> by (metis fst_conv validE_def)
  with m assms(2,3) show "Q (fst (catchE m h s))"
    by (cases r) (auto simp: catchE_def validE_def)
qed

text \<open>A value read from the state is known to the rest of the method.\<close>

lemma validE_bind_getsE [valid_rules]:
  "(\<And>v. validE (\<lambda>s. P s \<and> g s = v) (f v) Q) \<Longrightarrow> validE P (bindE (getsE g) f) Q"
  by (simp add: validE_def exc_defs)

lemma validE_if [valid_rules]:
  "(b \<Longrightarrow> validE P m Q) \<Longrightarrow> (\<not> b \<Longrightarrow> validE P n Q) \<Longrightarrow> validE P (if b then m else n) Q"
  by simp

end
