(* ===== verification/Ether.thy ===== *)
theory Ether
  imports Prelude
begin

text \<open>
  The two unit conversions of the \<open>ethers\<close> library (version 6) that the vault service
  and the dialogs call: \<open>parseEther\<close> reads a decimal string as an amount of wei
  (\<open>parseUnits(value, 18)\<close>: the string must match \<open>^(-?)([0-9]*)\.?([0-9]*)$\<close>
  with at least one digit, digits past the 18th decimal must be zeros, and the value must
  fit a signed 512-bit integer; otherwise it throws), and \<open>formatEther\<close> prints an amount
  of wei with 18 decimals, without leading zeros of the integral part and without
  trailing zeros of the fraction, keeping one digit on each side of the point
  (\<open>1500000000000000000\<close> prints as \<open>1.5\<close>, \<open>0\<close> as \<open>0.0\<close>). The library is not
  code of the repository; its behaviour is modelled from its documentation. A throw is
  \<open>Inl\<close> with the library's message. The lemmas split a printed amount into its digits
  and show that \<open>parseEther\<close> reads every printed amount of the signed 512-bit range back.
\<close>

definition is_dec_char :: "char \<Rightarrow> bool" where
  "is_dec_char c \<longleftrightarrow> (let k = (of_char c :: nat) in 48 \<le> k \<and> k \<le> 57)"

definition trim_fraction :: "string \<Rightarrow> string" where
  "trim_fraction fs = (let t = rev (dropWhile (\<lambda>c. c = CHR ''0'') (rev fs)) in if t = [] then ''0'' else t)"

definition formatEther :: "int \<Rightarrow> string" where
  "formatEther v =
     (let a = nat \<bar>v\<bar>;
          f = radix_digits 10 (a mod 10 ^ 18);
          fs = replicate (18 - length f) CHR ''0'' @ f
      in (if v < 0 then ''-'' else []) @ radix_digits 10 (a div 10 ^ 18) @ ''.'' @ trim_fraction fs)"

definition parseEther :: "string \<Rightarrow> string + int" where
  "parseEther str =
     (let (neg, r) = (if str \<noteq> [] \<and> hd str = CHR ''-'' then (True, tl str) else (False, str));
          whole = takeWhile is_dec_char r;
          r2 = drop (length whole) r;
          r3 = (if r2 \<noteq> [] \<and> hd r2 = CHR ''.'' then tl r2 else r2);
          dec = takeWhile is_dec_char r3;
          rest = drop (length dec) r3
      in if rest \<noteq> [] \<or> whole @ dec = [] then Inl ''invalid FixedNumber string value''
         else if \<not> list_all (\<lambda>c. c = CHR ''0'') (drop 18 dec) then Inl ''too many decimals for format''
         else
           (let d = take 18 dec;
                v = int (digits_value 10 whole * 10 ^ 18 + digits_value 10 d * 10 ^ (18 - length d));
                sv = (if neg then - v else v)
            in if - (2 ^ 511) \<le> sv \<and> sv < 2 ^ 511 then Inr sv else Inl ''overflow''))"

lemma parseEther_examples:
  "parseEther ''1.5'' = Inr 1500000000000000000"
  "parseEther ''0'' = Inr 0"
  "parseEther ''abc'' = Inl ''invalid FixedNumber string value''"
  by (simp_all add: parseEther_def is_dec_char_def digits_value_def hex_val_def)

subsection \<open>Lemmas\<close>

lemma dec_not_sign: "is_dec_char c \<Longrightarrow> c \<noteq> CHR ''-'' \<and> c \<noteq> CHR ''+'' \<and> c \<noteq> CHR ''.'' \<and> c \<noteq> CHR ''I''"
  by (auto simp: is_dec_char_def)

lemma neg_numeral_le_of_nat [simp]: "- numeral n \<le> (of_nat x :: int)"
proof -
  have "0 < (numeral n :: int)" by simp
  then show ?thesis using of_nat_0_le_iff [of x] by linarith
qed

lemma takeWhile_dec_prefix:
  "list_all is_dec_char d1 \<Longrightarrow> (r = [] \<or> \<not> is_dec_char (hd r)) \<Longrightarrow> takeWhile is_dec_char (d1 @ r) = d1"
  by (induction d1) (auto simp: takeWhile_eq_Nil_iff neq_Nil_conv)

lemma takeWhile_list_all: "list_all P xs \<Longrightarrow> takeWhile P xs = xs"
  by (induction xs) auto

lemma digits_value_append: "digits_value b (xs @ ys) = digits_value b xs * b ^ length ys + digits_value b ys"
  by (induction ys rule: rev_induct) (simp_all add: digits_value_def algebra_simps)

lemma digit_char_dec: "d < 10 \<Longrightarrow> is_dec_char (digit_char d)"
  by (simp add: digit_char_def is_dec_char_def)

lemma radix_digits_dec: "list_all is_dec_char (radix_digits 10 n)"
proof (induction "10::nat" n rule: radix_digits.induct)
  case (1 n)
  then show ?case by (subst radix_digits.simps) (simp add: digit_char_dec)
qed

lemma radix_digits_length: "n < 10 ^ Suc k \<Longrightarrow> length (radix_digits 10 n) \<le> Suc k"
proof (induction k arbitrary: n)
  case 0
  then show ?case by (simp add: radix_digits_lt)
next
  case (Suc k)
  show ?case
  proof (cases "n < 10")
    case True
    then show ?thesis by (simp add: radix_digits_lt)
  next
    case False
    have "n div 10 < 10 ^ Suc k" using Suc.prems by (simp add: div_less_iff_less_mult mult.commute)
    then show ?thesis using Suc.IH False by (simp add: radix_digits_ge)
  qed
qed

lemma digits_value_zeros: "list_all (\<lambda>c. c = CHR ''0'') zs \<Longrightarrow> digits_value b zs = 0"
  by (induction zs rule: rev_induct) (simp_all add: hex_val_def digits_value_def)

lemma digits_value_replicate_zero: "digits_value b (replicate n CHR ''0'') = 0"
  by (rule digits_value_zeros) (simp add: list_all_iff)

lemma trim_fraction_value:
  assumes "length fs = 18"
  shows "digits_value 10 (trim_fraction fs) * 10 ^ (18 - length (trim_fraction fs)) = digits_value 10 fs \<and>
         length (trim_fraction fs) \<le> 18 \<and> trim_fraction fs \<noteq> [] \<and>
         (list_all is_dec_char fs \<longrightarrow> list_all is_dec_char (trim_fraction fs))"
proof -
  define t zs where "t = rev (dropWhile (\<lambda>c. c = CHR ''0'') (rev fs))"
    and "zs = rev (takeWhile (\<lambda>c. c = CHR ''0'') (rev fs))"
  have fs: "fs = t @ zs"
    using takeWhile_dropWhile_id [of "\<lambda>c. c = CHR ''0''" "rev fs"] unfolding t_def zs_def
    by (metis rev_append rev_rev_ident)
  have z: "list_all (\<lambda>c. c = CHR ''0'') zs" by (auto simp: zs_def list_all_iff dest: set_takeWhileD)
  have v: "digits_value 10 fs = digits_value 10 t * 10 ^ length zs"
    using fs z by (simp add: digits_value_append digits_value_zeros)
  have tf: "trim_fraction fs = (if t = [] then ''0'' else t)" by (simp add: trim_fraction_def t_def Let_def)
  have d: "list_all is_dec_char fs \<Longrightarrow> list_all is_dec_char t" using fs by simp
  have l: "length t + length zs = 18" using fs assms by (metis length_append)
  show ?thesis
  proof (cases "t = []")
    case True
    then show ?thesis using v tf by (simp add: digits_value_def hex_val_def is_dec_char_def)
  next
    case False
    have "18 - length t = length zs" using l by linarith
    then show ?thesis using False v tf d l by simp
  qed
qed

text \<open>A decimal string with at most 18 decimals, with or without a sign, reads as its
  value in wei, or overflows.\<close>

lemma parseEther_signed_decimal:
  assumes "d1 \<noteq> []" and "list_all is_dec_char d1" and "list_all is_dec_char d2" and "length d2 \<le> 18"
  shows "parseEther ((if neg then ''-'' else []) @ d1 @ (if d2 = [] then [] else CHR ''.'' # d2)) =
           (let w = int (digits_value 10 d1 * 10 ^ 18 + digits_value 10 d2 * 10 ^ (18 - length d2));
                sw = (if neg then - w else w)
            in if - (2 ^ 511) \<le> sw \<and> sw < 2 ^ 511 then Inr sw else Inl ''overflow'')"
proof -
  let ?s = "d1 @ (if d2 = [] then [] else CHR ''.'' # d2)"
  have h: "is_dec_char (hd d1)" using assms(1,2) by (cases d1) auto
  have ng: "hd ?s \<noteq> CHR ''-''" using assms(1) h dec_not_sign by (cases d1) auto
  have sp: "(if ((if neg then ''-'' else []) @ ?s) \<noteq> [] \<and> hd ((if neg then ''-'' else []) @ ?s) = CHR ''-''
             then (True, tl ((if neg then ''-'' else []) @ ?s)) else (False, (if neg then ''-'' else []) @ ?s)) = (neg, ?s)"
    using ng assms(1) by auto
  have tw: "takeWhile is_dec_char ?s = d1"
    by (rule takeWhile_dec_prefix [OF assms(2)]) (simp add: is_dec_char_def)
  have tw2: "takeWhile is_dec_char d2 = d2" by (rule takeWhile_list_all [OF assms(3)])
  have dr: "drop 18 d2 = []" using assms(4) by simp
  have tk: "take 18 d2 = d2" using assms(4) by simp
  show ?thesis
    unfolding parseEther_def sp
    using assms(1) tw tw2 dr tk
    by (cases "d2 = []") (simp_all add: Let_def del: takeWhile_eq_all_conv of_nat_add of_nat_mult)
qed

text \<open>The printed form of an amount: a sign, the integral digits, a point and one to 18
  decimals, whose value is the amount.\<close>

lemma formatEther_split:
  obtains W T where "formatEther v = (if v < 0 then ''-'' else []) @ W @ CHR ''.'' # T"
    and "W \<noteq> []" and "list_all is_dec_char W" and "T \<noteq> []" and "list_all is_dec_char T" and "length T \<le> 18"
    and "int (digits_value 10 W * 10 ^ 18 + digits_value 10 T * 10 ^ (18 - length T)) = \<bar>v\<bar>"
proof -
  define a where "a = nat \<bar>v\<bar>"
  define W f where "W = radix_digits 10 (a div 10 ^ 18)" and "f = radix_digits 10 (a mod 10 ^ 18)"
  define fs where "fs = replicate (18 - length f) CHR ''0'' @ f"
  have lf: "length f \<le> 18" using radix_digits_length [of "a mod 10 ^ 18" 17] by (simp add: f_def)
  have lfs: "length fs = 18" using lf by (simp add: fs_def)
  have dfs: "list_all is_dec_char fs" using radix_digits_dec [of "a mod 10 ^ 18"]
    by (auto simp: fs_def f_def list_all_iff is_dec_char_def)
  have vfs: "digits_value 10 fs = a mod 10 ^ 18"
    by (simp add: fs_def f_def digits_value_append digits_value_replicate_zero digits_value_radix_digits_gen)
  obtain T where T: "T = trim_fraction fs" by simp
  have t: "digits_value 10 T * 10 ^ (18 - length T) = a mod 10 ^ 18" "length T \<le> 18" "T \<noteq> []" "list_all is_dec_char T"
    using trim_fraction_value [OF lfs] dfs vfs T by auto
  have fe: "formatEther v = (if v < 0 then ''-'' else []) @ W @ CHR ''.'' # T"
    by (simp add: formatEther_def a_def W_def f_def fs_def T Let_def)
  have w: "int (digits_value 10 W * 10 ^ 18 + digits_value 10 T * 10 ^ (18 - length T)) = \<bar>v\<bar>"
    using t(1) by (simp add: W_def a_def digits_value_radix_digits_gen)
  show ?thesis using that [OF fe _ _ t(3,4,2) w] by (simp add: W_def radix_digits_dec)
qed

theorem formatEther_roundtrip:
  assumes "- (2 ^ 511) \<le> v" and "v < 2 ^ 511"
  shows "parseEther (formatEther v) = Inr v"
proof -
  obtain W T where fe: "formatEther v = (if v < 0 then ''-'' else []) @ W @ CHR ''.'' # T"
    and w: "W \<noteq> []" "list_all is_dec_char W" and t: "T \<noteq> []" "list_all is_dec_char T" "length T \<le> 18"
    and val: "int (digits_value 10 W * 10 ^ 18 + digits_value 10 T * 10 ^ (18 - length T)) = \<bar>v\<bar>"
    by (rule formatEther_split)
  have sv: "(if v < 0 then - \<bar>v\<bar> else \<bar>v\<bar>) = v" by simp
  have "parseEther (formatEther v) =
          parseEther ((if v < 0 then ''-'' else []) @ W @ (if T = [] then [] else CHR ''.'' # T))"
    using fe t(1) by simp
  also have "\<dots> = Inr v"
    unfolding parseEther_signed_decimal [OF w t(2,3), of "v < 0"] val Let_def sv using assms by simp
  finally show ?thesis .
qed

end
