(* ===== verification/JsNumber.thy ===== *)
theory JsNumber
  imports Complex_Main Ether
begin

text \<open>
  JavaScript numbers as IEEE-754 binary64 values, for the parts of the client that read
  decimal strings with \<open>parseFloat\<close> and compare them (the dialogs' validators and
  balance check, the components' helpers). A finite double is its exact rational value
  (\<open>-0\<close> is identified with \<open>0\<close>); \<open>nearest_double a b\<close> is the double nearest to
  \<open>a / b\<close>, ties to even, with the subnormal range and overflow to \<open>Infinity\<close>;
  \<open>parseFloat\<close> follows ECMAScript (leading white space, sign, \<open>Infinity\<close>, the longest
  decimal prefix with fraction and exponent, \<open>NaN\<close> when there is no digit), white space
  being its ASCII part as for \<open>parseInt\<close>. Comparison is \<open>js_less\<close>, false when either
  side is \<open>NaN\<close>.
\<close>

datatype jsdouble = Fin rat | PInf | NInf | DNaN

function nbits :: "nat \<Rightarrow> nat" where
  "nbits n = (if n = 0 then 0 else Suc (nbits (n div 2)))"
  by pat_completeness auto
termination by (relation "measure id") auto

declare nbits.simps [simp del]

text \<open>\<open>\<lfloor>log\<^sub>2 (a / b)\<rfloor>\<close> for positive \<open>a\<close> and \<open>b\<close>: the difference of the bit lengths or
  one less.\<close>

definition floor_log2 :: "nat \<Rightarrow> nat \<Rightarrow> int" where
  "floor_log2 a b =
     (let k = int (nbits a) - int (nbits b)
      in if (if 0 \<le> k then b * 2 ^ nat k \<le> a else b \<le> a * 2 ^ nat (- k)) then k else k - 1)"

text \<open>The integer nearest to \<open>n / d\<close>, ties to even.\<close>

definition round_div :: "nat \<Rightarrow> nat \<Rightarrow> nat" where
  "round_div n d =
     (let q = n div d; r = n mod d
      in if 2 * r < d then q else if d < 2 * r then q + 1 else if even q then q else q + 1)"

definition pow2 :: "int \<Rightarrow> rat" where
  "pow2 k = (if 0 \<le> k then 2 ^ nat k else 1 / 2 ^ nat (- k))"

definition nearest_double :: "nat \<Rightarrow> nat \<Rightarrow> jsdouble" where
  "nearest_double a b =
     (if a = 0 then Fin 0
      else
        (let e = max (floor_log2 a b - 52) (- 1074);
             m = (if 0 \<le> e then round_div a (b * 2 ^ nat e) else round_div (a * 2 ^ nat (- e)) b)
         in if 2 ^ 1024 \<le> of_nat m * pow2 e then PInf else Fin (of_nat m * pow2 e)))"

fun neg_double :: "jsdouble \<Rightarrow> jsdouble" where
  "neg_double (Fin x) = Fin (- x)"
| "neg_double PInf = NInf"
| "neg_double NInf = PInf"
| "neg_double DNaN = DNaN"

fun js_less :: "jsdouble \<Rightarrow> jsdouble \<Rightarrow> bool" where
  "js_less DNaN y = False"
| "js_less x DNaN = False"
| "js_less NInf y = (y \<noteq> NInf)"
| "js_less x NInf = False"
| "js_less PInf y = False"
| "js_less x PInf = True"
| "js_less (Fin a) (Fin b) = (a < b)"

fun is_nan :: "jsdouble \<Rightarrow> bool" where
  "is_nan DNaN = True"
| "is_nan x = False"

definition is_exp_char :: "char \<Rightarrow> bool" where
  "is_exp_char c \<longleftrightarrow> c = CHR ''e'' \<or> c = CHR ''E''"

text \<open>An optional sign in front of a string: whether it is \<open>-\<close>, and the rest.\<close>

definition split_sign :: "string \<Rightarrow> bool \<times> string" where
  "split_sign r =
     (if r \<noteq> [] \<and> hd r = CHR ''-'' then (True, tl r)
      else if r \<noteq> [] \<and> hd r = CHR ''+'' then (False, tl r) else (False, r))"

text \<open>The exponent of a decimal literal: \<open>e\<close> or \<open>E\<close>, a sign, digits; \<open>0\<close> when
  there is no complete exponent (the \<open>e\<close> is then not part of the literal).\<close>

definition exponent_part :: "string \<Rightarrow> int" where
  "exponent_part r =
     (if r \<noteq> [] \<and> is_exp_char (hd r) then
        (case split_sign (tl r) of
           (eneg, r') \<Rightarrow>
             (let ds = takeWhile is_dec_char r'
              in if ds = [] then 0
                 else if eneg then - int (digits_value 10 ds) else int (digits_value 10 ds)))
      else 0)"

definition parseFloat :: "string \<Rightarrow> jsdouble" where
  "parseFloat str =
     (case split_sign (dropWhile is_js_space str) of
        (neg, r) \<Rightarrow>
          (let sg = (\<lambda>x. if neg then neg_double x else x)
           in if take 8 r = ''Infinity'' then sg PInf
              else
                (let d1 = takeWhile is_dec_char r;
                     r1 = drop (length d1) r;
                     frac = (r1 \<noteq> [] \<and> hd r1 = CHR ''.'');
                     d2 = (if frac then takeWhile is_dec_char (tl r1) else []);
                     r2 = (if frac then drop (length d2) (tl r1) else r1);
                     x = exponent_part r2 - int (length d2);
                     n = digits_value 10 (d1 @ d2)
                 in if d1 @ d2 = [] then DNaN
                    else sg (if 0 \<le> x then nearest_double (n * 10 ^ nat x) 1
                             else nearest_double n (10 ^ nat (- x))))))"

text \<open>The double nearest to a rational, and the operations \<open>/\<close>, \<open>*\<close>, \<open><=\<close> and
  \<open>Math.min\<close> on doubles (IEEE-754 with round to nearest; signed zeros are not
  distinguished, so \<open>x / 0\<close> is \<open>Infinity\<close> with the sign of \<open>x\<close>).\<close>

definition round_rat :: "rat \<Rightarrow> jsdouble" where
  "round_rat q =
     (case quotient_of \<bar>q\<bar> of
        (a, b) \<Rightarrow> if q < 0 then neg_double (nearest_double (nat a) (nat b)) else nearest_double (nat a) (nat b))"

fun js_div :: "jsdouble \<Rightarrow> jsdouble \<Rightarrow> jsdouble" where
  "js_div (Fin a) (Fin b) =
     (if b = 0 then (if a = 0 then DNaN else if 0 < a then PInf else NInf) else round_rat (a / b))"
| "js_div DNaN y = DNaN"
| "js_div x DNaN = DNaN"
| "js_div (Fin a) y = Fin 0"
| "js_div x (Fin b) = (if b < 0 then neg_double x else x)"
| "js_div x y = DNaN"

fun js_mul :: "jsdouble \<Rightarrow> jsdouble \<Rightarrow> jsdouble" where
  "js_mul (Fin a) (Fin b) = round_rat (a * b)"
| "js_mul DNaN y = DNaN"
| "js_mul x DNaN = DNaN"
| "js_mul (Fin a) y = (if a = 0 then DNaN else if a < 0 then neg_double y else y)"
| "js_mul x (Fin b) = (if b = 0 then DNaN else if b < 0 then neg_double x else x)"
| "js_mul PInf y = y"
| "js_mul NInf y = neg_double y"

definition js_le :: "jsdouble \<Rightarrow> jsdouble \<Rightarrow> bool" where
  "js_le x y \<longleftrightarrow> \<not> is_nan x \<and> \<not> is_nan y \<and> \<not> js_less y x"

definition js_min :: "jsdouble \<Rightarrow> jsdouble \<Rightarrow> jsdouble" where
  "js_min x y = (if is_nan x \<or> is_nan y then DNaN else if js_less y x then y else x)"

subsection \<open>Lemmas\<close>

lemma nbits_pos: "0 < n \<Longrightarrow> nbits n = Suc (nbits (n div 2))"
  by (simp add: nbits.simps)

lemma nbits_0 [simp]: "nbits 0 = 0"
  by (simp add: nbits.simps)

lemma nearest_double_0 [simp]: "nearest_double 0 b = Fin 0"
  by (simp add: nearest_double_def)

lemma dec_not_space: "is_dec_char c \<Longrightarrow> \<not> is_js_space c"
  by (auto simp: is_dec_char_def is_js_space_def Let_def)

lemma parseFloat_decimal:
  assumes "d1 \<noteq> []" and "list_all is_dec_char d1" and "list_all is_dec_char d2"
  shows "parseFloat (d1 @ (if d2 = [] then [] else CHR ''.'' # d2)) =
           nearest_double (digits_value 10 (d1 @ d2)) (10 ^ length d2)"
proof -
  let ?s = "d1 @ (if d2 = [] then [] else CHR ''.'' # d2)"
  have h: "is_dec_char (hd d1)" using assms(1,2) by (cases d1) auto
  have sp: "dropWhile is_js_space ?s = ?s" using assms(1) h dec_not_space by (cases d1) auto
  have sg: "split_sign ?s = (False, ?s)" using assms(1) h dec_not_sign by (cases d1) (auto simp: split_sign_def)
  have inf: "take 8 ?s \<noteq> ''Infinity''" using assms(1) h dec_not_sign by (cases d1) auto
  have tw: "takeWhile is_dec_char ?s = d1"
    by (rule takeWhile_dec_prefix [OF assms(2)]) (simp add: is_dec_char_def)
  show ?thesis
  proof (cases "d2 = []")
    case True
    have tw1: "takeWhile is_dec_char d1 = d1" by (rule takeWhile_list_all [OF assms(2)])
    show ?thesis using True sp sg inf tw1 assms(1)
      by (simp add: parseFloat_def exponent_part_def Let_def del: takeWhile_eq_all_conv)
  next
    case False
    have tw2: "takeWhile is_dec_char d2 = d2" by (rule takeWhile_list_all [OF assms(3)])
    show ?thesis using False sp sg inf tw tw2 assms(1)
      by (simp add: parseFloat_def exponent_part_def Let_def del: takeWhile_eq_all_conv)
  qed
qed

text \<open>Rounding a non-negative value gives a non-negative double or \<open>Infinity\<close>.\<close>

lemma nearest_double_nonneg: "nearest_double a b = PInf \<or> (\<exists>r. nearest_double a b = Fin r \<and> 0 \<le> r)"
  by (auto simp: nearest_double_def Let_def pow2_def)

lemma round_rat_nonneg:
  assumes "0 \<le> q"
  shows "round_rat q = PInf \<or> (\<exists>r. round_rat q = Fin r \<and> 0 \<le> r)"
  using assms nearest_double_nonneg by (auto simp: round_rat_def split: prod.split)

subsection \<open>Rounding is monotone\<close>

text \<open>The bit lengths bound a number; \<open>floor_log2\<close> is the binary logarithm rounded down;
  \<open>round_div\<close> is within one half of the quotient and even on a tie; so rounding to the
  nearest double is monotone, across the binades and the subnormal range.\<close>

lemma nbits_bounds: "0 < n \<Longrightarrow> 2 ^ (nbits n - 1) \<le> n \<and> n < 2 ^ nbits n"
proof (induction n rule: nbits.induct)
  case (1 n)
  show ?case
  proof (cases "n div 2 = 0")
    case True
    then have "n = 1" using "1.prems" by auto
    then show ?thesis by (simp add: nbits_pos)
  next
    case False
    then have ih: "2 ^ (nbits (n div 2) - 1) \<le> n div 2 \<and> n div 2 < 2 ^ nbits (n div 2)"
      using "1.IH" "1.prems" by simp
    obtain k where k: "nbits (n div 2) = Suc k" using False by (simp add: nbits_pos)
    have n: "nbits n = Suc (Suc k)" using "1.prems" k by (simp add: nbits_pos)
    have "2 ^ k \<le> n div 2" "n div 2 < 2 * 2 ^ k" using ih k by simp_all
    moreover have "n div 2 * 2 + n mod 2 = n" "n mod 2 < 2" by simp_all
    ultimately show ?thesis using n by simp linarith
  qed
qed

lemma pow2_powi: "pow2 k = (2::rat) powi k"
  by (simp add: pow2_def power_int_def power_one_over)

lemma powi_nat: "(2::rat) powi int n = 2 ^ n"
  by (simp add: power_int_def)

lemma nbits_rat:
  assumes "0 < n"
  shows "(2::rat) powi (int (nbits n) - 1) \<le> of_nat n \<and> of_nat n < (2::rat) powi int (nbits n)"
proof -
  have b: "2 ^ (nbits n - 1) \<le> n" "n < 2 ^ nbits n" using nbits_bounds [OF assms] by auto
  have p: "0 < nbits n" using assms by (simp add: nbits_pos)
  then have e: "int (nbits n) - 1 = int (nbits n - 1)" by simp
  have "(2::rat) ^ (nbits n - 1) \<le> of_nat n" using b(1) by (metis of_nat_le_iff of_nat_numeral of_nat_power)
  moreover have "of_nat n < (2::rat) ^ nbits n" using b(2) by (metis of_nat_less_iff of_nat_numeral of_nat_power)
  ultimately show ?thesis by (simp only: e powi_nat)
qed

lemma floor_log2_cond:
  "(if 0 \<le> k then b * 2 ^ nat k \<le> a else b \<le> a * 2 ^ nat (- k)) \<longleftrightarrow>
   (2::rat) powi k * of_nat b \<le> of_nat a"
proof (cases "0 \<le> k")
  case True
  then have "(2::rat) powi k = 2 ^ nat k" by (simp add: power_int_def)
  then show ?thesis using True by (simp add: mult.commute) (metis of_nat_le_iff of_nat_mult of_nat_numeral of_nat_power)
next
  case False
  then have "(2::rat) powi k = 1 / 2 ^ nat (- k)" by (simp add: power_int_def power_one_over)
  moreover have "(of_nat b \<le> of_nat a * (2::rat) ^ nat (- k)) \<longleftrightarrow> b \<le> a * 2 ^ nat (- k)"
    by (metis of_nat_le_iff of_nat_mult of_nat_numeral of_nat_power)
  ultimately show ?thesis using False by (simp add: divide_le_eq mult.commute)
qed

lemma floor_log2_bounds:
  assumes "0 < a" and "0 < b"
  shows "(2::rat) powi floor_log2 a b * of_nat b \<le> of_nat a \<and>
         of_nat a < (2::rat) powi (floor_log2 a b + 1) * of_nat b"
proof -
  define k where "k = int (nbits a) - int (nbits b)"
  have na: "(2::rat) powi (int (nbits a) - 1) \<le> of_nat a" "of_nat a < (2::rat) powi int (nbits a)"
    using nbits_rat [OF assms(1)] by auto
  have nb: "(2::rat) powi (int (nbits b) - 1) \<le> of_nat b" "of_nat b < (2::rat) powi int (nbits b)"
    using nbits_rat [OF assms(2)] by auto
  have s1: "(2::rat) powi (k + 1) * 2 powi (int (nbits b) - 1) = 2 powi int (nbits a)"
    by (simp add: k_def flip: power_int_add)
  have s2: "(2::rat) powi (k - 1) * 2 powi int (nbits b) = 2 powi (int (nbits a) - 1)"
    by (subst power_int_add [symmetric]) (simp_all add: k_def)
  have hi: "of_nat a < (2::rat) powi (k + 1) * of_nat b"
  proof -
    have "(2::rat) powi (k + 1) * 2 powi (int (nbits b) - 1) \<le> 2 powi (k + 1) * of_nat b"
      using nb(1) by (simp add: mult_left_mono)
    then show ?thesis using na(2) s1 by linarith
  qed
  have lo: "(2::rat) powi (k - 1) * of_nat b < of_nat a"
  proof -
    have "(2::rat) powi (k - 1) * of_nat b < 2 powi (k - 1) * 2 powi int (nbits b)"
      using nb(2) by simp
    then show ?thesis using na(1) s2 by linarith
  qed
  have fl: "floor_log2 a b = (if (2::rat) powi k * of_nat b \<le> of_nat a then k else k - 1)"
    by (simp only: floor_log2_def Let_def k_def [symmetric] floor_log2_cond)
  show ?thesis using fl hi lo by (cases "(2::rat) powi k * of_nat b \<le> of_nat a") simp_all
qed


lemma round_div_int:
  assumes "0 < d"
  shows "2 * \<bar>int (round_div n d) * int d - int n\<bar> \<le> int d \<and>
         (2 * \<bar>int (round_div n d) * int d - int n\<bar> = int d \<longrightarrow> even (round_div n d))"
proof -
  define q r where "q = n div d" and "r = n mod d"
  have n: "int n = int q * int d + int r" by (simp add: q_def r_def flip: of_nat_mult of_nat_add)
  have r: "r < d" using assms by (simp add: r_def)
  have rd: "round_div n d = (if 2 * r < d then q else if d < 2 * r then q + 1 else if even q then q else q + 1)"
    by (simp add: round_div_def q_def r_def Let_def)
  have dq: "int q * int d - int n = - int r" using n by simp
  have dq1: "int (q + 1) * int d - int n = int d - int r" using n by (simp add: algebra_simps)
  consider (lo) "2 * r < d" | (hi) "d < 2 * r" | (tie) "2 * r = d" by linarith
  then show ?thesis
  proof cases
    case lo
    then show ?thesis using rd dq by simp
  next
    case hi
    then show ?thesis using rd dq1 r by simp
  next
    case tie
    then show ?thesis using rd dq dq1 by (cases "even q") simp_all
  qed
qed

lemma round_div_rat:
  assumes "0 < d"
  shows "2 * \<bar>of_nat (round_div n d) - of_nat n / of_nat d\<bar> \<le> (1::rat) \<and>
         (2 * \<bar>of_nat (round_div n d) - of_nat n / of_nat d\<bar> = (1::rat) \<longrightarrow> even (round_div n d))"
proof -
  define z where "z = int (round_div n d) * int d - int n"
  define D where "D = (of_nat d :: rat)"
  have d: "0 < D" using assms by (simp add: D_def)
  have zr: "(of_int z :: rat) = of_nat (round_div n d) * D - of_nat n" by (simp add: z_def D_def)
  have e: "of_nat (round_div n d) - of_nat n / D = of_int z / D"
    using d by (simp add: zr diff_divide_distrib)
  have a: "2 * \<bar>(of_int z :: rat) / D\<bar> = of_int (2 * \<bar>z\<bar>) / D"
    using d by (simp add: abs_divide)
  have i: "2 * \<bar>z\<bar> \<le> int d" "2 * \<bar>z\<bar> = int d \<Longrightarrow> even (round_div n d)"
    using round_div_int [OF assms] by (auto simp: z_def)
  have "of_int (2 * \<bar>z\<bar>) / D \<le> 1" using i(1) d by (simp add: divide_le_eq_1_pos D_def)
  moreover have "even (round_div n d)" if h: "of_int (2 * \<bar>z\<bar>) / D = 1"
  proof -
    have "(of_int (2 * \<bar>z\<bar>) :: rat) = of_int (int d)"
      using h d by (simp only: divide_eq_1_iff D_def of_int_of_nat_eq)
    then show ?thesis using i(2) by (simp only: of_int_eq_iff)
  qed
  ultimately show ?thesis using e a by (simp add: D_def)
qed

lemma abs_half: "2 * \<bar>t\<bar> \<le> (1::rat) \<Longrightarrow> t \<le> 1 / 2 \<and> - (1 / 2) \<le> t"
  by linarith

lemma nearest_even_mono:
  fixes x y :: rat
  assumes "2 * \<bar>of_nat m1 - x\<bar> \<le> 1" "2 * \<bar>of_nat m1 - x\<bar> = 1 \<Longrightarrow> even m1"
    and "2 * \<bar>of_nat m2 - y\<bar> \<le> 1" "2 * \<bar>of_nat m2 - y\<bar> = 1 \<Longrightarrow> even m2"
    and "x \<le> y"
  shows "m1 \<le> m2"
proof (rule ccontr)
  assume "\<not> m1 \<le> m2"
  then have c: "(of_nat m2 :: rat) + 1 \<le> of_nat m1" by simp
  define M1 M2 where "M1 = (of_nat m1 :: rat)" and "M2 = (of_nat m2 :: rat)"
  have a1: "M1 - x \<le> 1 / 2" using abs_half [OF assms(1)] by (simp add: M1_def)
  have a2: "- (1 / 2) \<le> M2 - y" using abs_half [OF assms(3)] by (simp add: M2_def)
  have e1: "M1 - x = 1 / 2" using a1 a2 assms(5) c unfolding M1_def [symmetric] M2_def [symmetric] by linarith
  have e2: "M2 - y = - 1 / 2" using a1 a2 assms(5) c unfolding M1_def [symmetric] M2_def [symmetric] by linarith
  have e3: "M1 = M2 + 1" using a1 a2 assms(5) c unfolding M1_def [symmetric] M2_def [symmetric] by linarith
  have "even m1" using assms(2) e1 by (simp add: M1_def)
  moreover have "even m2" using assms(4) e2 by (simp add: M2_def)
  moreover have "m1 = m2 + 1" using e3 unfolding M1_def M2_def by (metis of_nat_1 of_nat_add of_nat_eq_iff)
  ultimately show False by simp
qed

lemma nearest_double_repr:
  assumes "0 < a" and "0 < b"
  shows "\<exists>m. nearest_double a b =
              (if 2 ^ 1024 \<le> (of_nat m :: rat) * 2 powi max (floor_log2 a b - 52) (- 1074) then PInf
               else Fin (of_nat m * 2 powi max (floor_log2 a b - 52) (- 1074))) \<and>
            2 * \<bar>of_nat m - of_nat a / (of_nat b * 2 powi max (floor_log2 a b - 52) (- 1074))\<bar> \<le> (1::rat) \<and>
            (2 * \<bar>of_nat m - of_nat a / (of_nat b * 2 powi max (floor_log2 a b - 52) (- 1074))\<bar> = (1::rat) \<longrightarrow> even m)"
proof -
  define E where "E = max (floor_log2 a b - 52) (- 1074)"
  define m where "m = (if 0 \<le> E then round_div a (b * 2 ^ nat E) else round_div (a * 2 ^ nat (- E)) b)"
  have nd: "nearest_double a b = (if 2 ^ 1024 \<le> (of_nat m :: rat) * 2 powi E then PInf else Fin (of_nat m * 2 powi E))"
    using assms(1) by (simp add: nearest_double_def E_def m_def Let_def pow2_powi)
  have r: "2 * \<bar>of_nat m - of_nat a / (of_nat b * 2 powi E)\<bar> \<le> (1::rat) \<and>
           (2 * \<bar>of_nat m - of_nat a / (of_nat b * 2 powi E)\<bar> = (1::rat) \<longrightarrow> even m)"
  proof (cases "0 \<le> E")
    case True
    have q: "of_nat a / (of_nat b * 2 powi E) = of_nat a / (of_nat (b * 2 ^ nat E) :: rat)"
      using True by (simp add: power_int_def)
    have "m = round_div a (b * 2 ^ nat E)" using True by (simp add: m_def)
    then show ?thesis using round_div_rat [of "b * 2 ^ nat E" a] assms(2) by (simp only: q) simp
  next
    case False
    have q: "of_nat a / (of_nat b * 2 powi E) = of_nat (a * 2 ^ nat (- E)) / (of_nat b :: rat)"
      using False by (simp add: power_int_def power_one_over)
    have "m = round_div (a * 2 ^ nat (- E)) b" using False by (simp add: m_def)
    then show ?thesis using round_div_rat [of b "a * 2 ^ nat (- E)"] assms(2) by (simp only: q) simp
  qed
  show ?thesis unfolding E_def [symmetric] by (rule exI [of _ m]) (rule conjI [OF nd r])
qed

lemma floor_log2_div:
  assumes "0 < a" and "0 < b"
  shows "(2::rat) powi floor_log2 a b \<le> of_nat a / of_nat b \<and> of_nat a / of_nat b < (2::rat) powi (floor_log2 a b + 1)"
  using floor_log2_bounds [OF assms] assms(2) by (simp add: pos_le_divide_eq pos_divide_less_eq)

lemma floor_log2_mono:
  assumes "0 < a" "0 < b" "0 < c" "0 < d" and "of_nat a / of_nat b \<le> (of_nat c / of_nat d :: rat)"
  shows "floor_log2 a b \<le> floor_log2 c d"
proof (rule ccontr)
  assume "\<not> floor_log2 a b \<le> floor_log2 c d"
  then have "(2::rat) powi (floor_log2 c d + 1) \<le> 2 powi floor_log2 a b"
    by (intro power_int_increasing) simp_all
  then show False using floor_log2_div [OF assms(1,2)] floor_log2_div [OF assms(3,4)] assms(5) by linarith
qed

lemma round_le_pow: "2 * \<bar>of_nat m - t\<bar> \<le> (1::rat) \<Longrightarrow> t < 2 ^ k \<Longrightarrow> of_nat m \<le> (2::rat) ^ k"
proof -
  assume a: "2 * \<bar>of_nat m - t\<bar> \<le> (1::rat)" and t: "t < 2 ^ k"
  define M where "M = (of_nat m :: rat)"
  have "M - t \<le> 1 / 2" using abs_half [OF a] by (simp add: M_def)
  then have "(of_nat m :: rat) < of_nat (2 ^ k) + 1" using t unfolding M_def by simp
  then have "m \<le> 2 ^ k" by (metis of_nat_1 of_nat_add of_nat_less_iff less_Suc_eq_le Suc_eq_plus1)
  then show ?thesis by (metis of_nat_le_iff of_nat_numeral of_nat_power)
qed

lemma round_ge_pow: "2 * \<bar>of_nat m - t\<bar> \<le> (1::rat) \<Longrightarrow> 2 ^ k \<le> t \<Longrightarrow> (2::rat) ^ k \<le> of_nat m"
proof -
  assume a: "2 * \<bar>of_nat m - t\<bar> \<le> (1::rat)" and t: "2 ^ k \<le> t"
  define M where "M = (of_nat m :: rat)"
  have "- (1 / 2) \<le> M - t" using abs_half [OF a] by (simp add: M_def)
  then have "(of_nat (2 ^ k) :: rat) < of_nat m + 1" using t unfolding M_def by simp
  then have "2 ^ k \<le> m" by (metis of_nat_1 of_nat_add of_nat_less_iff less_Suc_eq_le Suc_eq_plus1)
  then show ?thesis by (metis of_nat_le_iff of_nat_numeral of_nat_power)
qed

lemma powi_add_numeral: "(2::rat) powi (e + numeral n) = 2 powi e * 2 ^ numeral n"
  by (simp add: power_int_add)

lemma scaled_round_mono:
  fixes x y :: rat
  assumes ex: "ex = max (kx - 52) (- 1074)" and ey: "ey = max (ky - 52) (- 1074)"
    and bx: "x < 2 powi (kx + 1)" and bpy: "2 powi ky \<le> y" and kxy: "kx \<le> ky" and xy: "x \<le> y"
    and mx: "2 * \<bar>of_nat mx - x / 2 powi ex\<bar> \<le> 1" "2 * \<bar>of_nat mx - x / 2 powi ex\<bar> = 1 \<Longrightarrow> even mx"
    and my: "2 * \<bar>of_nat my - y / 2 powi ey\<bar> \<le> 1" "2 * \<bar>of_nat my - y / 2 powi ey\<bar> = 1 \<Longrightarrow> even my"
  shows "(of_nat mx :: rat) * 2 powi ex \<le> of_nat my * 2 powi ey"
proof -
  have px: "(0::rat) < 2 powi ex" and py: "(0::rat) < 2 powi ey" by simp_all
  have "ex \<le> ey" using ex ey kxy by simp
  then consider (eq) "ex = ey" | (lt) "ex < ey" by linarith
  then show ?thesis
  proof cases
    case eq
    have "x / 2 powi ex \<le> y / 2 powi ey" using xy px eq by (simp add: divide_right_mono)
    then have "mx \<le> my" using nearest_even_mono [of mx "x / 2 powi ex" my "y / 2 powi ey"] mx my by blast
    then show ?thesis using eq px by (simp add: mult_right_mono)
  next
    case lt
    have ey': "ey = ky - 52" using lt ex ey by (simp add: max_def split: if_splits)
    have "(2::rat) powi (kx + 1) \<le> 2 powi (ex + 53)" using ex by (intro power_int_increasing) simp_all
    then have "x < 2 powi ex * 2 ^ 53" using bx by (simp only: powi_add_numeral)
    then have "x / 2 powi ex < 2 ^ 53" using px by (simp add: pos_divide_less_eq mult.commute)
    then have m1: "of_nat mx \<le> (2::rat) ^ 53" by (rule round_le_pow [OF mx(1)])
    have "(2::rat) powi (ey + 52) = 2 powi ey * 2 ^ 52" by (rule powi_add_numeral)
    then have "(2::rat) powi ky = 2 powi ey * 2 ^ 52" using ey' by simp
    then have "2 ^ 52 \<le> y / 2 powi ey" using bpy py by (simp add: pos_le_divide_eq mult.commute)
    then have m2: "(2::rat) ^ 52 \<le> of_nat my" by (rule round_ge_pow [OF my(1)])
    have "of_nat mx * 2 powi ex \<le> (2::rat) ^ 53 * 2 powi ex" using m1 px by (simp add: mult_right_mono)
    also have "\<dots> = 2 powi (ex + 53)" by (simp only: powi_add_numeral mult.commute)
    also have "\<dots> \<le> 2 powi (ey + 52)" using lt by (intro power_int_increasing) simp_all
    also have "\<dots> = 2 ^ 52 * 2 powi ey" by (simp only: powi_add_numeral mult.commute)
    also have "\<dots> \<le> of_nat my * 2 powi ey" using m2 py by (simp add: mult_right_mono)
    finally show ?thesis .
  qed
qed

lemma nearest_double_mono:
  assumes "0 < b" and "0 < d" and "a * d \<le> c * b"
  shows "\<not> js_less (nearest_double c d) (nearest_double a b)"
proof (cases "a = 0")
  case True
  then show ?thesis using nearest_double_nonneg [of c d] by auto
next
  case False
  then have a: "0 < a" by simp
  have c: "0 < c" using a assms by (metis mult_eq_0_iff le_zero_eq neq0_conv)
  define x y where "x = (of_nat a / of_nat b :: rat)" and "y = (of_nat c / of_nat d :: rat)"
  have "of_nat a * of_nat d \<le> (of_nat c * of_nat b :: rat)" using assms(3) by (metis of_nat_le_iff of_nat_mult)
  then have xy: "x \<le> y" using assms(1,2) by (simp add: x_def y_def divide_le_eq le_divide_eq mult.commute)
  define kx ky where "kx = floor_log2 a b" and "ky = floor_log2 c d"
  define ex ey where "ex = max (kx - 52) (- 1074)" and "ey = max (ky - 52) (- 1074)"
  have k: "kx \<le> ky" using floor_log2_mono [OF a assms(1) c assms(2)] xy by (simp add: kx_def ky_def x_def y_def)
  have bx: "x < 2 powi (kx + 1)" using floor_log2_div [OF a assms(1)] by (simp add: x_def kx_def)
  have by': "2 powi ky \<le> y" using floor_log2_div [OF c assms(2)] by (simp add: y_def ky_def)
  have dx: "\<And>u v w. (u :: rat) / (v * w) = u / v / w" by simp
  obtain mx where nx: "nearest_double a b = (if 2 ^ 1024 \<le> (of_nat mx :: rat) * 2 powi ex then PInf else Fin (of_nat mx * 2 powi ex))"
    and mx: "2 * \<bar>of_nat mx - x / 2 powi ex\<bar> \<le> (1::rat)" "2 * \<bar>of_nat mx - x / 2 powi ex\<bar> = (1::rat) \<Longrightarrow> even mx"
    using nearest_double_repr [OF a assms(1)] unfolding ex_def kx_def x_def dx by blast
  obtain my where ny: "nearest_double c d = (if 2 ^ 1024 \<le> (of_nat my :: rat) * 2 powi ey then PInf else Fin (of_nat my * 2 powi ey))"
    and my: "2 * \<bar>of_nat my - y / 2 powi ey\<bar> \<le> (1::rat)" "2 * \<bar>of_nat my - y / 2 powi ey\<bar> = (1::rat) \<Longrightarrow> even my"
    using nearest_double_repr [OF c assms(2)] unfolding ey_def ky_def y_def dx by blast
  have v: "(of_nat mx :: rat) * 2 powi ex \<le> of_nat my * 2 powi ey"
    by (rule scaled_round_mono [OF ex_def ey_def bx by' k xy mx my])
  show ?thesis using v unfolding nx ny by (auto simp del: of_nat_mult)
qed

lemma js_less_irrefl: "\<not> js_less x x"
  by (cases x) simp_all

end
