(* ===== verification/Models.thy ===== *)
theory Models
  imports Prelude
begin

text \<open>
  The data models of \<open>src/src/app/models/vault.model.ts\<close> and
  \<open>src/src/app/models/transaction.model.ts\<close>: the string enums as datatypes with the
  source's members, the interfaces as records. Field names follow the source; \<open>type\<close>,
  \<open>id\<close>, \<open>from\<close> and \<open>to\<close> clash with Isabelle keywords or constants and carry
  a prefix. The vault object that \<open>VaultService.getVaultDetails\<close> builds carries two
  properties the interface does not declare (\<open>totalDeposited\<close>, \<open>isActive\<close>) and
  none of its optional ones; the record \<open>vault\<close> is that object, and the placeholder
  \<open>{} as Vault\<close> of the service is the constructor \<open>EmptyVault\<close> of
  \<open>vault_entry\<close>. Strings are JavaScript strings, one character per UTF-16 unit; the
  accented letters of the category labels are their Latin-1 units.
\<close>

datatype VaultType = SingleOwner | MultiSig | Timelock | Funding

datatype VaultCategory = Travel | Party | Medical | Emergency | Savings | Home | Family
  | Education | Entertainment | Sport | Other

text \<open>The string value of each category member (\<open>'M\<acute>edico'\<close>, \<open>'Educaci\<acute>on'\<close> with
  the units 0xE9 and 0xF3).\<close>

fun categoryValue :: "VaultCategory \<Rightarrow> string" where
  "categoryValue Travel = ''Viaje''"
| "categoryValue Party = ''Fiesta''"
| "categoryValue Medical = ''M'' @ [CHR 0xE9] @ ''dico''"
| "categoryValue Emergency = ''Emergencia''"
| "categoryValue Savings = ''Ahorro''"
| "categoryValue Home = ''Hogar''"
| "categoryValue Family = ''Familia''"
| "categoryValue Education = ''Educaci'' @ [CHR 0xF3] @ ''n''"
| "categoryValue Entertainment = ''Entretenimiento''"
| "categoryValue Sport = ''Deporte''"
| "categoryValue Other = ''Otro''"

record VaultMetadata =
  name :: string
  description :: string
  category :: string
  imageURI :: string
  target :: string
  isPublic :: bool

record vault =
  address :: address
  owner :: address
  balance :: string
  totalDeposited :: string
  metadata :: VaultMetadata
  vaultType :: VaultType
  isActive :: bool

datatype vault_entry = EmptyVault | VaultObj vault

record CreateVaultRequest =
  req_metadata :: VaultMetadata
  req_type :: VaultType

datatype TransactionType = Deposit | Withdrawal | MetadataUpdate | OwnershipTransfer

datatype TransactionStatus = Pending | Confirmed | Failed

record transaction =
  tx_id :: string
  tx_type :: TransactionType
  tx_status :: TransactionStatus
  tx_timestamp :: nat
  tx_amount :: "string option"
  tx_from :: address
  tx_to :: "address option"
  tx_vault :: address
  tx_blockNumber :: "nat option"
  tx_blockHash :: "string option"

text \<open>Every object is truthy in JavaScript, the empty placeholder \<open>{}\<close> included.\<close>

fun vault_truthy :: "vault_entry \<Rightarrow> bool" where
  "vault_truthy EmptyVault = True"
| "vault_truthy (VaultObj v) = True"

lemma categoryValue_inj: "categoryValue x = categoryValue y \<longleftrightarrow> x = y"
  by (cases x; cases y) simp_all

end
