(* ===== verification/Vaults.thy ===== *)
theory Vaults
  imports Ether Models
begin

text \<open>
  The vault orchestration service, class \<open>VaultService\<close> of
  \<open>src/src/app/services/vault.service.ts\<close>. The service reads the session through four
  getters of \<open>Web3Service\<close> (\<open>getAccount\<close>, \<open>getVaultFactoryContract\<close>,
  \<open>getSigner\<close>, \<open>getProvider\<close>): the record \<open>session_view\<close> is that interface, and
  the root theory instantiates it from the session state. The contracts' answers are the
  environment \<open>chain_state\<close> (the reads) and a \<open>tx_outcome\<close> per submitted
  transaction (the submit promise rejects, the confirmation rejects, or a receipt arrives).
  Each method returns the service state once its Observable and the subscriptions it starts
  have settled, its emitted value, and the transaction it submitted, if any (the
  external effect). The subjects \<open>userVaults$\<close>, \<open>publicVaults$\<close>,
  \<open>currentVault$\<close>, \<open>transactions$\<close>, \<open>loading$\<close>, \<open>error$\<close> are the fields of
  \<open>vsvc\<close>.
\<close>

record session_view =
  sv_account :: address
  sv_factory :: "address option"
  sv_signer :: bool
  sv_provider :: bool

text \<open>A decoded integer of a contract answer: a JavaScript \<open>number\<close> or a \<open>bigint\<close>.\<close>

datatype js_int = JsNumber int | JsBigInt int

text \<open>The tuple \<open>getVaultInfo()\<close> answers, in the order the service indexes it
  (\<open>info[0]\<close> to \<open>info[10]\<close>).\<close>

record vault_info =
  vi_owner :: address
  vi_name :: string
  vi_description :: string
  vi_category :: string
  vi_imageURI :: string
  vi_isPublic :: bool
  vi_balance :: int
  vi_target :: int
  vi_totalDeposited :: int
  vi_vaultType :: js_int
  vi_isActive :: bool

record chain_state =
  getVaultsByOwner :: "address \<Rightarrow> address \<Rightarrow> string + address list"
  getPublicVaults :: "address \<Rightarrow> string + address list"
  getVaultInfo :: "address \<Rightarrow> string + vault_info"
  canDepositOf :: "address \<Rightarrow> address \<Rightarrow> string + bool"

text \<open>A receipt log as \<open>factory.interface.parseLog\<close> reads it: an event with its name and
  its \<open>vaultAddress\<close> argument, or \<open>null\<close> (a log of another contract, or one that makes
  \<open>parseLog\<close> throw).\<close>

datatype log_entry = Parsed string "address option" | Unparsable

record receipt =
  rc_hash :: string
  rc_blockNumber :: nat
  rc_blockHash :: string
  rc_logs :: "log_entry list"

datatype tx_outcome = Rejected string | Reverted string | Mined receipt

datatype contract_call =
    CallCreateSingleOwnerVault address string string string string bool int
  | CallDeposit address int
  | CallWithdraw address address int
  | CallUpdateVaultConfig address string string string string
  | CallSetActive address bool
  | CallSetPublic address bool
  | CallAddAllowedDepositor address address
  | CallRemoveAllowedDepositor address address

record vsvc =
  userVaults :: "vault_entry list"
  publicVaults :: "vault_entry list"
  currentVault :: "vault_entry option"
  transactions :: "transaction list"
  loading :: bool
  error :: "string option"

definition vsvc_initial :: vsvc where
  "vsvc_initial = \<lparr>userVaults = [], publicVaults = [], currentVault = None, transactions = [],
     loading = False, error = None\<rparr>"

definition setLoading :: "bool \<Rightarrow> vsvc \<Rightarrow> vsvc" where
  "setLoading b s = s\<lparr>loading := b\<rparr>"

definition setError :: "string option \<Rightarrow> vsvc \<Rightarrow> vsvc" where
  "setError e s = s\<lparr>error := e\<rparr>"

text \<open>The prologue of every method but \<open>canDeposit\<close>, and the two calls that close an
  error branch.\<close>

definition start_op :: "vsvc \<Rightarrow> vsvc" where
  "start_op s = setError None (setLoading True s)"

definition fail_op :: "string \<Rightarrow> vsvc \<Rightarrow> vsvc" where
  "fail_op m s = setLoading False (setError (Some m) s)"

subsection \<open>Private helpers\<close>

fun js_strict_eq_num :: "js_int \<Rightarrow> int \<Rightarrow> bool" where
  "js_strict_eq_num (JsNumber n) k = (n = k)"
| "js_strict_eq_num (JsBigInt n) k = False"

text \<open>\<open>switch\<close> compares with \<open>===\<close>: a \<open>bigint\<close> never equals a number case.\<close>

definition mapVaultTypeFromNumber :: "js_int \<Rightarrow> VaultType" where
  "mapVaultTypeFromNumber x =
     (if js_strict_eq_num x 0 then SingleOwner
      else if js_strict_eq_num x 1 then MultiSig
      else if js_strict_eq_num x 2 then Timelock
      else if js_strict_eq_num x 3 then Funding
      else SingleOwner)"

definition getVaultDetails :: "session_view \<Rightarrow> chain_state \<Rightarrow> address \<Rightarrow> vault_entry" where
  "getVaultDetails v c a =
     (if \<not> sv_provider v \<or> \<not> sv_signer v then EmptyVault
      else case getVaultInfo c a of
        Inl m \<Rightarrow> EmptyVault
      | Inr info \<Rightarrow>
          VaultObj
           \<lparr>address = a, owner = vi_owner info, balance = formatEther (vi_balance info),
            totalDeposited = formatEther (vi_totalDeposited info),
            metadata = \<lparr>name = vi_name info, description = vi_description info,
              category = vi_category info, imageURI = vi_imageURI info,
              target = formatEther (vi_target info), isPublic = vi_isPublic info\<rparr>,
            vaultType = mapVaultTypeFromNumber (vi_vaultType info),
            isActive = vi_isActive info\<rparr>)"

text \<open>\<open>loadVaultTransactions\<close> is a placeholder in the source: with a provider it
  publishes the empty list.\<close>

definition loadVaultTransactions :: "session_view \<Rightarrow> address \<Rightarrow> vsvc \<Rightarrow> vsvc" where
  "loadVaultTransactions v a s = (if \<not> sv_provider v then s else s\<lparr>transactions := []\<rparr>)"

subsection \<open>Reads\<close>

definition loadUserVaults :: "session_view \<Rightarrow> chain_state \<Rightarrow> vsvc \<Rightarrow> vsvc \<times> vault_entry list" where
  "loadUserVaults v c s =
     (let s1 = start_op s in
      if sv_account v = [] then (fail_op ''No hay una cuenta conectada'' s1, [])
      else case sv_factory v of
        None \<Rightarrow> (fail_op ''No se ha inicializado el contrato factory'' s1, [])
      | Some f \<Rightarrow>
          (case getVaultsByOwner c f (sv_account v) of
             Inl m \<Rightarrow> (fail_op (''Error al cargar vaults: '' @ m) s1, [])
           | Inr addrs \<Rightarrow>
               (let vs = (if addrs = [] then [] else map (getVaultDetails v c) addrs)
                in (setLoading False (s1\<lparr>userVaults := vs\<rparr>), vs))))"

definition loadPublicVaults :: "session_view \<Rightarrow> chain_state \<Rightarrow> vsvc \<Rightarrow> vsvc \<times> vault_entry list" where
  "loadPublicVaults v c s =
     (let s1 = start_op s in
      case sv_factory v of
        None \<Rightarrow> (fail_op ''No se ha inicializado el contrato factory'' s1, [])
      | Some f \<Rightarrow>
          (case getPublicVaults c f of
             Inl m \<Rightarrow> (fail_op (''Error al cargar vaults p'' @ [CHR 0xFA] @ ''blicos: '' @ m) s1, [])
           | Inr addrs \<Rightarrow>
               (let vs = (if addrs = [] then [] else map (getVaultDetails v c) addrs)
                in (setLoading False (s1\<lparr>publicVaults := vs\<rparr>), vs))))"

text \<open>The \<open>catchError\<close> of \<open>loadVaultDetails\<close> is unreachable: \<open>getVaultDetails\<close>
  catches every error itself.\<close>

definition loadVaultDetails ::
  "session_view \<Rightarrow> chain_state \<Rightarrow> address \<Rightarrow> vsvc \<Rightarrow> vsvc \<times> vault_entry option" where
  "loadVaultDetails v c a s =
     (let s1 = start_op s;
          vt = getVaultDetails v c a;
          s2 = (if vault_truthy vt then loadVaultTransactions v a (s1\<lparr>currentVault := Some vt\<rparr>) else s1)
      in (setLoading False s2, Some vt))"

definition canDeposit :: "session_view \<Rightarrow> chain_state \<Rightarrow> address \<Rightarrow> address \<Rightarrow> bool" where
  "canDeposit v c a d =
     (if \<not> sv_signer v then False
      else case canDepositOf c a d of Inl m \<Rightarrow> False | Inr b \<Rightarrow> b)"

subsection \<open>Transactions\<close>

text \<open>The message of a failed submission or confirmation (\<open>error.message\<close>).\<close>

fun outcome_error :: "tx_outcome \<Rightarrow> string option" where
  "outcome_error (Rejected m) = Some m"
| "outcome_error (Reverted m) = Some m"
| "outcome_error (Mined r) = None"

fun is_creation_event :: "log_entry \<Rightarrow> bool" where
  "is_creation_event (Parsed n a) = (n = ''VaultCreated'')"
| "is_creation_event Unparsable = False"

text \<open>\<open>event && event.args && event.args.vaultAddress\<close>: the address of the first
  \<open>VaultCreated\<close> event, when it is a non-empty string.\<close>

definition created_address :: "receipt \<Rightarrow> address option" where
  "created_address r =
     (case find is_creation_event (rc_logs r) of
        Some (Parsed n (Some a)) \<Rightarrow> if a = [] then None else Some a
      | _ \<Rightarrow> None)"

definition creation_missing_msg :: string where
  "creation_missing_msg = ''No se pudo obtener la direcci'' @ [CHR 0xF3] @ ''n del vault creado''"

text \<open>\<open>createSingleOwnerVault\<close>: the result is \<open>Inl\<close> when the method itself throws
  (\<open>ethers.parseEther(target || '0')\<close> runs before the Observable is built, outside any
  handler), and otherwise the address it emits, \<open>''\<close> on every failure.\<close>

definition createSingleOwnerVault ::
  "session_view \<Rightarrow> chain_state \<Rightarrow> CreateVaultRequest \<Rightarrow> tx_outcome \<Rightarrow> vsvc \<Rightarrow>
     vsvc \<times> (string + address) \<times> contract_call option" where
  "createSingleOwnerVault v c req out s =
     (let s1 = start_op s in
      case sv_factory v of
        None \<Rightarrow> (fail_op ''No se ha inicializado el contrato factory'' s1, Inr [], None)
      | Some f \<Rightarrow>
          (let md = req_metadata req in
           case parseEther (if target md = [] then ''0'' else target md) of
             Inl m \<Rightarrow> (s1, Inl m, None)
           | Inr amt \<Rightarrow>
               (let call = CallCreateSingleOwnerVault f (name md) (description md) (category md)
                             (imageURI md) (isPublic md) amt
                in case out of
                     Mined r \<Rightarrow>
                       (case created_address r of
                          Some a \<Rightarrow> (setLoading False (fst (loadUserVaults v c s1)), Inr a, Some call)
                        | None \<Rightarrow>
                            (fail_op (''Error al crear vault: '' @ creation_missing_msg) s1, Inr [], Some call))
                   | _ \<Rightarrow>
                       (fail_op (''Error al crear vault: '' @ the (outcome_error out)) s1, Inr [],
                        Some call))))"

text \<open>What a call of \<open>createSingleOwnerVault\<close> does before anything subscribes to
  the Observable it returns: the prologue, the early return without a factory, the
  \<open>parseEther\<close> of the target (which may throw), and the contract call, which
  \<open>from(factory['createSingleOwnerVault'](...))\<close> starts at once. \<open>Inl\<close> is the throw.\<close>

definition createSingleOwnerVault_sync ::
  "session_view \<Rightarrow> CreateVaultRequest \<Rightarrow> vsvc \<Rightarrow> vsvc \<times> (string + unit) \<times> contract_call option" where
  "createSingleOwnerVault_sync v req s =
     (let s1 = start_op s in
      case sv_factory v of
        None \<Rightarrow> (fail_op ''No se ha inicializado el contrato factory'' s1, Inr (), None)
      | Some f \<Rightarrow>
          (let md = req_metadata req in
           case parseEther (if target md = [] then ''0'' else target md) of
             Inl m \<Rightarrow> (s1, Inl m, None)
           | Inr amt \<Rightarrow>
               (s1, Inr (), Some (CallCreateSingleOwnerVault f (name md) (description md) (category md)
                                   (imageURI md) (isPublic md) amt))))"

text \<open>The record a confirmed deposit or withdrawal produces;
  \<open>Math.floor(Date.now() / 1000)\<close> with the clock in milliseconds.\<close>

definition confirmed_tx ::
  "TransactionType \<Rightarrow> receipt \<Rightarrow> nat \<Rightarrow> string \<Rightarrow> address \<Rightarrow> address option \<Rightarrow> address \<Rightarrow>
     transaction" where
  "confirmed_tx ty r now amount from_addr to_addr a =
     \<lparr>tx_id = rc_hash r, tx_type = ty, tx_status = Confirmed, tx_timestamp = now div 1000,
      tx_amount = Some amount, tx_from = from_addr, tx_to = to_addr, tx_vault = a,
      tx_blockNumber = Some (rc_blockNumber r), tx_blockHash = Some (rc_blockHash r)\<rparr>"

definition depositToVault ::
  "session_view \<Rightarrow> chain_state \<Rightarrow> address \<Rightarrow> string \<Rightarrow> tx_outcome \<Rightarrow> nat \<Rightarrow> vsvc \<Rightarrow>
     vsvc \<times> transaction option \<times> contract_call option" where
  "depositToVault v c a amount out now s =
     (let s1 = start_op s in
      if \<not> sv_signer v then (fail_op ''No hay un signer disponible'' s1, None, None)
      else case parseEther amount of
        Inl m \<Rightarrow> (fail_op (''Error al preparar el dep'' @ [CHR 0xF3] @ ''sito: '' @ m) s1, None, None)
      | Inr wei \<Rightarrow>
          (let call = CallDeposit a wei in
           case out of
             Mined r \<Rightarrow>
               (let tx = confirmed_tx Deposit r now amount (sv_account v) None a
                in (setLoading False (fst (loadVaultDetails v c a s1)), Some tx, Some call))
           | _ \<Rightarrow> (fail_op (''Error al depositar: '' @ the (outcome_error out)) s1, None, Some call)))"

definition withdrawFromVault ::
  "session_view \<Rightarrow> chain_state \<Rightarrow> address \<Rightarrow> address \<Rightarrow> string \<Rightarrow> tx_outcome \<Rightarrow> nat \<Rightarrow> vsvc \<Rightarrow>
     vsvc \<times> transaction option \<times> contract_call option" where
  "withdrawFromVault v c a recipient amount out now s =
     (let s1 = start_op s in
      if \<not> sv_signer v then (fail_op ''No hay un signer disponible'' s1, None, None)
      else case parseEther amount of
        Inl m \<Rightarrow> (fail_op (''Error al preparar el retiro: '' @ m) s1, None, None)
      | Inr wei \<Rightarrow>
          (let call = CallWithdraw a recipient wei in
           case out of
             Mined r \<Rightarrow>
               (let tx = confirmed_tx Withdrawal r now amount (sv_account v) (Some recipient) a
                in (setLoading False (fst (loadVaultDetails v c a s1)), Some tx, Some call))
           | _ \<Rightarrow> (fail_op (''Error al retirar: '' @ the (outcome_error out)) s1, None, Some call)))"

text \<open>The six owner operations share one shape: no signer gives \<open>false\<close>; otherwise the
  call is submitted and awaited, a failure sets the error with the method's prefix, and a
  confirmation emits \<open>true\<close>, after reloading the vault for the four that do.\<close>

definition owner_tx_op ::
  "string \<Rightarrow> bool \<Rightarrow> session_view \<Rightarrow> chain_state \<Rightarrow> address \<Rightarrow> contract_call \<Rightarrow> tx_outcome \<Rightarrow> vsvc \<Rightarrow>
     vsvc \<times> bool \<times> contract_call option" where
  "owner_tx_op prefix reload v c a call out s =
     (let s1 = start_op s in
      if \<not> sv_signer v then (fail_op ''No hay un signer disponible'' s1, False, None)
      else case out of
        Mined r \<Rightarrow> (setLoading False (if reload then fst (loadVaultDetails v c a s1) else s1), True, Some call)
      | _ \<Rightarrow> (fail_op (prefix @ the (outcome_error out)) s1, False, Some call))"

definition updateVaultMetadata ::
  "session_view \<Rightarrow> chain_state \<Rightarrow> address \<Rightarrow> string \<Rightarrow> string \<Rightarrow> string \<Rightarrow> string \<Rightarrow> tx_outcome \<Rightarrow>
     vsvc \<Rightarrow> vsvc \<times> bool \<times> contract_call option" where
  "updateVaultMetadata v c a nm desc cat img out s =
     owner_tx_op ''Error al actualizar metadatos: '' True v c a (CallUpdateVaultConfig a nm desc cat img) out s"

definition setVaultActive ::
  "session_view \<Rightarrow> chain_state \<Rightarrow> address \<Rightarrow> bool \<Rightarrow> tx_outcome \<Rightarrow> vsvc \<Rightarrow> vsvc \<times> bool \<times> contract_call option" where
  "setVaultActive v c a b out s =
     owner_tx_op ''Error al cambiar estado activo: '' True v c a (CallSetActive a b) out s"

definition setVaultPublic ::
  "session_view \<Rightarrow> chain_state \<Rightarrow> address \<Rightarrow> bool \<Rightarrow> tx_outcome \<Rightarrow> vsvc \<Rightarrow> vsvc \<times> bool \<times> contract_call option" where
  "setVaultPublic v c a b out s =
     owner_tx_op ''Error al cambiar visibilidad: '' True v c a (CallSetPublic a b) out s"

definition addAllowedDepositor ::
  "session_view \<Rightarrow> chain_state \<Rightarrow> address \<Rightarrow> address \<Rightarrow> tx_outcome \<Rightarrow> vsvc \<Rightarrow> vsvc \<times> bool \<times> contract_call option" where
  "addAllowedDepositor v c a d out s =
     owner_tx_op ''Error al agregar depositante: '' False v c a (CallAddAllowedDepositor a d) out s"

definition removeAllowedDepositor ::
  "session_view \<Rightarrow> chain_state \<Rightarrow> address \<Rightarrow> address \<Rightarrow> tx_outcome \<Rightarrow> vsvc \<Rightarrow> vsvc \<times> bool \<times> contract_call option" where
  "removeAllowedDepositor v c a d out s =
     owner_tx_op ''Error al eliminar depositante: '' False v c a (CallRemoveAllowedDepositor a d) out s"

text \<open>The constructor's subscription to \<open>isConnected$\<close>: each \<open>true\<close> reloads the
  user's vaults.\<close>

definition on_isConnected :: "bool \<Rightarrow> session_view \<Rightarrow> chain_state \<Rightarrow> vsvc \<Rightarrow> vsvc" where
  "on_isConnected b v c s = (if b then fst (loadUserVaults v c s) else s)"

subsection \<open>The service as a step function\<close>

text \<open>One call of a public method, run until it and the subscriptions it starts have
  settled. The flag is \<open>True\<close> when the method threw instead of returning an Observable.\<close>

datatype vault_op =
    OpCreate CreateVaultRequest tx_outcome
  | OpLoadUser
  | OpLoadPublic
  | OpLoadDetails address
  | OpDeposit address string tx_outcome nat
  | OpWithdraw address address string tx_outcome nat
  | OpUpdateMetadata address string string string string tx_outcome
  | OpSetActive address bool tx_outcome
  | OpSetPublic address bool tx_outcome
  | OpAddDepositor address address tx_outcome
  | OpRemoveDepositor address address tx_outcome

fun vault_step ::
  "session_view \<Rightarrow> chain_state \<Rightarrow> vault_op \<Rightarrow> vsvc \<Rightarrow> vsvc \<times> bool \<times> contract_call option" where
  "vault_step v c (OpCreate req out) s =
     (case createSingleOwnerVault v c req out s of (s', r, call) \<Rightarrow> (s', isl r, call))"
| "vault_step v c OpLoadUser s = (fst (loadUserVaults v c s), False, None)"
| "vault_step v c OpLoadPublic s = (fst (loadPublicVaults v c s), False, None)"
| "vault_step v c (OpLoadDetails a) s = (fst (loadVaultDetails v c a s), False, None)"
| "vault_step v c (OpDeposit a amount out now) s =
     (case depositToVault v c a amount out now s of (s', r, call) \<Rightarrow> (s', False, call))"
| "vault_step v c (OpWithdraw a r amount out now) s =
     (case withdrawFromVault v c a r amount out now s of (s', x, call) \<Rightarrow> (s', False, call))"
| "vault_step v c (OpUpdateMetadata a nm d ct i out) s =
     (case updateVaultMetadata v c a nm d ct i out s of (s', x, call) \<Rightarrow> (s', False, call))"
| "vault_step v c (OpSetActive a b out) s =
     (case setVaultActive v c a b out s of (s', x, call) \<Rightarrow> (s', False, call))"
| "vault_step v c (OpSetPublic a b out) s =
     (case setVaultPublic v c a b out s of (s', x, call) \<Rightarrow> (s', False, call))"
| "vault_step v c (OpAddDepositor a d out) s =
     (case addAllowedDepositor v c a d out s of (s', x, call) \<Rightarrow> (s', False, call))"
| "vault_step v c (OpRemoveDepositor a d out) s =
     (case removeAllowedDepositor v c a d out s of (s', x, call) \<Rightarrow> (s', False, call))"

text \<open>The transaction outcome an operation waits for, if it submits one.\<close>

fun op_outcome :: "vault_op \<Rightarrow> tx_outcome option" where
  "op_outcome (OpCreate req out) = Some out"
| "op_outcome (OpDeposit a amount out now) = Some out"
| "op_outcome (OpWithdraw a r amount out now) = Some out"
| "op_outcome (OpUpdateMetadata a nm d ct i out) = Some out"
| "op_outcome (OpSetActive a b out) = Some out"
| "op_outcome (OpSetPublic a b out) = Some out"
| "op_outcome (OpAddDepositor a d out) = Some out"
| "op_outcome (OpRemoveDepositor a d out) = Some out"
| "op_outcome _ = None"

text \<open>The cached vault state: the four collections the service publishes.\<close>

definition vault_cache :: "vsvc \<Rightarrow> vault_entry list \<times> vault_entry list \<times> vault_entry option \<times> transaction list" where
  "vault_cache s = (userVaults s, publicVaults s, currentVault s, transactions s)"

text \<open>A session and a chain to run the operations on: one account on Sepolia with a
  signer, owning one vault that holds 1.5 ether.\<close>

definition example_view :: session_view where
  "example_view = \<lparr>sv_account = ''0x00000000000000000000000000000000000000aa'',
     sv_factory = Some ''0xf1Da8fA04bE703cC52bc8Ac269a439111FeaD838'', sv_signer = True,
     sv_provider = True\<rparr>"

definition example_info :: vault_info where
  "example_info = \<lparr>vi_owner = ''0x00000000000000000000000000000000000000aa'', vi_name = ''Viaje'',
     vi_description = [], vi_category = ''Viaje'', vi_imageURI = [], vi_isPublic = True,
     vi_balance = 1500000000000000000, vi_target = 0, vi_totalDeposited = 1500000000000000000,
     vi_vaultType = JsBigInt 0, vi_isActive = True\<rparr>"

definition example_chain :: chain_state where
  "example_chain = \<lparr>getVaultsByOwner = (\<lambda>f ow. Inr [''0x00000000000000000000000000000000000000b1'']),
     getPublicVaults = (\<lambda>f. Inr []),
     getVaultInfo = (\<lambda>a. if a = ''0x00000000000000000000000000000000000000b1'' then Inr example_info
                         else Inl ''could not decode result data''),
     canDepositOf = (\<lambda>a d. Inr True)\<rparr>"

definition example_receipt :: receipt where
  "example_receipt = \<lparr>rc_hash = ''0x01'', rc_blockNumber = 7, rc_blockHash = ''0x02'',
     rc_logs = [Unparsable, Parsed ''OwnershipTransferred'' None]\<rparr>"

definition example_request :: "string \<Rightarrow> CreateVaultRequest" where
  "example_request t = \<lparr>req_metadata = \<lparr>name = ''Viaje'', description = [], category = ''Viaje'',
     imageURI = [], target = t, isPublic = True\<rparr>, req_type = SingleOwner\<rparr>"

definition example_created :: receipt where
  "example_created = example_receipt\<lparr>rc_logs := [Unparsable,
     Parsed ''VaultCreated'' (Some ''0x00000000000000000000000000000000000000b1'')]\<rparr>"

definition example_vault :: vault where
  "example_vault = \<lparr>address = ''0x00000000000000000000000000000000000000b1'',
     owner = ''0x00000000000000000000000000000000000000aa'', balance = ''1.5'', totalDeposited = ''1.5'',
     metadata = \<lparr>name = ''Viaje'', description = [], category = ''Viaje'', imageURI = [],
       target = ''0.0'', isPublic = True\<rparr>, vaultType = SingleOwner, isActive = True\<rparr>"

subsection \<open>Lemmas\<close>

lemmas vsvc_defs = start_op_def fail_op_def setLoading_def setError_def

lemma loading_fail_op [simp]: "loading (fail_op m s) = False"
  by (simp add: vsvc_defs)

lemma loading_setLoading [simp]: "loading (setLoading b s) = b"
  by (simp add: vsvc_defs)

lemma setLoading_same [simp]: "loading s = b \<Longrightarrow> setLoading b s = s"
  by (simp add: setLoading_def)

lemma start_op_idem [simp]: "start_op (start_op s) = start_op s"
  by (simp add: vsvc_defs)

lemma loadUserVaults_start_op [simp]: "loadUserVaults v c (start_op s) = loadUserVaults v c s"
  by (simp add: loadUserVaults_def Let_def)

lemma loadVaultDetails_start_op [simp]: "loadVaultDetails v c a (start_op s) = loadVaultDetails v c a s"
  by (simp add: loadVaultDetails_def Let_def)

lemma loadUserVaults_loading [simp]: "loading (fst (loadUserVaults v c s)) = False"
  by (simp add: loadUserVaults_def vsvc_defs Let_def split: option.split sum.split)

lemma loadPublicVaults_loading [simp]: "loading (fst (loadPublicVaults v c s)) = False"
  by (simp add: loadPublicVaults_def vsvc_defs Let_def split: option.split sum.split)

lemma loadVaultDetails_loading [simp]: "loading (fst (loadVaultDetails v c a s)) = False"
  by (simp add: loadVaultDetails_def vsvc_defs Let_def)

lemma cache_start_op [simp]: "vault_cache (start_op s) = vault_cache s"
  by (simp add: vault_cache_def vsvc_defs)

lemma cache_fail_op [simp]: "vault_cache (fail_op m s) = vault_cache s"
  by (simp add: vault_cache_def vsvc_defs)

lemma fst_case_triple [simp]: "fst (case p of (x, y, z) \<Rightarrow> (x, f y, z)) = fst p"
  by (cases p) auto

lemma owner_tx_op_failure:
  "outcome_error out = Some m \<Longrightarrow>
   owner_tx_op p rl v c a call out s =
     (fail_op (if sv_signer v then p @ m else ''No hay un signer disponible'') (start_op s), False,
      if sv_signer v then Some call else None)"
  by (cases out) (simp_all add: owner_tx_op_def)

lemma create_failure_cache:
  "outcome_error out = Some m \<Longrightarrow> vault_cache (fst (createSingleOwnerVault v c req out s)) = vault_cache s"
  by (cases out) (simp_all add: createSingleOwnerVault_def Let_def split: option.split sum.split)

lemma deposit_failure_cache:
  "outcome_error out = Some m \<Longrightarrow> vault_cache (fst (depositToVault v c a x out now s)) = vault_cache s"
  by (cases out) (simp_all add: depositToVault_def Let_def split: sum.split)

lemma withdraw_failure_cache:
  "outcome_error out = Some m \<Longrightarrow> vault_cache (fst (withdrawFromVault v c a r x out now s)) = vault_cache s"
  by (cases out) (simp_all add: withdrawFromVault_def Let_def split: sum.split)

lemma owner_failure_cache:
  "outcome_error out = Some m \<Longrightarrow> vault_cache (fst (owner_tx_op p rl v c a call out s)) = vault_cache s"
  by (simp add: owner_tx_op_failure)

lemmas owner_op_defs = updateVaultMetadata_def setVaultActive_def setVaultPublic_def
  addAllowedDepositor_def removeAllowedDepositor_def

lemma parseEther_decimal_examples [simp]:
  "parseEther ''0'' = Inr 0"
  "parseEther ''1'' = Inr 1000000000000000000"
  "parseEther ''1.5'' = Inr 1500000000000000000"
  "parseEther ''2'' = Inr 2000000000000000000"
  "parseEther ''abc'' = Inl ''invalid FixedNumber string value''"
  by (simp_all add: parseEther_def is_dec_char_def digits_value_def hex_val_def)

lemma create_call_factory:
  "snd (snd (createSingleOwnerVault v c req out vs)) = Some call \<Longrightarrow>
   \<exists>f nm d ct i p amt. sv_factory v = Some f \<and> call = CallCreateSingleOwnerVault f nm d ct i p amt"
  by (auto simp: createSingleOwnerVault_def Let_def split: option.splits sum.splits tx_outcome.splits)

lemma create_call_submitted:
  assumes "sv_factory v = Some f"
    and "parseEther (if target (req_metadata req) = [] then ''0'' else target (req_metadata req)) = Inr amt"
  shows "snd (snd (createSingleOwnerVault v c req out s)) =
           Some (CallCreateSingleOwnerVault f (name (req_metadata req)) (description (req_metadata req))
              (category (req_metadata req)) (imageURI (req_metadata req)) (isPublic (req_metadata req)) amt)"
  using assms by (simp add: createSingleOwnerVault_def Let_def split: tx_outcome.split option.split)

subsection \<open>Properties of the vault service\<close>

text \<open>
  C16: A transaction that the wallet or the chain rejects (the submission fails or the
  confirmation reverts) leaves the cached vault state -- the user's vaults, the public
  vaults, the current vault and its transactions -- as it was, whatever the operation.
\<close>

theorem vault_step_failure_keeps_cache:
  assumes "op_outcome op = Some out" and "outcome_error out \<noteq> None"
  shows "vault_cache (fst (vault_step v c op s)) = vault_cache s"
proof -
  obtain m where m: "outcome_error out = Some m" using assms(2) by auto
  show ?thesis
  proof (cases op)
    case (OpCreate req o1)
    then show ?thesis using assms(1) create_failure_cache [OF m, of v c req s] by simp
  next
    case (OpDeposit a x o1 now)
    then show ?thesis using assms(1) deposit_failure_cache [OF m] by simp
  next
    case (OpWithdraw a r x o1 now)
    then show ?thesis using assms(1) withdraw_failure_cache [OF m] by simp
  qed (use assms(1) m in \<open>simp_all add: owner_op_defs owner_failure_cache\<close>)
qed

theorem vault_step_failure_keeps_cache_witness:
  "op_outcome (OpDeposit ''0x00000000000000000000000000000000000000b1'' ''1'' (Rejected ''user rejected action'') 0)
     = Some (Rejected ''user rejected action'') \<and>
   outcome_error (Rejected ''user rejected action'') \<noteq> None \<and>
   vault_cache (fst (vault_step example_view example_chain
     (OpDeposit ''0x00000000000000000000000000000000000000b1'' ''1'' (Rejected ''user rejected action'') 0)
     vsvc_initial)) = vault_cache vsvc_initial"
  using vault_step_failure_keeps_cache [of "OpDeposit ''0x00000000000000000000000000000000000000b1'' ''1'' (Rejected ''user rejected action'') 0"
      "Rejected ''user rejected action''" example_view example_chain vsvc_initial]
  by simp

text \<open>
  Listing the user's vaults when the factory reports no vault sets the published list
  to the empty list, clears the error and the loading flag, and reads no vault's details:
  the outcome is the same whatever the vaults' \<open>getVaultInfo\<close> answers.
\<close>

theorem loadUserVaults_no_owned:
  assumes "sv_account v \<noteq> []" and "sv_factory v = Some f" and "getVaultsByOwner c f (sv_account v) = Inr []"
  shows "loadUserVaults v c s = (s\<lparr>userVaults := [], loading := False, error := None\<rparr>, []) \<and>
         (\<forall>g. loadUserVaults v (c\<lparr>getVaultInfo := g\<rparr>) s = loadUserVaults v c s)"
  using assms by (simp add: loadUserVaults_def vsvc_defs)

theorem loadUserVaults_no_owned_witness:
  "sv_account example_view \<noteq> [] \<and>
   sv_factory example_view = Some ''0xf1Da8fA04bE703cC52bc8Ac269a439111FeaD838'' \<and>
   getVaultsByOwner (example_chain\<lparr>getVaultsByOwner := (\<lambda>f ow. Inr [])\<rparr>)
     ''0xf1Da8fA04bE703cC52bc8Ac269a439111FeaD838'' (sv_account example_view) = Inr [] \<and>
   snd (loadUserVaults example_view (example_chain\<lparr>getVaultsByOwner := (\<lambda>f ow. Inr [])\<rparr>) vsvc_initial) = []"
  using loadUserVaults_no_owned [of example_view "''0xf1Da8fA04bE703cC52bc8Ac269a439111FeaD838''"
      "example_chain\<lparr>getVaultsByOwner := (\<lambda>f ow. Inr [])\<rparr>" vsvc_initial]
  by (simp add: example_view_def)

text \<open>
  C18: Listing the user's vaults when one vault's details cannot be read still succeeds:
  the list has one entry per owned address, the unreadable vault is the empty placeholder
  object at its position, the list is published, and no error is reported.
\<close>

theorem loadUserVaults_detail_failure:
  assumes "sv_account v \<noteq> []" and "sv_factory v = Some f"
    and "getVaultsByOwner c f (sv_account v) = Inr addrs"
    and "i < length addrs" and "getVaultInfo c (addrs ! i) = Inl m"
  shows "snd (loadUserVaults v c s) ! i = EmptyVault \<and>
         length (snd (loadUserVaults v c s)) = length addrs \<and>
         userVaults (fst (loadUserVaults v c s)) = snd (loadUserVaults v c s) \<and>
         error (fst (loadUserVaults v c s)) = None"
  using assms by (auto simp: loadUserVaults_def vsvc_defs getVaultDetails_def Let_def)

theorem loadUserVaults_detail_failure_witness:
  "sv_account example_view \<noteq> [] \<and>
   sv_factory example_view = Some ''0xf1Da8fA04bE703cC52bc8Ac269a439111FeaD838'' \<and>
   getVaultsByOwner (example_chain\<lparr>getVaultsByOwner := (\<lambda>f ow. Inr [''0x00000000000000000000000000000000000000b1'', ''0x00000000000000000000000000000000000000b2''])\<rparr>)
     ''0xf1Da8fA04bE703cC52bc8Ac269a439111FeaD838'' (sv_account example_view) =
     Inr [''0x00000000000000000000000000000000000000b1'', ''0x00000000000000000000000000000000000000b2''] \<and>
   (1::nat) < length [''0x00000000000000000000000000000000000000b1'', ''0x00000000000000000000000000000000000000b2''] \<and>
   getVaultInfo (example_chain\<lparr>getVaultsByOwner := (\<lambda>f ow. Inr [''0x00000000000000000000000000000000000000b1'', ''0x00000000000000000000000000000000000000b2''])\<rparr>)
     ([''0x00000000000000000000000000000000000000b1'', ''0x00000000000000000000000000000000000000b2''] ! 1) =
     Inl ''could not decode result data'' \<and>
   snd (loadUserVaults example_view (example_chain\<lparr>getVaultsByOwner := (\<lambda>f ow. Inr [''0x00000000000000000000000000000000000000b1'', ''0x00000000000000000000000000000000000000b2''])\<rparr>) vsvc_initial) ! 1 = EmptyVault"
  using loadUserVaults_detail_failure [of example_view "''0xf1Da8fA04bE703cC52bc8Ac269a439111FeaD838''"
      "example_chain\<lparr>getVaultsByOwner := (\<lambda>f ow. Inr [''0x00000000000000000000000000000000000000b1'', ''0x00000000000000000000000000000000000000b2''])\<rparr>"
      "[''0x00000000000000000000000000000000000000b1'', ''0x00000000000000000000000000000000000000b2'']" 1
      "''could not decode result data''" vsvc_initial]
  by (simp add: example_view_def example_chain_def)

text \<open>
  C19: A confirmed deposit records a \<open>Confirmed\<close> transaction of type \<open>Deposit\<close> with
  the receipt's hash and block, the amount as typed and the connected account as sender,
  submits the amount in wei, and reloads the vault: the current vault becomes what the chain
  read returns, its balance printed from the chain's balance and not computed from the
  previous state, with the transactions reloaded, no error, and loading cleared.
\<close>

theorem deposit_confirmed:
  assumes "sv_signer v" and "sv_provider v" and "parseEther amount = Inr w"
    and "getVaultInfo c a = Inr info"
  shows "depositToVault v c a amount (Mined r) now s =
           (s\<lparr>currentVault := Some (getVaultDetails v c a), transactions := [], loading := False,
              error := None\<rparr>,
            Some (confirmed_tx Deposit r now amount (sv_account v) None a), Some (CallDeposit a w)) \<and>
         (\<exists>vt. getVaultDetails v c a = VaultObj vt \<and> balance vt = formatEther (vi_balance info))"
  using assms
  by (simp add: depositToVault_def loadVaultDetails_def loadVaultTransactions_def getVaultDetails_def
      vsvc_defs Let_def)

theorem deposit_confirmed_witness:
  "sv_signer example_view \<and> sv_provider example_view \<and>
   parseEther ''1.5'' = Inr 1500000000000000000 \<and>
   getVaultInfo example_chain ''0x00000000000000000000000000000000000000b1'' = Inr example_info \<and>
   snd (snd (depositToVault example_view example_chain ''0x00000000000000000000000000000000000000b1'' ''1.5''
     (Mined example_receipt) 1700000000000 vsvc_initial)) =
     Some (CallDeposit ''0x00000000000000000000000000000000000000b1'' 1500000000000000000)"
  using deposit_confirmed [of example_view "''1.5''" 1500000000000000000 example_chain
      "''0x00000000000000000000000000000000000000b1''" example_info example_receipt 1700000000000 vsvc_initial]
  by (simp add: example_view_def example_chain_def)

text \<open>
  C20: When the creation transaction is confirmed but its receipt has no \<open>VaultCreated\<close>
  event with an address, the service reports the missing event in \<open>error$\<close>, emits the
  empty address, clears loading, and does not reload the user's vaults; the emitted value
  is the one a reverted creation emits.
\<close>

theorem create_event_missing:
  assumes "sv_factory v = Some f"
    and "parseEther (if target (req_metadata req) = [] then ''0'' else target (req_metadata req)) = Inr amt"
    and "created_address r = None"
  shows "createSingleOwnerVault v c req (Mined r) s =
           (s\<lparr>loading := False, error := Some (''Error al crear vault: '' @ creation_missing_msg)\<rparr>, Inr [],
            Some (CallCreateSingleOwnerVault f (name (req_metadata req)) (description (req_metadata req))
              (category (req_metadata req)) (imageURI (req_metadata req)) (isPublic (req_metadata req)) amt)) \<and>
         fst (snd (createSingleOwnerVault v c req (Mined r) s)) =
           fst (snd (createSingleOwnerVault v c req (Reverted m) s))"
  using assms by (simp add: createSingleOwnerVault_def vsvc_defs Let_def)

theorem create_event_missing_witness:
  "sv_factory example_view = Some ''0xf1Da8fA04bE703cC52bc8Ac269a439111FeaD838'' \<and>
   parseEther (if target (req_metadata (example_request ''1'')) = [] then ''0''
     else target (req_metadata (example_request ''1''))) = Inr 1000000000000000000 \<and>
   created_address example_receipt = None \<and>
   userVaults (fst (createSingleOwnerVault example_view example_chain (example_request ''1'')
     (Mined example_receipt) vsvc_initial)) = []"
  using create_event_missing [of example_view "''0xf1Da8fA04bE703cC52bc8Ac269a439111FeaD838''"
      "example_request ''1''" 1000000000000000000 example_receipt example_chain vsvc_initial
      "''execution reverted''"]
  by (simp add: example_view_def example_request_def example_receipt_def created_address_def vsvc_initial_def)

text \<open>
  When the creation transaction is confirmed with a \<open>VaultCreated\<close> event, the
  service emits the new vault's address and the state is the one a complete reload of the
  user's vaults gives.
\<close>

theorem create_confirmed:
  assumes "sv_factory v = Some f"
    and "parseEther (if target (req_metadata req) = [] then ''0'' else target (req_metadata req)) = Inr amt"
    and "created_address r = Some a"
  shows "createSingleOwnerVault v c req (Mined r) s =
           (fst (loadUserVaults v c s), Inr a,
            Some (CallCreateSingleOwnerVault f (name (req_metadata req)) (description (req_metadata req))
              (category (req_metadata req)) (imageURI (req_metadata req)) (isPublic (req_metadata req)) amt))"
  using assms by (simp add: createSingleOwnerVault_def Let_def)

theorem create_confirmed_witness:
  "sv_factory example_view = Some ''0xf1Da8fA04bE703cC52bc8Ac269a439111FeaD838'' \<and>
   parseEther (if target (req_metadata (example_request ''1'')) = [] then ''0''
     else target (req_metadata (example_request ''1''))) = Inr 1000000000000000000 \<and>
   created_address example_created = Some ''0x00000000000000000000000000000000000000b1'' \<and>
   fst (snd (createSingleOwnerVault example_view example_chain (example_request ''1'')
     (Mined example_created) vsvc_initial)) = Inr ''0x00000000000000000000000000000000000000b1''"
  using create_confirmed [of example_view "''0xf1Da8fA04bE703cC52bc8Ac269a439111FeaD838''"
      "example_request ''1''" 1000000000000000000 example_created
      "''0x00000000000000000000000000000000000000b1''" example_chain vsvc_initial]
  by (simp add: example_view_def example_request_def example_created_def example_receipt_def created_address_def)

text \<open>
  C22: The service does not compare a withdrawal with the vault's balance: with a signer,
  an amount that parses is submitted to the contract even when it exceeds the balance of
  the cached current vault.
\<close>

theorem withdraw_no_balance_check:
  assumes "sv_signer v" and "parseEther amount = Inr w"
    and "currentVault s = Some (VaultObj vt)" and "parseEther (balance vt) = Inr b" and "b < w"
  shows "snd (snd (withdrawFromVault v c a r amount out now s)) = Some (CallWithdraw a r w)"
  using assms by (cases out) (simp_all add: withdrawFromVault_def)

theorem withdraw_no_balance_check_witness:
  "sv_signer example_view \<and> parseEther ''2'' = Inr 2000000000000000000 \<and>
   currentVault (vsvc_initial\<lparr>currentVault := Some (VaultObj example_vault)\<rparr>) = Some (VaultObj example_vault) \<and>
   parseEther (balance example_vault) = Inr 1500000000000000000 \<and>
   (1500000000000000000::int) < 2000000000000000000 \<and>
   snd (snd (withdrawFromVault example_view example_chain ''0x00000000000000000000000000000000000000b1''
     ''0x00000000000000000000000000000000000000aa'' ''2'' (Mined example_receipt) 0
     (vsvc_initial\<lparr>currentVault := Some (VaultObj example_vault)\<rparr>))) =
     Some (CallWithdraw ''0x00000000000000000000000000000000000000b1'' ''0x00000000000000000000000000000000000000aa''
       2000000000000000000)"
  using withdraw_no_balance_check [of example_view "''2''" 2000000000000000000
      "vsvc_initial\<lparr>currentVault := Some (VaultObj example_vault)\<rparr>" example_vault 1500000000000000000
      example_chain "''0x00000000000000000000000000000000000000b1''" "''0x00000000000000000000000000000000000000aa''"
      "Mined example_receipt" 0]
  by (simp add: example_view_def example_vault_def)

text \<open>
  C23: The service does not reject a zero deposit: with a signer, the amount \<open>'0'\<close> is
  submitted to the contract as a deposit of 0 wei, whatever the outcome.
\<close>

theorem deposit_zero_submitted:
  "sv_signer v \<Longrightarrow> snd (snd (depositToVault v c a ''0'' out now s)) = Some (CallDeposit a 0)"
  by (cases out) (simp_all add: depositToVault_def)

theorem deposit_zero_submitted_witness:
  "sv_signer example_view \<and>
   snd (snd (depositToVault example_view example_chain ''0x00000000000000000000000000000000000000b1'' ''0''
     (Rejected ''user rejected action'') 0 vsvc_initial)) =
     Some (CallDeposit ''0x00000000000000000000000000000000000000b1'' 0)"
  using deposit_zero_submitted [of example_view example_chain "''0x00000000000000000000000000000000000000b1''"
      "Rejected ''user rejected action''" 0 vsvc_initial]
  by (simp add: example_view_def)

text \<open>
  The vault type is mapped by strict equality with the numbers 0 to 3: a number maps
  to its member, and a \<open>bigint\<close> (the type \<open>ethers\<close> 6 decodes every \<open>uint\<close> to) never
  matches a case, so every such vault is shown as \<open>SingleOwner\<close>.
\<close>

theorem mapVaultType_values:
  "mapVaultTypeFromNumber (JsNumber 0) = SingleOwner \<and> mapVaultTypeFromNumber (JsNumber 1) = MultiSig \<and>
   mapVaultTypeFromNumber (JsNumber 2) = Timelock \<and> mapVaultTypeFromNumber (JsNumber 3) = Funding \<and>
   (\<forall>n. mapVaultTypeFromNumber (JsBigInt n) = SingleOwner)"
  by (simp add: mapVaultTypeFromNumber_def)

text \<open>
  C25: Loading a vault whose details cannot be read publishes the empty placeholder object
  as the current vault, reloads its transactions, and reports no error: the failure is not
  surfaced.
\<close>

theorem loadVaultDetails_failure:
  assumes "sv_provider v" and "sv_signer v" and "getVaultInfo c a = Inl m"
  shows "loadVaultDetails v c a s =
           (s\<lparr>currentVault := Some EmptyVault, transactions := [], loading := False, error := None\<rparr>,
            Some EmptyVault)"
  using assms by (simp add: loadVaultDetails_def getVaultDetails_def loadVaultTransactions_def vsvc_defs Let_def)

theorem loadVaultDetails_failure_witness:
  "sv_provider example_view \<and> sv_signer example_view \<and>
   getVaultInfo example_chain ''0x00000000000000000000000000000000000000b2'' = Inl ''could not decode result data'' \<and>
   snd (loadVaultDetails example_view example_chain ''0x00000000000000000000000000000000000000b2'' vsvc_initial) =
     Some EmptyVault"
  using loadVaultDetails_failure [of example_view example_chain "''0x00000000000000000000000000000000000000b2''"
      "''could not decode result data''" vsvc_initial]
  by (simp add: example_view_def example_chain_def)

text \<open>
  C26: A creation request whose target does not parse as an amount makes
  \<open>createSingleOwnerVault\<close> throw before any transaction is submitted, and the loading
  flag it has just set stays set.
\<close>

theorem create_bad_target:
  assumes "sv_factory v = Some f"
    and "parseEther (if target (req_metadata req) = [] then ''0'' else target (req_metadata req)) = Inl m"
  shows "createSingleOwnerVault v c req out s = (s\<lparr>loading := True, error := None\<rparr>, Inl m, None)"
  using assms by (simp add: createSingleOwnerVault_def vsvc_defs Let_def)

theorem create_bad_target_witness:
  "sv_factory example_view = Some ''0xf1Da8fA04bE703cC52bc8Ac269a439111FeaD838'' \<and>
   parseEther (if target (req_metadata (example_request ''abc'')) = [] then ''0''
     else target (req_metadata (example_request ''abc''))) = Inl ''invalid FixedNumber string value'' \<and>
   loading (fst (createSingleOwnerVault example_view example_chain (example_request ''abc'')
     (Mined example_receipt) vsvc_initial))"
  using create_bad_target [of example_view "''0xf1Da8fA04bE703cC52bc8Ac269a439111FeaD838''"
      "example_request ''abc''" "''invalid FixedNumber string value''" example_chain
      "Mined example_receipt" vsvc_initial]
  by (simp add: example_view_def example_request_def)

text \<open>
  C27: Every operation of the service that returns (all but a creation that throws) ends
  with the loading flag cleared, on every branch.
\<close>

theorem vault_step_settles:
  "vault_step v c op s = (s', False, call) \<Longrightarrow> \<not> loading s'"
  by (cases op) (auto simp: createSingleOwnerVault_def depositToVault_def withdrawFromVault_def
      owner_tx_op_def owner_op_defs Let_def
      split: option.splits sum.splits tx_outcome.splits if_splits prod.splits)

theorem vault_step_settles_witness:
  "vault_step example_view example_chain OpLoadPublic vsvc_initial =
     (fst (vault_step example_view example_chain OpLoadPublic vsvc_initial), False, None) \<and>
   \<not> loading (fst (vault_step example_view example_chain OpLoadPublic vsvc_initial))"
  using vault_step_settles [of example_view example_chain OpLoadPublic vsvc_initial
      "fst (vault_step example_view example_chain OpLoadPublic vsvc_initial)" None]
  by simp



end
