(* ===== verification/Dialogs.thy ===== *)
theory Dialogs
  imports JsNumber Vaults
begin

text \<open>
  The deposit and withdraw dialogs
  (\<open>src/src/app/dialogs/deposit-dialog/deposit-dialog.component.ts\<close>,
  \<open>src/src/app/dialogs/withdraw-dialog/withdraw-dialog.component.ts\<close>): their reactive
  form validators and the submit handlers that call the vault service. Angular's built-in
  validators are modelled after their definitions: \<open>required\<close> fails on the empty value,
  \<open>min\<close> and \<open>max\<close> compare \<open>parseFloat\<close> of a non-empty value with the bound (a
  \<open>NaN\<close> on either side passes), \<open>pattern\<close> accepts the empty value and otherwise
  tests the anchored regular expression. The templates are not part of the repository; a
  control's value is the text the user typed. A dialog run gives the service's final state,
  the transaction it submitted, whether the dialog closes, and the snack-bar message shown.
  The withdraw form is also modelled as a state with the events the template binds
  (typing, \<open>useMaxAmount\<close>, \<open>validateAmount\<close>); its lemmas show that the form's
  validity is the validators' in every reachable state, and that \<open>Max\<close> withdraws a chain
  balance exactly.
\<close>

text \<open>\<open>/^\d+(\.\d{1,k})?$/\<close>\<close>

definition decimal_pattern :: "nat \<Rightarrow> string \<Rightarrow> bool" where
  "decimal_pattern k s =
     (let d1 = takeWhile is_dec_char s; r = drop (length d1) s
      in d1 \<noteq> [] \<and> (r = [] \<or> (hd r = CHR ''.'' \<and> tl r \<noteq> [] \<and> length (tl r) \<le> k \<and> list_all is_dec_char (tl r))))"

text \<open>\<open>/^0x[a-fA-F0-9]{40}$/\<close>\<close>

definition address_pattern :: "string \<Rightarrow> bool" where
  "address_pattern s \<longleftrightarrow> length s = 42 \<and> take 2 s = ''0x'' \<and> list_all is_hex_char (drop 2 s)"

definition required_valid :: "string \<Rightarrow> bool" where
  "required_valid v \<longleftrightarrow> v \<noteq> []"

definition min_valid :: "jsdouble \<Rightarrow> string \<Rightarrow> bool" where
  "min_valid m v \<longleftrightarrow> v = [] \<or> \<not> js_less (parseFloat v) m"

definition max_valid :: "jsdouble \<Rightarrow> string \<Rightarrow> bool" where
  "max_valid m v \<longleftrightarrow> v = [] \<or> \<not> js_less m (parseFloat v)"

definition pattern_valid :: "(string \<Rightarrow> bool) \<Rightarrow> string \<Rightarrow> bool" where
  "pattern_valid p v \<longleftrightarrow> v = [] \<or> p v"

text \<open>The literal \<open>0.000001\<close> of both dialogs' \<open>Validators.min\<close>.\<close>

definition min_amount :: jsdouble where
  "min_amount = nearest_double 1 1000000"

record dialog_result =
  dlg_state :: vsvc
  dlg_call :: "contract_call option"
  dlg_closed :: bool
  dlg_snack :: "string option"

subsection \<open>Deposit dialog\<close>

definition deposit_form_valid :: "string \<Rightarrow> bool" where
  "deposit_form_valid amount \<longleftrightarrow>
     required_valid amount \<and> min_valid min_amount amount \<and> pattern_valid (decimal_pattern 18) amount"

text \<open>\<open>deposit()\<close>: an invalid form returns; otherwise the service is called with the
  vault's address, and a transaction closes the dialog with a success message.\<close>

definition deposit_dialog ::
  "session_view \<Rightarrow> chain_state \<Rightarrow> vault \<Rightarrow> string \<Rightarrow> tx_outcome \<Rightarrow> nat \<Rightarrow> vsvc \<Rightarrow> dialog_result option" where
  "deposit_dialog v c vt amount out now s =
     (if \<not> deposit_form_valid amount then None
      else
        (case depositToVault v c (address vt) amount out now s of
           (s', tx, call) \<Rightarrow>
             Some \<lparr>dlg_state = s', dlg_call = call, dlg_closed = (tx \<noteq> None),
                   dlg_snack = (if tx \<noteq> None then Some (''Dep'' @ [CHR 0xF3] @ ''sito exitoso de '' @ amount @ '' ETH'')
                                else None)\<rparr>))"

subsection \<open>Withdraw dialog\<close>

definition withdraw_form_valid :: "string \<Rightarrow> string \<Rightarrow> string \<Rightarrow> bool" where
  "withdraw_form_valid maxAmount amount recipient \<longleftrightarrow>
     required_valid amount \<and> min_valid min_amount amount \<and> max_valid (parseFloat maxAmount) amount \<and>
     pattern_valid (decimal_pattern 18) amount \<and>
     required_valid recipient \<and> pattern_valid address_pattern recipient"

text \<open>\<open>withdraw()\<close>: an invalid form returns; an amount above the balance, compared as
  \<open>parseFloat\<close> numbers, shows a message and returns; otherwise the service is called.\<close>

definition withdraw_dialog ::
  "session_view \<Rightarrow> chain_state \<Rightarrow> vault \<Rightarrow> string \<Rightarrow> string \<Rightarrow> tx_outcome \<Rightarrow> nat \<Rightarrow> vsvc \<Rightarrow>
     dialog_result option" where
  "withdraw_dialog v c vt amount recipient out now s =
     (let maxAmount = balance vt in
      if \<not> withdraw_form_valid maxAmount amount recipient then None
      else if js_less (parseFloat maxAmount) (parseFloat amount) then
        Some \<lparr>dlg_state = s, dlg_call = None, dlg_closed = False,
              dlg_snack = Some (''El monto excede el balance disponible ('' @ maxAmount @ '' ETH)'')\<rparr>
      else
        (case withdrawFromVault v c (address vt) recipient amount out now s of
           (s', tx, call) \<Rightarrow>
             Some \<lparr>dlg_state = s', dlg_call = call, dlg_closed = (tx \<noteq> None),
                   dlg_snack = (if tx \<noteq> None
                                then Some (''Retiro exitoso de '' @ amount @ '' ETH a '' @ take 8 recipient @ ''...'')
                                else None)\<rparr>))"

text \<open>The component's form: the two controls' values, and the amount's errors as Angular
  holds them: \<open>None\<close> while they are the validators' (every value change re-runs them),
  \<open>Some es\<close> after \<open>setErrors\<close>. \<open>withdrawForm.invalid\<close> is true when a control has
  errors.\<close>

record withdraw_component =
  wd_amount :: string
  wd_recipient :: string
  wd_amount_errors :: "string list option"

definition withdraw_initial :: withdraw_component where
  "withdraw_initial = \<lparr>wd_amount = [], wd_recipient = [], wd_amount_errors = None\<rparr>"

definition withdraw_amount_valid :: "string \<Rightarrow> string \<Rightarrow> bool" where
  "withdraw_amount_valid maxAmount amount \<longleftrightarrow>
     required_valid amount \<and> min_valid min_amount amount \<and> max_valid (parseFloat maxAmount) amount \<and>
     pattern_valid (decimal_pattern 18) amount"

definition recipient_valid :: "string \<Rightarrow> bool" where
  "recipient_valid recipient \<longleftrightarrow> required_valid recipient \<and> pattern_valid address_pattern recipient"

definition withdraw_form_invalid :: "string \<Rightarrow> withdraw_component \<Rightarrow> bool" where
  "withdraw_form_invalid maxAmount f \<longleftrightarrow>
     (case wd_amount_errors f of
        None \<Rightarrow> \<not> withdraw_amount_valid maxAmount (wd_amount f)
      | Some es \<Rightarrow> es \<noteq> []) \<or>
     \<not> recipient_valid (wd_recipient f)"

text \<open>\<open>useMaxAmount()\<close> sets the amount to \<open>maxAmount\<close>, the vault's balance string
  (\<open>setValue\<close> re-runs the validators); \<open>validateAmount()\<close> sets the error \<open>max\<close> when
  the amount is non-empty and above the balance as \<open>parseFloat\<close> numbers.\<close>

definition useMaxAmount :: "vault \<Rightarrow> withdraw_component \<Rightarrow> withdraw_component" where
  "useMaxAmount vt f = f\<lparr>wd_amount := balance vt, wd_amount_errors := None\<rparr>"

definition validateAmount :: "vault \<Rightarrow> withdraw_component \<Rightarrow> withdraw_component" where
  "validateAmount vt f =
     (if wd_amount f \<noteq> [] \<and> js_less (parseFloat (balance vt)) (parseFloat (wd_amount f))
      then f\<lparr>wd_amount_errors := Some [''max'']\<rparr> else f)"

text \<open>What the user can do to the form, and the states it reaches from the empty form.\<close>

datatype withdraw_event = SetAmount string | SetRecipient string | UseMax | Validate

fun withdraw_event_step :: "vault \<Rightarrow> withdraw_event \<Rightarrow> withdraw_component \<Rightarrow> withdraw_component" where
  "withdraw_event_step vt (SetAmount a) f = f\<lparr>wd_amount := a, wd_amount_errors := None\<rparr>"
| "withdraw_event_step vt (SetRecipient r) f = f\<lparr>wd_recipient := r\<rparr>"
| "withdraw_event_step vt UseMax f = useMaxAmount vt f"
| "withdraw_event_step vt Validate f = validateAmount vt f"

inductive withdraw_reachable :: "vault \<Rightarrow> withdraw_component \<Rightarrow> bool" where
  withdraw_reachable_init: "withdraw_reachable vt withdraw_initial"
| withdraw_reachable_step: "withdraw_reachable vt f \<Longrightarrow> withdraw_reachable vt (withdraw_event_step vt e f)"

text \<open>\<open>onCancel()\<close> of both dialogs closes the dialog without a call; the value passed to
  \<open>close\<close> is read by no caller and is not part of the result.\<close>

definition dialog_onCancel :: "vsvc \<Rightarrow> dialog_result" where
  "dialog_onCancel s = \<lparr>dlg_state = s, dlg_call = None, dlg_closed = True, dlg_snack = None\<rparr>"

subsection \<open>Lemmas\<close>

lemma decimal_pattern_split:
  assumes "decimal_pattern k s"
  obtains d1 d2 where "s = d1 @ (if d2 = [] then [] else CHR ''.'' # d2)" and "d1 \<noteq> []"
    and "list_all is_dec_char d1" and "list_all is_dec_char d2" and "length d2 \<le> k"
proof -
  let ?d1 = "takeWhile is_dec_char s" let ?r = "drop (length ?d1) s"
  have s: "s = ?d1 @ ?r" by (metis append_take_drop_id takeWhile_eq_take)
  have d1: "?d1 \<noteq> []" "list_all is_dec_char ?d1"
    using assms by (auto simp: decimal_pattern_def Let_def list_all_iff dest: set_takeWhileD)
  show ?thesis
  proof (cases "?r = []")
    case True
    then show ?thesis using that [of ?d1 "[]"] s d1 by simp
  next
    case False
    then have "hd ?r = CHR ''.'' \<and> tl ?r \<noteq> [] \<and> length (tl ?r) \<le> k \<and> list_all is_dec_char (tl ?r)"
      using assms by (simp add: decimal_pattern_def Let_def)
    moreover have "?r = hd ?r # tl ?r" using False by simp
    ultimately show ?thesis using that [of ?d1 "tl ?r"] s d1 by auto
  qed
qed

lemma parseEther_decimal:
  assumes "d1 \<noteq> []" and "list_all is_dec_char d1" and "list_all is_dec_char d2" and "length d2 \<le> 18"
  shows "parseEther (d1 @ (if d2 = [] then [] else CHR ''.'' # d2)) =
           (let w = int (digits_value 10 d1 * 10 ^ 18 + digits_value 10 d2 * 10 ^ (18 - length d2))
            in if w < 2 ^ 511 then Inr w else Inl ''overflow'')"
  using parseEther_signed_decimal [OF assms, of False] by (simp add: Let_def del: of_nat_add of_nat_mult)

lemma min_amount_value: "min_amount = Fin (4722366482869645 / 4722366482869645213696)"
  by (simp add: min_amount_def nearest_double_def floor_log2_def nbits_pos round_div_def pow2_def Let_def)

lemma deposit_call:
  "snd (snd (depositToVault v c a amount out now s)) = Some call \<Longrightarrow>
   \<exists>w. parseEther amount = Inr w \<and> call = CallDeposit a w"
  by (cases out) (auto simp: depositToVault_def Let_def split: if_splits sum.splits)

lemma withdraw_call:
  "snd (snd (withdrawFromVault v c a r amount out now s)) = Some call \<Longrightarrow>
   \<exists>w. parseEther amount = Inr w \<and> call = CallWithdraw a r w"
  by (cases out) (auto simp: withdrawFromVault_def Let_def split: if_splits sum.splits)

lemma parseFloat_zero_below_min:
  "js_less (nearest_double 0 b) min_amount"
  by (simp add: min_amount_value)

lemma dialog_amount_positive:
  assumes "required_valid a" and "min_valid min_amount a" and "pattern_valid (decimal_pattern 18) a"
    and "parseEther a = Inr w"
  shows "0 < w"
proof -
  have "decimal_pattern 18 a" using assms(1,3) by (simp add: required_valid_def pattern_valid_def)
  then obtain d1 d2 where a: "a = d1 @ (if d2 = [] then [] else CHR ''.'' # d2)" and d1: "d1 \<noteq> []"
    and dd1: "list_all is_dec_char d1" and dd2: "list_all is_dec_char d2" and k: "length d2 \<le> 18"
    by (rule decimal_pattern_split)
  have pf: "parseFloat a = nearest_double (digits_value 10 (d1 @ d2)) (10 ^ length d2)"
    unfolding a by (rule parseFloat_decimal [OF d1 dd1 dd2])
  have n: "digits_value 10 (d1 @ d2) \<noteq> 0"
  proof
    assume "digits_value 10 (d1 @ d2) = 0"
    then have "js_less (parseFloat a) min_amount" using pf parseFloat_zero_below_min by simp
    then show False using assms(1,2) by (simp add: min_valid_def required_valid_def)
  qed
  have pe: "parseEther a = (let w = int (digits_value 10 d1 * 10 ^ 18 + digits_value 10 d2 * 10 ^ (18 - length d2))
            in if w < 2 ^ 511 then Inr w else Inl ''overflow'')"
    unfolding a by (rule parseEther_decimal [OF d1 dd1 dd2 k])
  have "digits_value 10 d1 \<noteq> 0 \<or> digits_value 10 d2 \<noteq> 0"
    using n by (auto simp: digits_value_append)
  then have "0 < digits_value 10 d1 * 10 ^ 18 + digits_value 10 d2 * 10 ^ (18 - length d2)"
    by auto
  then show ?thesis using pe assms(4) by (simp add: Let_def split: if_splits del: of_nat_add of_nat_mult)
qed

lemma nearest_double_3_2: "nearest_double 15 10 = Fin (3 / 2)"
  by (simp add: nearest_double_def floor_log2_def nbits_pos round_div_def pow2_def Let_def)

lemma parseFloat_1_5 [simp]: "parseFloat ''1.5'' = Fin (3 / 2)"
  using parseFloat_decimal [of "''1''" "''5''"]
  by (simp add: is_dec_char_def digits_value_def hex_val_def nearest_double_3_2)

lemma parseFloat_over [simp]: "parseFloat ''1.500000000000000001'' = Fin (3 / 2)"
proof -
  have "nearest_double 1500000000000000001 1000000000000000000 = Fin (3 / 2)"
    by (simp add: nearest_double_def floor_log2_def nbits_pos round_div_def pow2_def Let_def)
  then show ?thesis
    using parseFloat_decimal [of "''1''" "''500000000000000001''"]
    by (simp add: is_dec_char_def digits_value_def hex_val_def)
qed


lemma withdraw_form_valid_split:
  "withdraw_form_valid mx a r \<longleftrightarrow> withdraw_amount_valid mx a \<and> recipient_valid r"
  by (auto simp: withdraw_form_valid_def withdraw_amount_valid_def recipient_valid_def)

lemma validateAmount_max_fails:
  "wd_amount f \<noteq> [] \<Longrightarrow> js_less (parseFloat (balance vt)) (parseFloat (wd_amount f)) \<Longrightarrow>
   \<not> withdraw_amount_valid (balance vt) (wd_amount f)"
  by (simp add: withdraw_amount_valid_def max_valid_def)

lemma withdraw_reachable_errors:
  "withdraw_reachable vt f \<Longrightarrow>
   wd_amount_errors f = None \<or> (wd_amount_errors f = Some [''max''] \<and> \<not> withdraw_amount_valid (balance vt) (wd_amount f))"
proof (induction rule: withdraw_reachable.induct)
  case (withdraw_reachable_init vt)
  then show ?case by (simp add: withdraw_initial_def)
next
  case (withdraw_reachable_step vt f e)
  then show ?case
    by (cases e) (auto simp: useMaxAmount_def validateAmount_def dest: validateAmount_max_fails)
qed

lemma decimal_pattern_point:
  assumes "W \<noteq> []" "list_all is_dec_char W" "T \<noteq> []" "list_all is_dec_char T" "length T \<le> k"
  shows "decimal_pattern k (W @ CHR ''.'' # T)"
proof -
  have "takeWhile is_dec_char (W @ CHR ''.'' # T) = W"
    by (rule takeWhile_dec_prefix [OF assms(2)]) (simp add: is_dec_char_def)
  then show ?thesis using assms by (simp add: decimal_pattern_def)
qed

lemma formatEther_nonneg_float:
  assumes "0 \<le> w"
  obtains N L where "parseFloat (formatEther w) = nearest_double N L" and "0 < L" and "N * 10 ^ 18 = nat w * L"
    and "decimal_pattern 18 (formatEther w)" and "formatEther w \<noteq> []"
proof -
  obtain W T where fe: "formatEther w = (if w < 0 then ''-'' else []) @ W @ CHR ''.'' # T"
    and wd: "W \<noteq> []" "list_all is_dec_char W" and t: "T \<noteq> []" "list_all is_dec_char T" "length T \<le> 18"
    and val: "int (digits_value 10 W * 10 ^ 18 + digits_value 10 T * 10 ^ (18 - length T)) = \<bar>w\<bar>"
    by (rule formatEther_split)
  have fe': "formatEther w = W @ (if T = [] then [] else CHR ''.'' # T)" using fe assms t(1) by simp
  have pf: "parseFloat (formatEther w) = nearest_double (digits_value 10 (W @ T)) (10 ^ length T)"
    unfolding fe' by (rule parseFloat_decimal [OF wd t(2)])
  have p: "(10::nat) ^ (18 - length T) * 10 ^ length T = 10 ^ 18" using t(3) by (simp flip: power_add)
  have NL: "digits_value 10 (W @ T) * 10 ^ 18 = nat w * 10 ^ length T"
  proof -
    have "nat w = digits_value 10 W * 10 ^ 18 + digits_value 10 T * 10 ^ (18 - length T)"
      using val assms by linarith
    then show ?thesis using p by (simp add: digits_value_append algebra_simps flip: p)
  qed
  have dp: "decimal_pattern 18 (formatEther w)" using fe' t(1) decimal_pattern_point [OF wd t] by simp
  have ne: "formatEther w \<noteq> []" using fe' wd(1) by simp
  show ?thesis by (rule that [OF pf _ NL dp ne]) simp
qed

lemma min_valid_formatEther:
  assumes "10 ^ 12 \<le> w"
  shows "min_valid min_amount (formatEther w)"
proof -
  have w0: "0 \<le> w" using assms by simp
  obtain N L where pf: "parseFloat (formatEther w) = nearest_double N L" and L: "0 < L"
    and NL: "N * 10 ^ 18 = nat w * L" and "decimal_pattern 18 (formatEther w)" and "formatEther w \<noteq> []"
    by (rule formatEther_nonneg_float [OF w0])
  have "10 ^ 12 * L \<le> nat w * L" using assms L by (simp add: nat_le_iff)
  then have "10 ^ 12 * L \<le> N * 10 ^ 6 * 10 ^ 12" using NL by (simp add: algebra_simps)
  then have "1 * L \<le> N * 10 ^ 6" by simp
  then show ?thesis using nearest_double_mono [of "10 ^ 6" L 1 N] L
    by (simp add: min_valid_def min_amount_def pf)
qed

lemma withdraw_form_valid_balance:
  assumes "10 ^ 12 \<le> w" and "address_pattern rc"
  shows "withdraw_form_valid (formatEther w) (formatEther w) rc"
proof -
  have w0: "0 \<le> w" using assms(1) by simp
  obtain N L where "parseFloat (formatEther w) = nearest_double N L" and "0 < L"
    and "N * 10 ^ 18 = nat w * L" and dp: "decimal_pattern 18 (formatEther w)" and ne: "formatEther w \<noteq> []"
    by (rule formatEther_nonneg_float [OF w0])
  have "rc \<noteq> []" using assms(2) by (auto simp: address_pattern_def)
  then show ?thesis using dp ne min_valid_formatEther [OF assms(1)] assms(2) js_less_irrefl
    by (simp add: withdraw_form_valid_def required_valid_def max_valid_def pattern_valid_def)
qed

subsection \<open>Properties of the dialogs\<close>

text \<open>
  C30: A deposit submitted through the deposit dialog is a deposit into the dialog's vault of
  a positive number of wei: the dialog's validators (required, minimum 0.000001 read by
  \<open>parseFloat\<close>, the decimal pattern) rule out a zero amount, which the service itself
  would submit.
\<close>

theorem deposit_dialog_positive:
  assumes "deposit_dialog v c vt amount out now s = Some r" and "dlg_call r = Some call"
  shows "\<exists>w. call = CallDeposit (address vt) w \<and> 0 < w"
proof -
  obtain s' tx cl where d: "depositToVault v c (address vt) amount out now s = (s', tx, cl)"
    by (cases "depositToVault v c (address vt) amount out now s") auto
  have valid: "deposit_form_valid amount" and cl: "cl = Some call"
    using assms d by (simp_all add: deposit_dialog_def split: if_splits) (auto simp: deposit_dialog_def d split: if_splits)
  obtain w where pe: "parseEther amount = Inr w" and call: "call = CallDeposit (address vt) w"
    using deposit_call [of v c "address vt" amount out now s call] d cl by auto
  have "0 < w" using valid pe by (auto simp: deposit_form_valid_def intro: dialog_amount_positive)
  then show ?thesis using call by blast
qed

theorem deposit_dialog_positive_witness:
  "deposit_dialog example_view example_chain example_vault ''1.5'' (Rejected ''user rejected action'') 0 vsvc_initial
     = Some (the (deposit_dialog example_view example_chain example_vault ''1.5'' (Rejected ''user rejected action'') 0 vsvc_initial)) \<and>
   dlg_call (the (deposit_dialog example_view example_chain example_vault ''1.5'' (Rejected ''user rejected action'') 0 vsvc_initial))
     = Some (CallDeposit ''0x00000000000000000000000000000000000000b1'' 1500000000000000000)"
proof -
  have v: "deposit_form_valid ''1.5''"
    by (simp add: deposit_form_valid_def required_valid_def min_valid_def pattern_valid_def min_amount_value
        decimal_pattern_def is_dec_char_def)
  have d: "deposit_dialog example_view example_chain example_vault ''1.5'' (Rejected ''user rejected action'') 0 vsvc_initial
     = Some \<lparr>dlg_state = fail_op (''Error al depositar: user rejected action'') (start_op vsvc_initial),
             dlg_call = Some (CallDeposit ''0x00000000000000000000000000000000000000b1'' 1500000000000000000),
             dlg_closed = False, dlg_snack = None\<rparr>"
    using v by (simp add: deposit_dialog_def depositToVault_def example_view_def example_vault_def)
  show ?thesis
    using deposit_dialog_positive [of example_view example_chain example_vault "''1.5''"
        "Rejected ''user rejected action''" 0 vsvc_initial
        "the (deposit_dialog example_view example_chain example_vault ''1.5'' (Rejected ''user rejected action'') 0 vsvc_initial)"
        "CallDeposit ''0x00000000000000000000000000000000000000b1'' 1500000000000000000"] d
    by simp
qed

text \<open>
  C31: A withdrawal submitted through the withdraw dialog goes from the dialog's vault to a
  recipient of the address pattern, for a positive number of wei, and its amount, read by
  \<open>parseFloat\<close>, is not above the vault's balance read the same way.
\<close>

theorem withdraw_dialog_submitted:
  assumes "withdraw_dialog v c vt amount rc out now s = Some r" and "dlg_call r = Some call"
  shows "\<exists>w. call = CallWithdraw (address vt) rc w \<and> 0 < w \<and> address_pattern rc \<and>
           \<not> js_less (parseFloat (balance vt)) (parseFloat amount)"
proof -
  obtain s' tx cl where d: "withdrawFromVault v c (address vt) rc amount out now s = (s', tx, cl)"
    by (cases "withdrawFromVault v c (address vt) rc amount out now s") auto
  have valid: "withdraw_form_valid (balance vt) amount rc"
    and le: "\<not> js_less (parseFloat (balance vt)) (parseFloat amount)" and cl: "cl = Some call"
    using assms d by (auto simp: withdraw_dialog_def Let_def split: if_splits)
  obtain w where pe: "parseEther amount = Inr w" and call: "call = CallWithdraw (address vt) rc w"
    using withdraw_call [of v c "address vt" rc amount out now s call] d cl by auto
  have "0 < w" using valid pe by (auto simp: withdraw_form_valid_def intro: dialog_amount_positive)
  moreover have "address_pattern rc" using valid
    by (auto simp: withdraw_form_valid_def required_valid_def pattern_valid_def)
  ultimately show ?thesis using call le by blast
qed

theorem withdraw_dialog_submitted_witness:
  "withdraw_dialog example_view example_chain example_vault ''1.5'' ''0x00000000000000000000000000000000000000aa''
     (Rejected ''user rejected action'') 0 vsvc_initial =
     Some (the (withdraw_dialog example_view example_chain example_vault ''1.5'' ''0x00000000000000000000000000000000000000aa''
       (Rejected ''user rejected action'') 0 vsvc_initial)) \<and>
   dlg_call (the (withdraw_dialog example_view example_chain example_vault ''1.5'' ''0x00000000000000000000000000000000000000aa''
       (Rejected ''user rejected action'') 0 vsvc_initial)) =
     Some (CallWithdraw ''0x00000000000000000000000000000000000000b1'' ''0x00000000000000000000000000000000000000aa''
       1500000000000000000)"
proof -
  have v: "withdraw_form_valid ''1.5'' ''1.5'' ''0x00000000000000000000000000000000000000aa''"
    by (simp add: withdraw_form_valid_def required_valid_def min_valid_def max_valid_def pattern_valid_def
        min_amount_value decimal_pattern_def address_pattern_def is_dec_char_def is_hex_char_def)
  have d: "withdraw_dialog example_view example_chain example_vault ''1.5'' ''0x00000000000000000000000000000000000000aa''
     (Rejected ''user rejected action'') 0 vsvc_initial =
     Some \<lparr>dlg_state = fail_op (''Error al retirar: user rejected action'') (start_op vsvc_initial),
           dlg_call = Some (CallWithdraw ''0x00000000000000000000000000000000000000b1''
             ''0x00000000000000000000000000000000000000aa'' 1500000000000000000),
           dlg_closed = False, dlg_snack = None\<rparr>"
    using v by (simp add: withdraw_dialog_def withdrawFromVault_def example_view_def example_vault_def)
  show ?thesis
    using withdraw_dialog_submitted [of example_view example_chain example_vault "''1.5''"
        "''0x00000000000000000000000000000000000000aa''" "Rejected ''user rejected action''" 0 vsvc_initial
        "the (withdraw_dialog example_view example_chain example_vault ''1.5'' ''0x00000000000000000000000000000000000000aa''
           (Rejected ''user rejected action'') 0 vsvc_initial)"
        "CallWithdraw ''0x00000000000000000000000000000000000000b1'' ''0x00000000000000000000000000000000000000aa''
           1500000000000000000"] d
    by simp
qed


text \<open>
  The deposit dialog submits nothing for the amount \<open>0\<close>, and nothing either for the
  positive amount \<open>0.0000001\<close>, which is below its minimum of 0.000001.
\<close>

theorem deposit_dialog_below_minimum:
  "deposit_dialog v c vt ''0'' out now s = None \<and> deposit_dialog v c vt ''0.0000001'' out now s = None"
proof -
  have z: "parseFloat ''0'' = Fin 0"
    using parseFloat_decimal [of "''0''" "[]"] by (simp add: is_dec_char_def digits_value_def hex_val_def)
  have "nearest_double 1 10000000 = Fin (4722366482869645 / 47223664828696452136960)"
    by (simp add: nearest_double_def floor_log2_def nbits_pos round_div_def pow2_def Let_def)
  then have t: "parseFloat ''0.0000001'' = Fin (4722366482869645 / 47223664828696452136960)"
    using parseFloat_decimal [of "''0''" "''0000001''"] by (simp add: is_dec_char_def digits_value_def hex_val_def)
  show ?thesis using z t
    by (simp add: deposit_dialog_def deposit_form_valid_def min_valid_def required_valid_def min_amount_value)
qed

text \<open>
  C12: In every state the withdraw form reaches by typing, \<open>useMaxAmount\<close> and
  \<open>validateAmount\<close>, the form is invalid exactly when the validators fail: the error
  \<open>validateAmount\<close> sets is one the \<open>max\<close> validator already reports, so
  \<open>withdraw_dialog\<close>, which checks the validators, is \<open>withdraw()\<close> in every reachable state.
\<close>

theorem withdraw_form_invalid_validators:
  assumes "withdraw_reachable vt f"
  shows "withdraw_form_invalid (balance vt) f \<longleftrightarrow> \<not> withdraw_form_valid (balance vt) (wd_amount f) (wd_recipient f)"
  using withdraw_reachable_errors [OF assms]
  by (auto simp: withdraw_form_invalid_def withdraw_form_valid_split)

theorem withdraw_form_invalid_validators_witness:
  "withdraw_reachable example_vault
     (withdraw_event_step example_vault Validate (withdraw_event_step example_vault (SetAmount ''2'') withdraw_initial)) \<and>
   withdraw_form_invalid ''1.5''
     (withdraw_event_step example_vault Validate (withdraw_event_step example_vault (SetAmount ''2'') withdraw_initial)) \<and>
   \<not> withdraw_form_valid ''1.5'' ''2'' []"
proof -
  let ?f = "withdraw_event_step example_vault Validate (withdraw_event_step example_vault (SetAmount ''2'') withdraw_initial)"
  have r: "withdraw_reachable example_vault ?f"
    by (intro withdraw_reachable.intros)
  have f: "wd_amount ?f = ''2'' \<and> wd_recipient ?f = []"
    by (simp add: validateAmount_def withdraw_initial_def)
  have v: "\<not> withdraw_form_valid ''1.5'' ''2'' []"
    by (simp add: withdraw_form_valid_def required_valid_def)
  show ?thesis using withdraw_form_invalid_validators [OF r] r f v by (simp add: example_vault_def)
qed

text \<open>
  C40: For a vault read from the chain with a balance of at least 0.000001 ether, pressing
  \<open>Max\<close> and then \<open>Withdraw\<close> to a well-formed address submits a withdrawal of exactly the
  vault's balance in wei: \<open>formatEther\<close> prints it in a form all validators accept, the
  balance check compares it with itself, and \<open>parseEther\<close> reads it back without loss.
\<close>

theorem withdraw_max_whole_balance:
  assumes "getVaultDetails v c a = VaultObj vt" and "getVaultInfo c a = Inr info"
    and "10 ^ 12 \<le> vi_balance info" and "vi_balance info < 2 ^ 511" and "address_pattern rc"
  shows "\<exists>r. withdraw_dialog v c vt (wd_amount (useMaxAmount vt f)) rc out now s = Some r \<and>
             dlg_call r = Some (CallWithdraw a rc (vi_balance info))"
proof -
  have d: "sv_signer v" "balance vt = formatEther (vi_balance info)" "address vt = a"
    using assms(1,2) by (auto simp: getVaultDetails_def split: if_splits)
  have "- (2 ^ 511) \<le> vi_balance info" using assms(3) by simp
  then have pe: "parseEther (balance vt) = Inr (vi_balance info)" using formatEther_roundtrip assms(4) d(2) by simp
  have ok: "withdraw_form_valid (balance vt) (balance vt) rc" using withdraw_form_valid_balance [OF assms(3,5)] d(2) by simp
  show ?thesis using d(1,3) pe ok js_less_irrefl
    by (cases out) (simp_all add: withdraw_dialog_def useMaxAmount_def withdrawFromVault_def Let_def)
qed

theorem withdraw_max_whole_balance_witness:
  "getVaultDetails example_view example_chain ''0x00000000000000000000000000000000000000b1'' = VaultObj example_vault \<and>
   getVaultInfo example_chain ''0x00000000000000000000000000000000000000b1'' = Inr example_info \<and>
   10 ^ 12 \<le> vi_balance example_info \<and> vi_balance example_info < 2 ^ 511 \<and>
   address_pattern ''0x00000000000000000000000000000000000000aa'' \<and>
   dlg_call (the (withdraw_dialog example_view example_chain example_vault
     (wd_amount (useMaxAmount example_vault withdraw_initial)) ''0x00000000000000000000000000000000000000aa''
     (Mined example_receipt) 1700000000000 vsvc_initial)) =
     Some (CallWithdraw ''0x00000000000000000000000000000000000000b1'' ''0x00000000000000000000000000000000000000aa'' 1500000000000000000)"
proof -
  have g: "getVaultDetails example_view example_chain ''0x00000000000000000000000000000000000000b1'' = VaultObj example_vault"
    by (simp add: getVaultDetails_def example_view_def example_chain_def example_info_def example_vault_def
        formatEther_def mapVaultTypeFromNumber_def js_simps trim_fraction_def digit_char_def char_of_eq_iff Let_def)
  have i: "getVaultInfo example_chain ''0x00000000000000000000000000000000000000b1'' = Inr example_info"
    by (simp add: example_chain_def)
  have p: "address_pattern ''0x00000000000000000000000000000000000000aa''"
    by (simp add: address_pattern_def is_hex_char_def)
  show ?thesis
    using withdraw_max_whole_balance [OF g i _ _ p, of withdraw_initial "Mined example_receipt" 1700000000000 vsvc_initial] g i p
    by (auto simp: example_info_def)
qed

end
