(* ===== verification/Wallet.thy ===== *)
theory Wallet
  imports Prelude
begin

text \<open>
  The injected browser wallet (\<open>window.ethereum\<close>, a MetaMask provider) as the
  environment of the services. It is not code of the repository: its behaviour is taken
  from the provider standard the spec names (account request, chain switch, chain add, the
  \<open>accountsChanged\<close> and \<open>chainChanged\<close> notifications). The user's answers to the
  wallet's prompts are fields of the wallet, so that every request has one determined
  outcome: a result, or an error carrying the standard code (4001: the user rejected the
  request, 4100: the site is not authorised, 4902: the chain is unknown to the wallet,
  -32602: invalid parameters).
\<close>

record wallet =
  installed :: bool
  permitted :: "address list"
  selected :: "address list"
  grants_access :: bool
  chain :: int
  known_chains :: "int list"
  approves_switch :: bool
  approves_add :: bool

text \<open>The parameters of \<open>wallet_addEthereumChain\<close> (the object literal of the request).\<close>

record chain_params =
  cp_chainId :: string
  cp_chainName :: string
  cp_currencyName :: string
  cp_currencySymbol :: string
  cp_currencyDecimals :: nat
  cp_rpcUrls :: "string list"
  cp_blockExplorerUrls :: "string list"

definition eth_accounts :: "wallet \<Rightarrow> address list" where
  "eth_accounts w = permitted w"

definition eth_requestAccounts :: "wallet \<Rightarrow> wallet \<times> (int + address list)" where
  "eth_requestAccounts w =
     (if permitted w \<noteq> [] then (w, Inr (permitted w))
      else if grants_access w \<and> selected w \<noteq> [] then (w\<lparr>permitted := selected w\<rparr>, Inr (selected w))
      else (w, Inl 4001))"

text \<open>\<open>BrowserProvider.getSigner()\<close> needs an authorised account; \<open>getNetwork()\<close> reads the chain.\<close>

definition get_signer :: "wallet \<Rightarrow> int + unit" where
  "get_signer w = (if permitted w \<noteq> [] then Inr () else Inl 4100)"

definition wallet_switchEthereumChain :: "string \<Rightarrow> wallet \<Rightarrow> wallet \<times> (int + unit)" where
  "wallet_switchEthereumChain hex w =
     (case parseInt_hex hex of
        NaN \<Rightarrow> (w, Inl (-32602))
      | Num c \<Rightarrow>
          if c \<notin> set (known_chains w) then (w, Inl 4902)
          else if chain w = c then (w, Inr ())
          else if approves_switch w then (w\<lparr>chain := c\<rparr>, Inr ())
          else (w, Inl 4001))"

definition wallet_addEthereumChain :: "chain_params \<Rightarrow> wallet \<Rightarrow> wallet \<times> (int + unit)" where
  "wallet_addEthereumChain p w =
     (case parseInt_hex (cp_chainId p) of
        NaN \<Rightarrow> (w, Inl (-32602))
      | Num c \<Rightarrow>
          if approves_add w then (w\<lparr>known_chains := c # known_chains w\<rparr>, Inr ())
          else (w, Inl 4001))"

text \<open>The hexadecimal chain id the wallet sends with \<open>chainChanged\<close>.\<close>

definition chain_hex :: "int \<Rightarrow> string" where
  "chain_hex c = ''0x'' @ int_to_radix 16 c"

text \<open>
  A wallet at which the theorems are instantiated: one account the user grants, every
  prompt approved, on chain \<open>c\<close>, knowing the chains \<open>cs\<close>.
\<close>

definition example_wallet :: "int \<Rightarrow> int list \<Rightarrow> wallet" where
  "example_wallet c cs =
     \<lparr>installed = True, permitted = [], selected = [''0x00000000000000000000000000000000000000aa''],
      grants_access = True, chain = c, known_chains = cs, approves_switch = True, approves_add = True\<rparr>"

lemma parseInt_chain_hex [js_simps]: "0 \<le> c \<Longrightarrow> parseInt_hex (chain_hex c) = Num c"
  using parseInt_hex_0x [of "nat c"] by (simp add: chain_hex_def int_to_radix_def)

lemma eth_requestAccounts_ok:
  "eth_requestAccounts w = (w', Inr accs) \<Longrightarrow> accs \<noteq> [] \<and> permitted w' = accs"
  by (auto simp: eth_requestAccounts_def split: if_splits)

lemma eth_requestAccounts_chain [simp]: "chain (fst (eth_requestAccounts w)) = chain w"
  by (simp add: eth_requestAccounts_def)

lemma switch_chain_installed [simp]:
  "installed (fst (wallet_switchEthereumChain h w)) = installed w"
  by (simp add: wallet_switchEthereumChain_def split: jsnum.split)

lemma add_chain_installed [simp]:
  "installed (fst (wallet_addEthereumChain p w)) = installed w"
  by (simp add: wallet_addEthereumChain_def split: jsnum.split)

lemma eth_requestAccounts_installed [simp]:
  "installed (fst (eth_requestAccounts w)) = installed w"
  by (simp add: eth_requestAccounts_def)

lemma example_wallet_sel [simp]:
  "installed (example_wallet c cs)" "chain (example_wallet c cs) = c"
  "known_chains (example_wallet c cs) = cs" "approves_switch (example_wallet c cs)"
  "approves_add (example_wallet c cs)"
  by (simp_all add: example_wallet_def)

end
