(* ===== verification/Gateway.thy ===== *)
theory Gateway
  imports Wallet
begin

text \<open>
  The contract gateway of \<open>src/src/app/services/web3.service.ts\<close>: the per-network
  contract configuration (\<open>contractConfig\<close>), the single target network
  (\<open>targetNetworkId\<close>, Sepolia), the display names of networks (\<open>networkNames\<close>,
  \<open>getNetworkName\<close>), the lookup that \<open>initContracts\<close> performs, and the
  network-switch request \<open>switchToTargetNetwork\<close>, which talks to the wallet only.
  The state changes of \<open>initContracts\<close> are in \<open>Session\<close>; here is what it computes.
\<close>

definition targetNetworkId :: int where
  "targetNetworkId = 11155111"

definition contractConfig :: "(string \<times> address) list" where
  "contractConfig =
     [(''11155111'', ''0xf1Da8fA04bE703cC52bc8Ac269a439111FeaD838''),
      (''31337'', ''0x5FbDB2315678afecb367f032d93F642f64180aa3'')]"

definition networkNames :: "(int \<times> string) list" where
  "networkNames = [(1, ''Ethereum Mainnet''), (11155111, ''Sepolia Testnet''), (31337, ''Hardhat Local'')]"

text \<open>\<open>this.networkNames[networkId] || `Red desconocida (${networkId})`\<close>.\<close>

definition getNetworkName :: "jsnum \<Rightarrow> string" where
  "getNetworkName n =
     js_or_str (case n of Num k \<Rightarrow> map_of networkNames k | NaN \<Rightarrow> None)
       (''Red desconocida ('' @ jsnum_to_string n @ '')'')"

text \<open>\<open>this.contractConfig[networkId.toString()]\<close>: the factory address, if configured.\<close>

definition config_lookup :: "jsnum \<Rightarrow> address option" where
  "config_lookup n = map_of contractConfig (jsnum_to_string n)"

text \<open>The chain id parameter \<open>`0x${id.toString(16)}`\<close> of both wallet requests.\<close>

definition chain_id_param :: "int \<Rightarrow> string" where
  "chain_id_param n = ''0x'' @ int_to_radix 16 n"

definition sepolia_params :: chain_params where
  "sepolia_params =
     \<lparr>cp_chainId = chain_id_param targetNetworkId,
      cp_chainName = ''Sepolia Test Network'',
      cp_currencyName = ''SepoliaETH'', cp_currencySymbol = ''ETH'', cp_currencyDecimals = 18,
      cp_rpcUrls = [''https://rpc.sepolia.org''],
      cp_blockExplorerUrls = [''https://sepolia.etherscan.io/'']\<rparr>"

text \<open>
  \<open>switchToTargetNetwork\<close>: without a wallet it returns at once; otherwise it asks for
  the switch, and when the wallet answers 4902 (chain unknown) it asks to add the chain;
  a rejection of either request is thrown on. After a successful add it returns without
  asking for the switch again.
\<close>

definition switchToTargetNetwork :: "wallet \<Rightarrow> wallet \<times> (int + unit)" where
  "switchToTargetNetwork w =
     (if \<not> installed w then (w, Inr ())
      else case wallet_switchEthereumChain (chain_id_param targetNetworkId) w of
             (w1, Inr u) \<Rightarrow> (w1, Inr u)
           | (w1, Inl code) \<Rightarrow>
               if code = 4902 then wallet_addEthereumChain sepolia_params w1 else (w1, Inl code))"

declare switchToTargetNetwork_def [op_defs]

subsection \<open>Lemmas\<close>

lemma chain_id_param_chain_hex: "chain_id_param n = chain_hex n"
  by (simp add: chain_id_param_def chain_hex_def)

lemma parse_target_param [simp]: "parseInt_hex (chain_id_param targetNetworkId) = Num targetNetworkId"
  by (simp add: chain_id_param_chain_hex targetNetworkId_def parseInt_chain_hex)

lemma jsnum_to_string_sepolia [simp]: "jsnum_to_string (Num 11155111) = ''11155111''"
  by (simp add: jsnum_to_string_def int_to_radix_def radix_digits.simps digit_char_def char_of_eq_iff)

lemma jsnum_to_string_hardhat [simp]: "jsnum_to_string (Num 31337) = ''31337''"
  by (simp add: jsnum_to_string_def int_to_radix_def radix_digits.simps digit_char_def char_of_eq_iff)

lemma jsnum_to_string_eq_sepolia: "jsnum_to_string n = ''11155111'' \<longleftrightarrow> n = Num 11155111"
  using jsnum_to_string_inj [of n "Num 11155111"] by auto

lemma jsnum_to_string_eq_hardhat: "jsnum_to_string n = ''31337'' \<longleftrightarrow> n = Num 31337"
  using jsnum_to_string_inj [of n "Num 31337"] by auto

lemma config_lookup_target [simp]:
  "config_lookup (Num targetNetworkId) = Some ''0xf1Da8fA04bE703cC52bc8Ac269a439111FeaD838''"
  by (simp add: config_lookup_def contractConfig_def targetNetworkId_def)

lemma switch_installed [simp]: "installed (fst (switchToTargetNetwork w)) = installed w"
proof -
  obtain w1 r where sw: "wallet_switchEthereumChain (chain_id_param targetNetworkId) w = (w1, r)"
    by (cases "wallet_switchEthereumChain (chain_id_param targetNetworkId) w")
  then have "installed w1 = installed w"
    using switch_chain_installed [of "chain_id_param targetNetworkId" w] by simp
  with sw show ?thesis
    by (cases r) (simp_all add: switchToTargetNetwork_def)
qed

lemma config_lookup_hardhat [simp]:
  "config_lookup (Num 31337) = Some ''0x5FbDB2315678afecb367f032d93F642f64180aa3''"
  by (simp add: config_lookup_def contractConfig_def)

lemma config_lookup_None_iff: "config_lookup n = None \<longleftrightarrow> n \<noteq> Num 11155111 \<and> n \<noteq> Num 31337"
  by (auto simp: config_lookup_def contractConfig_def jsnum_to_string_eq_sepolia
      jsnum_to_string_eq_hardhat)

lemma config_lookup_configured: "config_lookup n = Some a \<Longrightarrow> a \<in> snd ` set contractConfig"
  unfolding config_lookup_def by (drule map_of_SomeD) force

lemma jsnum_to_string_target [simp]: "jsnum_to_string (Num targetNetworkId) = ''11155111''"
  by (simp add: targetNetworkId_def)

subsection \<open>Properties of the gateway\<close>

text \<open>
  C2: The contract configuration resolves exactly two network ids, each to its configured
  factory address (Sepolia 11155111 and Hardhat 31337); every other id, \<open>NaN\<close>
  included, has no configuration.
\<close>

theorem config_lookup_iff:
  "config_lookup n = Some a \<longleftrightarrow>
     (n = Num 11155111 \<and> a = ''0xf1Da8fA04bE703cC52bc8Ac269a439111FeaD838'') \<or>
     (n = Num 31337 \<and> a = ''0x5FbDB2315678afecb367f032d93F642f64180aa3'')"
  by (auto simp: config_lookup_def contractConfig_def jsnum_to_string_eq_sepolia
      jsnum_to_string_eq_hardhat)



text \<open>
  C9: When the wallet does not know the target chain and the user accepts adding it,
  \<open>switchToTargetNetwork\<close> reports success after the add request alone: the wallet has
  learnt the chain but is still on its old one, and the switch is not asked again.
\<close>

theorem switch_unknown_chain_no_retry:
  assumes "installed w" and "targetNetworkId \<notin> set (known_chains w)" and "approves_add w"
  shows "switchToTargetNetwork w = (w\<lparr>known_chains := targetNetworkId # known_chains w\<rparr>, Inr ())"
  using assms
  unfolding switchToTargetNetwork_def wallet_switchEthereumChain_def wallet_addEthereumChain_def
    parse_target_param
  by (simp add: sepolia_params_def)

theorem switch_unknown_chain_no_retry_witness:
  "installed (example_wallet 1 [1]) \<and> targetNetworkId \<notin> set (known_chains (example_wallet 1 [1])) \<and>
   approves_add (example_wallet 1 [1]) \<and>
   switchToTargetNetwork (example_wallet 1 [1]) =
     ((example_wallet 1 [1])\<lparr>known_chains := [targetNetworkId, 1]\<rparr>, Inr ()) \<and>
   chain (fst (switchToTargetNetwork (example_wallet 1 [1]))) = 1"
  using switch_unknown_chain_no_retry [of "example_wallet 1 [1]"]
  by (simp add: example_wallet_def targetNetworkId_def)

text \<open>
  When the wallet knows the target chain and the user approves, the switch request
  moves the wallet to the target chain and reports success.
\<close>

theorem switch_known_chain:
  assumes "installed w" and "targetNetworkId \<in> set (known_chains w)" and "approves_switch w"
  shows "switchToTargetNetwork w = (w\<lparr>chain := targetNetworkId\<rparr>, Inr ())"
  using assms
  unfolding switchToTargetNetwork_def wallet_switchEthereumChain_def parse_target_param
  by auto

theorem switch_known_chain_witness:
  "installed (example_wallet 1 [1, 11155111]) \<and>
   targetNetworkId \<in> set (known_chains (example_wallet 1 [1, 11155111])) \<and>
   approves_switch (example_wallet 1 [1, 11155111]) \<and>
   switchToTargetNetwork (example_wallet 1 [1, 11155111]) =
     ((example_wallet 1 [1, 11155111])\<lparr>chain := targetNetworkId\<rparr>, Inr ())"
  using switch_known_chain [of "example_wallet 1 [1, 11155111]"]
  by (simp add: example_wallet_def targetNetworkId_def)

end
