(* ===== verification/Session.thy ===== *)
theory Session
  imports Gateway
begin

text \<open>
  The wallet session manager, class \<open>Web3Service\<close> of
  \<open>src/src/app/services/web3.service.ts\<close>. Its private fields and \<open>BehaviorSubject\<close>s
  are the record \<open>web3\<close> (a subject is its current value), \<open>localStorage\<close> is the
  field \<open>storage\<close>. Every \<open>async\<close> method is a state-exception computation
  (\<open>exc\<close> of \<open>Prelude\<close>) over the pair of the wallet and the service state, written
  statement by statement as in the source: \<open>updE\<close> is an assignment to the service,
  \<open>walletE\<close> awaits a wallet request (a rejection is thrown as \<open>RpcError code\<close>).
  The references \<open>provider\<close> and \<open>signer\<close> are booleans (whether the field is
  non-null); the factory binding is the address the contract object is bound to.
\<close>

datatype web3_error =
  MetaMaskNotInstalled
| NoAccountAccess
| RpcError int
| NoSigner
| NoNetworkConfig jsnum

record web3 =
  provider :: bool
  signer :: bool
  vaultFactoryContract :: "address option"
  isConnected :: bool
  account :: address
  networkId :: jsnum
  vaultContract :: "address option"
  isCorrectNetwork :: bool
  networkName :: string
  walletModalVisible :: bool
  storage :: storage

text \<open>The field initialisers; \<open>localStorage\<close> keeps what an earlier page load stored.\<close>

definition web3_initial :: "storage \<Rightarrow> web3" where
  "web3_initial st =
     \<lparr>provider = False, signer = False, vaultFactoryContract = None, isConnected = False,
      account = [], networkId = Num 0, vaultContract = None, isCorrectNetwork = False,
      networkName = [], walletModalVisible = False, storage = st\<rparr>"

definition resetState :: "web3 \<Rightarrow> web3" where
  "resetState s =
     s\<lparr>account := [], isConnected := False, signer := False, provider := False,
       vaultFactoryContract := None, vaultContract := None, isCorrectNetwork := False\<rparr>"

definition disconnectWallet :: "web3 \<Rightarrow> web3" where
  "disconnectWallet s =
     (let s1 = resetState s in s1\<lparr>storage := (storage s1)(''walletAddress'' := None, ''networkId'' := None)\<rparr>)"

type_synonym sess = "wallet \<times> web3"
type_synonym 'a sop = "(sess, web3_error, 'a) exc"

definition updE :: "(web3 \<Rightarrow> web3) \<Rightarrow> unit sop" where
  "updE f = modifyE (\<lambda>(w, s). (w, f s))"

definition readE :: "(web3 \<Rightarrow> 'a) \<Rightarrow> 'a sop" where
  "readE f = getsE (\<lambda>(w, s). f s)"

definition readW :: "(wallet \<Rightarrow> 'a) \<Rightarrow> 'a sop" where
  "readW f = getsE (\<lambda>(w, s). f w)"

definition walletE :: "(wallet \<Rightarrow> wallet \<times> (int + 'a)) \<Rightarrow> 'a sop" where
  "walletE req =
     (\<lambda>(w, s). case req w of
                 (w', Inl code) \<Rightarrow> ((w', s), Inl (RpcError code))
               | (w', Inr a) \<Rightarrow> ((w', s), Inr a))"

text \<open>The three subject updates that follow every reading of the network id.\<close>

definition record_network :: "jsnum \<Rightarrow> web3 \<Rightarrow> web3" where
  "record_network n s =
     s\<lparr>networkId := n, isCorrectNetwork := js_num_eq n targetNetworkId,
       networkName := getNetworkName n\<rparr>"

definition initContracts :: "jsnum \<Rightarrow> unit sop" where
  "initContracts n =
     catchE
       (bindE (readE signer) (\<lambda>sg.
          if \<not> sg then throwE NoSigner
          else (case config_lookup n of
                  None \<Rightarrow> throwE (NoNetworkConfig n)
                | Some a \<Rightarrow> updE (\<lambda>s. s\<lparr>vaultFactoryContract := Some a, vaultContract := Some a\<rparr>))))
       (\<lambda>e. seqE (updE (\<lambda>s. s\<lparr>vaultContract := None\<rparr>)) (throwE e))"

definition initializeWeb3WithAccount :: "address \<Rightarrow> unit sop" where
  "initializeWeb3WithAccount acc =
     catchE
       (seqE (updE (\<lambda>s. s\<lparr>provider := True, account := acc\<rparr>))
       (seqE (walletE (\<lambda>w. (w, get_signer w)))
       (seqE (updE (\<lambda>s. s\<lparr>signer := True\<rparr>))
       (bindE (readW chain) (\<lambda>c.
        seqE (updE (record_network (Num c)))
        (seqE (if c = targetNetworkId then initContracts (Num c) else returnE ())
        (seqE (updE (\<lambda>s. s\<lparr>isConnected := True\<rparr>))
        (updE (\<lambda>s. s\<lparr>storage := (storage s)(''walletAddress'' \<mapsto> acc,
                                         ''networkId'' \<mapsto> jsnum_to_string (Num c))\<rparr>)))))))))
       (\<lambda>e. updE resetState)"

definition silentlyReconnect :: "unit sop" where
  "silentlyReconnect =
     bindE (readW installed) (\<lambda>inst.
       if \<not> inst then returnE ()
       else catchE
              (bindE (readW eth_accounts) (\<lambda>accs.
                 if accs \<noteq> [] then initializeWeb3WithAccount (hd accs) else returnE ()))
              (\<lambda>e. returnE ()))"

definition checkForSavedSession :: "unit sop" where
  "checkForSavedSession =
     bindE (readE (\<lambda>s. js_truthy (storage s ''walletAddress'') \<and> js_truthy (storage s ''networkId'')))
       (\<lambda>saved. if saved then silentlyReconnect else returnE ())"

text \<open>The constructor: field initialisers, then the saved-session check run to its end.\<close>

definition web3_constructor :: "wallet \<Rightarrow> storage \<Rightarrow> sess" where
  "web3_constructor w st = fst (checkForSavedSession (w, web3_initial st))"

definition initWeb3 :: "unit sop" where
  "initWeb3 =
     bindE (readW installed) (\<lambda>inst.
       if \<not> inst then throwE MetaMaskNotInstalled
       else catchE
         (seqE (updE (\<lambda>s. s\<lparr>provider := True\<rparr>))
         (bindE (walletE eth_requestAccounts) (\<lambda>accs.
          if accs = [] then throwE NoAccountAccess
          else seqE (updE (\<lambda>s. s\<lparr>account := hd accs\<rparr>))
          (seqE (updE (\<lambda>s. s\<lparr>storage := (storage s)(''walletAddress'' \<mapsto> hd accs)\<rparr>))
          (seqE (walletE (\<lambda>w. (w, get_signer w)))
          (seqE (updE (\<lambda>s. s\<lparr>signer := True\<rparr>))
          (bindE (readW chain) (\<lambda>c.
           seqE (updE (record_network (Num c)))
           (seqE (if c \<noteq> targetNetworkId then walletE switchToTargetNetwork else returnE ())
           (bindE (readE networkId) (\<lambda>n.
            seqE (initContracts n)
            (seqE (updE (\<lambda>s. s\<lparr>isConnected := True\<rparr>))
            (updE (\<lambda>s. s\<lparr>storage := (storage s)(''networkId'' \<mapsto> jsnum_to_string (Num c))\<rparr>))))))))))))))
         (\<lambda>e. seqE (updE resetState) (throwE e)))"

text \<open>
  \<open>connectWallet\<close>: without a provider object it is \<open>initWeb3\<close>; with one it asks for
  the accounts again (\<open>window.ethereum?.request\<close>: no call without a wallet) and, if no
  signer is held, completes the signer and contract set-up. Every error re-shows the
  wallet dialog and is thrown on.
\<close>

definition connectWallet :: "unit sop" where
  "connectWallet =
     seqE (updE (\<lambda>s. s\<lparr>walletModalVisible := False\<rparr>))
     (catchE
       (bindE (readE provider) (\<lambda>p.
        if \<not> p then initWeb3
        else bindE (readW installed) (\<lambda>inst.
          if \<not> inst then returnE ()
          else bindE (walletE eth_requestAccounts) (\<lambda>accs.
            if accs = [] then returnE ()
            else seqE (updE (\<lambda>s. s\<lparr>account := hd accs\<rparr>))
            (seqE (updE (\<lambda>s. s\<lparr>isConnected := True\<rparr>))
            (seqE (updE (\<lambda>s. s\<lparr>storage := (storage s)(''walletAddress'' \<mapsto> hd accs)\<rparr>))
            (bindE (readE signer) (\<lambda>sg.
             if sg then returnE ()
             else seqE (walletE (\<lambda>w. (w, get_signer w)))
             (seqE (updE (\<lambda>s. s\<lparr>signer := True\<rparr>))
             (bindE (readE networkId) (\<lambda>n.
              seqE (if \<not> js_num_eq n targetNetworkId then walletE switchToTargetNetwork else returnE ())
              (bindE (readE networkId) initContracts))))))))))))
       (\<lambda>e. seqE (updE (\<lambda>s. s\<lparr>walletModalVisible := True\<rparr>)) (throwE e)))"

subsection \<open>Provider notifications\<close>

definition accountsChanged :: "js_val \<Rightarrow> web3 \<Rightarrow> web3" where
  "accountsChanged v s =
     (case v of
        JStrArr (a # as) \<Rightarrow> s\<lparr>account := a, storage := (storage s)(''walletAddress'' \<mapsto> a)\<rparr>
      | _ \<Rightarrow> disconnectWallet s)"

text \<open>
  \<open>chainChanged\<close> (an async handler): a string payload is parsed as hexadecimal and
  recorded; on the target network with a signer the contracts are re-initialised (a throw
  there ends the handler before the id is saved), on any other network only the published
  binding \<open>vaultContract$\<close> is cleared.
\<close>

definition chainChanged :: "js_val \<Rightarrow> unit sop" where
  "chainChanged v =
     (case v of
        JStr h \<Rightarrow>
          (let n = parseInt_hex h in
           seqE (updE (record_network n))
           (bindE (readE signer) (\<lambda>sg.
            seqE (if js_num_eq n targetNetworkId \<and> sg then initContracts n
                  else updE (\<lambda>s. s\<lparr>vaultContract := None\<rparr>))
            (updE (\<lambda>s. s\<lparr>storage := (storage s)(''networkId'' \<mapsto> jsnum_to_string n)\<rparr>)))))
      | _ \<Rightarrow> returnE ())"

definition providerDisconnect :: "web3 \<Rightarrow> web3" where
  "providerDisconnect s = disconnectWallet s"

subsection \<open>The other public methods\<close>

definition ensureCorrectNetwork :: "bool sop" where
  "ensureCorrectNetwork =
     bindE (readE networkId) (\<lambda>n.
       if \<not> js_num_eq n targetNetworkId then
         catchE (seqE (walletE switchToTargetNetwork) (returnE True)) (\<lambda>e. returnE False)
       else returnE True)"

definition getVaultContract :: "address \<Rightarrow> web3 \<Rightarrow> address option" where
  "getVaultContract a s = (if signer s then Some a else None)"

definition openConnectWalletModal :: "web3 \<Rightarrow> web3" where
  "openConnectWalletModal s = s\<lparr>walletModalVisible := True\<rparr>"

definition closeConnectWalletModal :: "web3 \<Rightarrow> web3" where
  "closeConnectWalletModal s = s\<lparr>walletModalVisible := False\<rparr>"

subsection \<open>The session as a system of steps\<close>

text \<open>
  The published factory binding agrees with the private one, a factory binding is only
  held with a signer, and it is the address of a configured factory: the invariant of the session that every statement of every method
  keeps.
\<close>

definition binding_inv :: "web3 \<Rightarrow> bool" where
  "binding_inv s \<longleftrightarrow>
     (vaultContract s \<noteq> None \<longrightarrow> vaultContract s = vaultFactoryContract s) \<and>
     (vaultFactoryContract s \<noteq> None \<longrightarrow> signer s) \<and>
     (\<forall>a. vaultFactoryContract s = Some a \<longrightarrow> a \<in> snd ` set contractConfig)"

abbreviation sess_binding :: "sess \<Rightarrow> bool" where
  "sess_binding st \<equiv> binding_inv (snd st)"

text \<open>
  A step of the session is a public method run to its end or the delivery of one provider
  notification (the listeners are registered when a wallet is present). Between steps the
  user may act in the wallet: any other wallet state is possible, with the same presence.
\<close>

datatype session_op =
  Connect | Disconnect | EnsureNetwork | OpenModal | CloseModal
| AccountsChangedEv js_val | ChainChangedEv js_val | DisconnectEv

fun session_step :: "session_op \<Rightarrow> sess \<Rightarrow> sess" where
  "session_step Connect st = fst (connectWallet st)"
| "session_step Disconnect (w, s) = (w, disconnectWallet s)"
| "session_step EnsureNetwork st = fst (ensureCorrectNetwork st)"
| "session_step OpenModal (w, s) = (w, openConnectWalletModal s)"
| "session_step CloseModal (w, s) = (w, closeConnectWalletModal s)"
| "session_step (AccountsChangedEv v) (w, s) = (if installed w then (w, accountsChanged v s) else (w, s))"
| "session_step (ChainChangedEv v) (w, s) = (if installed w then fst (chainChanged v (w, s)) else (w, s))"
| "session_step DisconnectEv (w, s) = (if installed w then (w, providerDisconnect s) else (w, s))"

inductive session_reachable :: "sess \<Rightarrow> bool" where
  init: "session_reachable (web3_constructor w st)"
| step: "session_reachable st \<Longrightarrow> session_reachable (session_step op st)"
| env: "session_reachable (w, s) \<Longrightarrow> installed w' = installed w \<Longrightarrow> session_reachable (w', s)"

subsection \<open>Evaluation and invariant rules for the session computations\<close>

lemmas sess_defs = updE_def readE_def readW_def walletE_def

lemma updE_apply [exc_simps]: "updE f (w, s) = ((w, f s), Inr ())"
  and readE_apply [exc_simps]: "readE g (w, s) = ((w, s), Inr (g s))"
  and readW_apply [exc_simps]: "readW h (w, s) = ((w, s), Inr (h w))"
  by (simp_all add: sess_defs exc_defs)

lemma walletE_apply [exc_simps]:
  "req w = (w', Inl code) \<Longrightarrow> walletE req (w, s) = ((w', s), Inl (RpcError code))"
  "req w = (w', Inr a) \<Longrightarrow> walletE req (w, s) = ((w', s), Inr a)"
  by (simp_all add: walletE_def)

lemma preserves_updE [preserves_rules]:
  "(\<And>w s. P (w, s) \<Longrightarrow> P (w, f s)) \<Longrightarrow> preservesE P (updE f)"
  unfolding updE_def by (rule preserves_modifyE) auto

lemma preserves_readE [preserves_rules]: "preservesE P (readE g)"
  and preserves_readW [preserves_rules]: "preservesE P (readW h)"
  by (simp_all add: readE_def readW_def preserves_getsE)

lemma preserves_walletE [preserves_rules]:
  "(\<And>w w' s. P (w, s) \<Longrightarrow> P (w', s)) \<Longrightarrow> preservesE P (walletE req)"
  by (auto simp: preservesE_def walletE_def split: prod.split sum.split)

lemma initContracts_binding [preserves_rules]: "preservesE sess_binding (initContracts n)"
  by (auto simp: preservesE_def initContracts_def binding_inv_def exc_defs sess_defs
      split: prod.split sum.split option.split dest: config_lookup_configured)

lemma initWeb3_binding: "preservesE sess_binding initWeb3"
  unfolding initWeb3_def
  by (intro preserves_rules) (auto simp: binding_inv_def record_network_def resetState_def)

lemma connectWallet_binding: "preservesE sess_binding connectWallet"
  unfolding connectWallet_def
  by (intro preserves_rules initWeb3_binding) (auto simp: binding_inv_def)


lemma initializeWeb3WithAccount_binding: "preservesE sess_binding (initializeWeb3WithAccount a)"
  unfolding initializeWeb3WithAccount_def
  by (intro preserves_rules) (auto simp: binding_inv_def record_network_def resetState_def)

lemma checkForSavedSession_binding: "preservesE sess_binding checkForSavedSession"
  unfolding checkForSavedSession_def silentlyReconnect_def
  by (intro preserves_rules initializeWeb3WithAccount_binding)

lemma chainChanged_binding: "preservesE sess_binding (chainChanged v)"
proof (cases v)
  case (JStr h)
  show ?thesis
    unfolding chainChanged_def Let_def JStr js_val.case
    by (intro preserves_rules) (auto simp: binding_inv_def record_network_def)
qed (simp_all add: chainChanged_def preserves_returnE)

lemma ensureCorrectNetwork_binding: "preservesE sess_binding ensureCorrectNetwork"
  unfolding ensureCorrectNetwork_def
  by (intro preserves_rules) simp_all

lemma disconnectWallet_binding: "binding_inv (disconnectWallet s)"
  and resetState_binding: "binding_inv (resetState s)"
  by (simp_all add: binding_inv_def disconnectWallet_def resetState_def)

lemma binding_inv_account_storage:
  "binding_inv (s\<lparr>account := a, storage := st\<rparr>) = binding_inv s"
  by (simp add: binding_inv_def)

lemma accountsChanged_binding: "binding_inv s \<Longrightarrow> binding_inv (accountsChanged v s)"
  by (simp add: accountsChanged_def disconnectWallet_binding binding_inv_account_storage
      split: js_val.split list.split)

lemma session_step_binding:
  assumes inv: "binding_inv (snd st)"
  shows "binding_inv (snd (session_step op st))"
proof (cases op)
  case Connect
  then show ?thesis using preservesE_fst [OF connectWallet_binding inv] by simp
next
  case EnsureNetwork
  then show ?thesis using preservesE_fst [OF ensureCorrectNetwork_binding inv] by simp
next
  case (ChainChangedEv v)
  then show ?thesis using inv preservesE_fst [OF chainChanged_binding inv] by (cases st) simp
next
  case Disconnect
  then show ?thesis by (cases st) (simp add: disconnectWallet_binding)
next
  case DisconnectEv
  then show ?thesis using inv by (cases st) (simp add: disconnectWallet_binding providerDisconnect_def)
next
  case (AccountsChangedEv v)
  then show ?thesis using inv by (cases st) (simp add: accountsChanged_binding)
next
  case OpenModal
  then show ?thesis using inv by (cases st) (simp add: openConnectWalletModal_def binding_inv_def)
next
  case CloseModal
  then show ?thesis using inv by (cases st) (simp add: closeConnectWalletModal_def binding_inv_def)
qed

lemma initContracts_configured:
  "signer s \<Longrightarrow> config_lookup n = Some a \<Longrightarrow>
   initContracts n (w, s) = ((w, s\<lparr>vaultFactoryContract := Some a, vaultContract := Some a\<rparr>), Inr ())"
  by (simp add: initContracts_def exc_defs sess_defs)

lemma initContracts_no_config:
  "signer s \<Longrightarrow> config_lookup n = None \<Longrightarrow>
   initContracts n (w, s) = ((w, s\<lparr>vaultContract := None\<rparr>), Inl (NoNetworkConfig n))"
  by (simp add: initContracts_def exc_defs sess_defs)

lemma initContracts_target:
  "signer s \<Longrightarrow> initContracts (Num targetNetworkId) (w, s) =
     ((w, s\<lparr>vaultFactoryContract := Some ''0xf1Da8fA04bE703cC52bc8Ac269a439111FeaD838'',
            vaultContract := Some ''0xf1Da8fA04bE703cC52bc8Ac269a439111FeaD838''\<rparr>), Inr ())"
  by (rule initContracts_configured [OF _ config_lookup_target])

lemma requestAccounts_example:
  "eth_requestAccounts (example_wallet c cs) =
     ((example_wallet c cs)\<lparr>permitted := [''0x00000000000000000000000000000000000000aa'']\<rparr>, Inr [''0x00000000000000000000000000000000000000aa''])"
  by (simp add: example_wallet_def eth_requestAccounts_def)

lemma get_signer_permitted [simp]: "get_signer (w\<lparr>permitted := a # as\<rparr>) = Inr ()"
  by (simp add: get_signer_def)

subsection \<open>Properties of the session\<close>

text \<open>The binding invariant by rule induction on the reachable states.\<close>

lemma session_reachable_binding: "session_reachable st \<Longrightarrow> binding_inv (snd st)"
proof (induction rule: session_reachable.induct)
  case (init w st)
  have "binding_inv (snd (w, web3_initial st))" by (simp add: binding_inv_def web3_initial_def)
  then show ?case
    unfolding web3_constructor_def by (rule preservesE_fst [OF checkForSavedSession_binding])
next
  case (step st op)
  from step.IH show ?case by (rule session_step_binding)
next
  case (env w s w')
  then show ?case by simp
qed

text \<open>
  C1: In every reachable state of the session (any sequence of method calls, provider
  notifications and user actions in the wallet, from the constructor on any saved
  storage), the published factory binding \<open>vaultContract$\<close> is either empty or the
  private \<open>vaultFactoryContract\<close>, a factory binding is only held together with a
  signer, and the factory bound is one of the configured factory addresses. The proof is compositional: every statement of every method keeps the property.
\<close>

theorem reachable_binding_inv: "session_reachable st \<Longrightarrow> binding_inv (snd st)"
  by (rule session_reachable_binding)


theorem reachable_binding_inv_witness:
  "session_reachable (session_step Connect (web3_constructor (example_wallet 11155111 [1, 11155111, 31337]) Map.empty)) \<and>
   binding_inv (snd (session_step Connect (web3_constructor (example_wallet 11155111 [1, 11155111, 31337]) Map.empty)))"
proof -
  have r: "session_reachable (session_step Connect (web3_constructor (example_wallet 11155111 [1, 11155111, 31337]) Map.empty))"
    by (rule session_reachable.step [OF session_reachable.init])
  then show ?thesis using reachable_binding_inv [OF r] by simp
qed

text \<open>
  C3: Resolving the contracts for a network id that has no configuration, with a signer
  present, throws \<open>NoNetworkConfig\<close>, clears the published binding and leaves every
  other field, the private factory binding included, as it was: no partial binding.
\<close>

theorem initContracts_unconfigured:
  assumes "signer s" and "n \<noteq> Num 11155111" and "n \<noteq> Num 31337"
  shows "initContracts n (w, s) = ((w, s\<lparr>vaultContract := None\<rparr>), Inl (NoNetworkConfig n))"
  using assms by (simp add: initContracts_no_config config_lookup_None_iff)

theorem initContracts_unconfigured_witness:
  "signer (web3_initial Map.empty\<lparr>signer := True\<rparr>) \<and> Num 1 \<noteq> Num 11155111 \<and> Num 1 \<noteq> Num 31337 \<and>
   initContracts (Num 1) (example_wallet 11155111 [1, 11155111, 31337], web3_initial Map.empty\<lparr>signer := True\<rparr>) =
     ((example_wallet 11155111 [1, 11155111, 31337], web3_initial Map.empty\<lparr>signer := True, vaultContract := None\<rparr>),
      Inl (NoNetworkConfig (Num 1)))"
  using initContracts_unconfigured [of "web3_initial Map.empty\<lparr>signer := True\<rparr>" "Num 1" "example_wallet 11155111 [1, 11155111, 31337]"]
  by simp

text \<open>
  Connecting (\<open>initWeb3\<close>) with a wallet on the target network whose user grants an
  account succeeds: the session is connected for that account, bound to the Sepolia
  factory (published and private binding alike), and the account and network id are
  saved for a later silent reconnection.
\<close>

theorem initWeb3_target:
  assumes "installed w" and "eth_requestAccounts w = (w1, Inr (a # as))"
    and "get_signer w1 = Inr ()" and "chain w1 = targetNetworkId"
  shows "\<exists>s'. initWeb3 (w, s) = ((w1, s'), Inr ()) \<and> isConnected s' \<and> account s' = a \<and>
     vaultFactoryContract s' = Some ''0xf1Da8fA04bE703cC52bc8Ac269a439111FeaD838'' \<and>
     vaultContract s' = vaultFactoryContract s' \<and>
     storage s' ''walletAddress'' = Some a \<and> storage s' ''networkId'' = Some ''11155111''"
  using assms
  by (simp add: initWeb3_def exc_defs sess_defs record_network_def initContracts_target)

theorem initWeb3_target_witness:
  "\<exists>s'. initWeb3 (example_wallet 11155111 [1, 11155111, 31337], web3_initial Map.empty) =
      (((example_wallet 11155111 [1, 11155111, 31337])\<lparr>permitted := [''0x00000000000000000000000000000000000000aa'']\<rparr>, s'), Inr ()) \<and>
     isConnected s' \<and> account s' = ''0x00000000000000000000000000000000000000aa'' \<and>
     vaultFactoryContract s' = Some ''0xf1Da8fA04bE703cC52bc8Ac269a439111FeaD838'' \<and>
     vaultContract s' = vaultFactoryContract s' \<and>
     storage s' ''walletAddress'' = Some ''0x00000000000000000000000000000000000000aa'' \<and>
     storage s' ''networkId'' = Some ''11155111''"
  by (rule initWeb3_target)
     (simp_all add: example_wallet_def eth_requestAccounts_def get_signer_def targetNetworkId_def)

text \<open>
  C5: Connecting from a non-target network without a configuration (such as mainnet)
  fails even when the switch to Sepolia succeeds: \<open>initContracts\<close> is given the
  network id read before the switch, throws \<open>NoNetworkConfig\<close>, and the session is
  reset while the wallet is left on Sepolia.
\<close>

theorem initWeb3_stale_network:
  assumes "installed w" and "eth_requestAccounts w = (w1, Inr (a # as))"
    and "get_signer w1 = Inr ()" and "chain w1 \<noteq> targetNetworkId"
    and "switchToTargetNetwork w1 = (w2, Inr ())"
    and "config_lookup (Num (chain w1)) = None"
  shows "\<exists>s'. initWeb3 (w, s) = ((w2, s'), Inl (NoNetworkConfig (Num (chain w1)))) \<and>
     \<not> isConnected s' \<and> vaultFactoryContract s' = None \<and> account s' = []"
  using assms
  by (simp add: initWeb3_def exc_defs sess_defs record_network_def initContracts_no_config
      resetState_def)


theorem initWeb3_stale_network_witness:
  "chain (fst (switchToTargetNetwork ((example_wallet 1 [1, 11155111, 31337])\<lparr>permitted := [''0x00000000000000000000000000000000000000aa'']\<rparr>)))
     = targetNetworkId \<and>
   (\<exists>s'. initWeb3 (example_wallet 1 [1, 11155111, 31337], web3_initial Map.empty) =
      ((fst (switchToTargetNetwork ((example_wallet 1 [1, 11155111, 31337])\<lparr>permitted := [''0x00000000000000000000000000000000000000aa'']\<rparr>)), s'),
       Inl (NoNetworkConfig (Num 1))) \<and>
     \<not> isConnected s' \<and> vaultFactoryContract s' = None \<and> account s' = [])"
proof -
  let ?w1 = "(example_wallet 1 [1, 11155111, 31337])\<lparr>permitted := [''0x00000000000000000000000000000000000000aa'']\<rparr>"
  have sw: "switchToTargetNetwork ?w1 = (?w1\<lparr>chain := targetNetworkId\<rparr>, Inr ())"
    unfolding switchToTargetNetwork_def wallet_switchEthereumChain_def parse_target_param
    by (simp add: example_wallet_def targetNetworkId_def)
  have "config_lookup (Num 1) = None"
    by (simp add: config_lookup_def contractConfig_def jsnum_to_string_def int_to_radix_def
        radix_digits.simps digit_char_def char_of_eq_iff)
  with sw have "\<exists>s'. initWeb3 (example_wallet 1 [1, 11155111, 31337], web3_initial Map.empty) =
      ((?w1\<lparr>chain := targetNetworkId\<rparr>, s'), Inl (NoNetworkConfig (Num 1))) \<and>
     \<not> isConnected s' \<and> vaultFactoryContract s' = None \<and> account s' = []"
    using initWeb3_stale_network [of "example_wallet 1 [1, 11155111, 31337]" ?w1 "''0x00000000000000000000000000000000000000aa''" "[]"
        "?w1\<lparr>chain := targetNetworkId\<rparr>" "web3_initial Map.empty"]
    by (simp add: requestAccounts_example targetNetworkId_def)
  with sw show ?thesis by simp
qed

text \<open>
  C6: An \<open>accountsChanged\<close> notification with an empty account list (the user
  disconnected the site in the wallet) disconnects the session: not connected, no
  account, no contract binding, and both saved keys removed from \<open>localStorage\<close>.
\<close>

theorem accountsChanged_empty:
  "\<not> isConnected (accountsChanged (JStrArr []) s) \<and> account (accountsChanged (JStrArr []) s) = [] \<and>
   storage (accountsChanged (JStrArr []) s) ''walletAddress'' = None \<and>
   storage (accountsChanged (JStrArr []) s) ''networkId'' = None \<and>
   vaultFactoryContract (accountsChanged (JStrArr []) s) = None \<and>
   vaultContract (accountsChanged (JStrArr []) s) = None"
  by (simp add: accountsChanged_def disconnectWallet_def resetState_def)



text \<open>
  A \<open>chainChanged\<close> notification to any network other than the target clears
  the published binding \<open>vaultContract$\<close> but keeps the private factory binding and the
  signer: \<open>getVaultFactoryContract()\<close>, which the vault service uses, still returns
  the factory of the previous network.
\<close>

theorem chainChanged_off_target:
  assumes "\<not> js_num_eq (parseInt_hex h) targetNetworkId"
  shows "\<exists>s'. chainChanged (JStr h) (w, s) = ((w, s'), Inr ()) \<and> vaultContract s' = None \<and>
     vaultFactoryContract s' = vaultFactoryContract s \<and> signer s' = signer s \<and>
     networkId s' = parseInt_hex h"
  using assms
  by (simp add: chainChanged_def Let_def exc_defs sess_defs record_network_def)

theorem chainChanged_off_target_witness:
  "\<not> js_num_eq (parseInt_hex (chain_hex 31337)) targetNetworkId \<and>
   (\<exists>s'. chainChanged (JStr (chain_hex 31337))
      (example_wallet 11155111 [1, 11155111, 31337], web3_initial Map.empty\<lparr>signer := True, vaultFactoryContract := Some ''0xf1Da8fA04bE703cC52bc8Ac269a439111FeaD838'',
                                     vaultContract := Some ''0xf1Da8fA04bE703cC52bc8Ac269a439111FeaD838''\<rparr>) = ((example_wallet 11155111 [1, 11155111, 31337], s'), Inr ()) \<and>
     vaultContract s' = None \<and> vaultFactoryContract s' = Some ''0xf1Da8fA04bE703cC52bc8Ac269a439111FeaD838'' \<and> signer s' \<and>
     networkId s' = Num 31337)"
proof -
  have p: "parseInt_hex (chain_hex 31337) = Num 31337" by (simp add: parseInt_chain_hex)
  show ?thesis
    using chainChanged_off_target [of "chain_hex 31337" "example_wallet 11155111 [1, 11155111, 31337]"
        "web3_initial Map.empty\<lparr>signer := True, vaultFactoryContract := Some ''0xf1Da8fA04bE703cC52bc8Ac269a439111FeaD838'', vaultContract := Some ''0xf1Da8fA04bE703cC52bc8Ac269a439111FeaD838''\<rparr>"]
    by (simp add: p targetNetworkId_def)
qed

text \<open>
  C11: Connecting from the Hardhat network (configured, but not the target) with a
  successful switch to Sepolia binds the Hardhat factory address, records network 31337
  and saves it, although the wallet is now on Sepolia: the binding follows the network id
  read before the switch.
\<close>

theorem initWeb3_hardhat:
  assumes "installed w" and "eth_requestAccounts w = (w1, Inr (a # as))"
    and "get_signer w1 = Inr ()" and "chain w1 = 31337"
    and "switchToTargetNetwork w1 = (w2, Inr ())"
  shows "\<exists>s'. initWeb3 (w, s) = ((w2, s'), Inr ()) \<and> isConnected s' \<and>
     vaultFactoryContract s' = Some ''0x5FbDB2315678afecb367f032d93F642f64180aa3'' \<and>
     networkId s' = Num 31337 \<and> storage s' ''networkId'' = Some ''31337''"
  using assms
  by (simp add: initWeb3_def exc_defs sess_defs record_network_def initContracts_configured
      targetNetworkId_def)

theorem initWeb3_hardhat_witness:
  "chain (fst (switchToTargetNetwork ((example_wallet 31337 [1, 11155111, 31337])\<lparr>permitted := [''0x00000000000000000000000000000000000000aa'']\<rparr>))) = targetNetworkId \<and>
   (\<exists>s'. initWeb3 (example_wallet 31337 [1, 11155111, 31337], web3_initial Map.empty) =
      ((fst (switchToTargetNetwork ((example_wallet 31337 [1, 11155111, 31337])\<lparr>permitted := [''0x00000000000000000000000000000000000000aa'']\<rparr>)), s'), Inr ()) \<and>
     isConnected s' \<and> vaultFactoryContract s' = Some ''0x5FbDB2315678afecb367f032d93F642f64180aa3'' \<and>
     networkId s' = Num 31337 \<and> storage s' ''networkId'' = Some ''31337'')"
proof -
  let ?w1 = "(example_wallet 31337 [1, 11155111, 31337])\<lparr>permitted := [''0x00000000000000000000000000000000000000aa'']\<rparr>"
  have sw: "switchToTargetNetwork ?w1 = (?w1\<lparr>chain := targetNetworkId\<rparr>, Inr ())"
    unfolding switchToTargetNetwork_def wallet_switchEthereumChain_def parse_target_param
    by (simp add: targetNetworkId_def)
  then have "\<exists>s'. initWeb3 (example_wallet 31337 [1, 11155111, 31337], web3_initial Map.empty) =
      ((?w1\<lparr>chain := targetNetworkId\<rparr>, s'), Inr ()) \<and>
     isConnected s' \<and> vaultFactoryContract s' = Some ''0x5FbDB2315678afecb367f032d93F642f64180aa3'' \<and>
     networkId s' = Num 31337 \<and> storage s' ''networkId'' = Some ''31337''"
    using initWeb3_hardhat [of "example_wallet 31337 [1, 11155111, 31337]" ?w1 "''0x00000000000000000000000000000000000000aa''" "[]" "?w1\<lparr>chain := targetNetworkId\<rparr>" "web3_initial Map.empty"]
    by (simp add: requestAccounts_example)
  with sw show ?thesis by simp
qed

text \<open>
  Disconnecting is idempotent: a second disconnect changes nothing.
\<close>

theorem disconnectWallet_idempotent: "disconnectWallet (disconnectWallet s) = disconnectWallet s"
  by (simp add: disconnectWallet_def resetState_def)

text \<open>
  C13: An \<open>accountsChanged\<close> notification with a non-empty list while disconnected sets
  the account but not the connection flag: a disconnected session then carries an account.
\<close>

theorem accountsChanged_while_disconnected:
  "\<not> isConnected s \<Longrightarrow>
   \<not> isConnected (accountsChanged (JStrArr (a # as)) s) \<and> account (accountsChanged (JStrArr (a # as)) s) = a"
  by (simp add: accountsChanged_def)

theorem accountsChanged_while_disconnected_witness:
  "\<not> isConnected (web3_initial Map.empty) \<and>
   \<not> isConnected (accountsChanged (JStrArr [''0x00000000000000000000000000000000000000aa'']) (web3_initial Map.empty)) \<and>
   account (accountsChanged (JStrArr [''0x00000000000000000000000000000000000000aa'']) (web3_initial Map.empty)) = ''0x00000000000000000000000000000000000000aa''"
  using accountsChanged_while_disconnected [of "web3_initial Map.empty" "''0x00000000000000000000000000000000000000aa''" "[]"]
  by (simp add: web3_initial_def)

text \<open>
  C14: A \<open>chainChanged\<close> notification to the target network with a signer present
  re-resolves the contracts: both bindings become the Sepolia factory, the network is
  marked correct and its id is saved.
\<close>

theorem chainChanged_target:
  assumes "signer s"
  shows "\<exists>s'. chainChanged (JStr (chain_hex targetNetworkId)) (w, s) = ((w, s'), Inr ()) \<and>
     vaultContract s' = Some ''0xf1Da8fA04bE703cC52bc8Ac269a439111FeaD838'' \<and>
     vaultFactoryContract s' = vaultContract s' \<and> isCorrectNetwork s' \<and>
     storage s' ''networkId'' = Some ''11155111''"
proof -
  have p: "parseInt_hex (chain_hex targetNetworkId) = Num targetNetworkId"
    by (simp add: parseInt_chain_hex targetNetworkId_def)
  show ?thesis
    using assms
    by (simp add: chainChanged_def Let_def p exc_defs sess_defs record_network_def initContracts_target)
qed

theorem chainChanged_target_witness:
  "signer (web3_initial Map.empty\<lparr>signer := True\<rparr>) \<and>
   (\<exists>s'. chainChanged (JStr (chain_hex targetNetworkId)) (example_wallet 11155111 [1, 11155111, 31337], web3_initial Map.empty\<lparr>signer := True\<rparr>) =
      ((example_wallet 11155111 [1, 11155111, 31337], s'), Inr ()) \<and> vaultContract s' = Some ''0xf1Da8fA04bE703cC52bc8Ac269a439111FeaD838'' \<and>
     vaultFactoryContract s' = vaultContract s' \<and> isCorrectNetwork s' \<and>
     storage s' ''networkId'' = Some ''11155111'')"
  using chainChanged_target [of "web3_initial Map.empty\<lparr>signer := True\<rparr>" "example_wallet 11155111 [1, 11155111, 31337]"] by simp

end
