(* ===== verification/Components.thy ===== *)
theory Components
  imports Dialogs Session
begin

text \<open>
  The routed components of \<open>src/src/app/components/\<close> and the route table of
  \<open>src/src/app/app.routes.ts\<close>. A component's fields are a record; the subjects it
  subscribes to in its constructor or \<open>ngOnInit\<close> are read back from the service state
  after each call (\<open>observe_service\<close>): a \<open>BehaviorSubject\<close> delivers its values
  synchronously, and only the last value of each matters for the fields the callbacks
  set. Control values are the typed text, as for the dialogs.
\<close>

subsection \<open>Routes\<close>

datatype component = HomeComponent | VaultExploreComponent | VaultCreateComponent | VaultListComponent

datatype route = Redirect string string | Route string component

definition routes :: "route list" where
  "routes =
     [Redirect [] ''/home'', Route ''home'' HomeComponent, Route ''explore'' VaultExploreComponent,
      Route ''create'' VaultCreateComponent, Route ''my-vaults'' VaultListComponent]"

text \<open>The non-empty segments of a URL path.\<close>

fun split_slash :: "string \<Rightarrow> string list" where
  "split_slash [] = [[]]"
| "split_slash (c # cs) =
     (if c = CHR ''/'' then [] # split_slash cs
      else (case split_slash cs of (w # ws) \<Rightarrow> (c # w) # ws | [] \<Rightarrow> [[c]]))"

definition path_segments :: "string \<Rightarrow> string list" where
  "path_segments p = filter (\<lambda>w. w \<noteq> []) (split_slash p)"

text \<open>The URL of \<open>router.navigate(commands)\<close> with absolute string commands.\<close>

definition navigate_segments :: "string list \<Rightarrow> string list" where
  "navigate_segments cmds = concat (map path_segments cmds)"

fun route_segments :: "route \<Rightarrow> string list" where
  "route_segments (Redirect p t) = path_segments p"
| "route_segments (Route p c) = path_segments p"

text \<open>Route recognition: the first route whose path is the whole URL (no route has
  children, so a prefix match that leaves segments fails); an absolute redirect restarts
  the match on its target. The fuel bounds the redirects followed.\<close>

primrec recognize_fuel :: "nat \<Rightarrow> string list \<Rightarrow> component option" where
  "recognize_fuel 0 segs = None"
| "recognize_fuel (Suc n) segs =
     (case find (\<lambda>r. route_segments r = segs) routes of
        None \<Rightarrow> None
      | Some (Route p c) \<Rightarrow> Some c
      | Some (Redirect p t) \<Rightarrow> recognize_fuel n (path_segments t))"

definition recognize :: "string list \<Rightarrow> component option" where
  "recognize segs = recognize_fuel (length routes) segs"

subsection \<open>Creating a vault: \<open>VaultCreateComponent\<close>\<close>

record create_component =
  cc_isLoading :: bool
  cc_error :: string
  cc_successMessage :: string
  cc_vaultCreated :: bool

record create_form =
  cf_name :: string
  cf_description :: string
  cf_category :: string
  cf_imageURI :: string
  cf_isPublic :: bool
  cf_target :: string

definition create_component_initial :: create_component where
  "create_component_initial =
     \<lparr>cc_isLoading = False, cc_error = [], cc_successMessage = [], cc_vaultCreated = False\<rparr>"

definition minLength_valid :: "nat \<Rightarrow> string \<Rightarrow> bool" where
  "minLength_valid n v \<longleftrightarrow> v = [] \<or> n \<le> length v"

definition maxLength_valid :: "nat \<Rightarrow> string \<Rightarrow> bool" where
  "maxLength_valid n v \<longleftrightarrow> v = [] \<or> length v \<le> n"

text \<open>The literal \<open>0.0001\<close> of the target's \<open>Validators.min\<close>.\<close>

definition min_target :: jsdouble where
  "min_target = nearest_double 1 10000"

definition create_form_valid :: "create_form \<Rightarrow> bool" where
  "create_form_valid f \<longleftrightarrow>
     required_valid (cf_name f) \<and> minLength_valid 3 (cf_name f) \<and>
     required_valid (cf_description f) \<and> maxLength_valid 200 (cf_description f) \<and>
     required_valid (cf_category f) \<and> required_valid (cf_imageURI f) \<and>
     required_valid (cf_target f) \<and> min_valid min_target (cf_target f)"

definition create_request :: "create_form \<Rightarrow> CreateVaultRequest" where
  "create_request f =
     \<lparr>req_metadata = \<lparr>name = cf_name f, description = cf_description f, category = cf_category f,
        imageURI = cf_imageURI f, target = cf_target f, isPublic = cf_isPublic f\<rparr>,
      req_type = SingleOwner\<rparr>"

text \<open>The constructor's subscriptions: \<open>isLoading\<close> follows \<open>loading$\<close>; a truthy
  \<open>error$\<close> value is shown and clears the success message.\<close>

definition observe_service :: "vsvc \<Rightarrow> create_component \<Rightarrow> create_component" where
  "observe_service s cc =
     (let cc1 = cc\<lparr>cc_isLoading := loading s\<rparr>
      in case error s of
           None \<Rightarrow> cc1
         | Some e \<Rightarrow> if e = [] then cc1 else cc1\<lparr>cc_error := e, cc_successMessage := []\<rparr>)"

datatype call_result = Returned | Threw string

definition takeUntilDestroyed_error :: string where
  "takeUntilDestroyed_error =
     ''NG0203: takeUntilDestroyed() can only be used within an injection context''"

text \<open>\<open>onSubmit()\<close>: an invalid form or a pending operation returns. Otherwise the request
  is built and \<open>createSingleOwnerVault\<close> called; its result is piped through
  \<open>takeUntilDestroyed()\<close>, which, called in an event handler and not in an injection
  context, throws before \<open>subscribe\<close> runs. What runs is the method's synchronous part.\<close>

definition vaultCreate_onSubmit ::
  "session_view \<Rightarrow> create_form \<Rightarrow> create_component \<times> vsvc \<Rightarrow>
     (create_component \<times> vsvc) \<times> contract_call option \<times> call_result" where
  "vaultCreate_onSubmit v f st =
     (case st of
        (cc, s) \<Rightarrow>
          if \<not> create_form_valid f \<or> cc_isLoading cc then (st, None, Returned)
          else
            (case createSingleOwnerVault_sync v (create_request f) s of
               (s', r, call) \<Rightarrow>
                 ((observe_service s' cc, s'), call,
                  Threw (case r of Inl m \<Rightarrow> m | Inr u \<Rightarrow> takeUntilDestroyed_error))))"

text \<open>The navigation \<open>onSubmit\<close> asks for after a creation,
  \<open>router.navigate(['/vault', vaultAddress])\<close>.\<close>

definition created_vault_url :: "address \<Rightarrow> string list" where
  "created_vault_url a = navigate_segments [''/vault'', a]"

subsection \<open>Listing the user's vaults: \<open>VaultListComponent\<close>\<close>

text \<open>\<open>ngOnInit\<close> subscribes to \<open>isConnected$\<close> and reloads the user's vaults on every
  \<open>true\<close>, as the service's own constructor subscription does; selecting a vault loads
  its details.\<close>

definition vaultList_onConnected :: "bool \<Rightarrow> session_view \<Rightarrow> chain_state \<Rightarrow> vsvc \<Rightarrow> vsvc" where
  "vaultList_onConnected b v c s = (if b then fst (loadUserVaults v c s) else s)"

definition selectVault :: "session_view \<Rightarrow> chain_state \<Rightarrow> vault \<Rightarrow> vsvc \<Rightarrow> vsvc" where
  "selectVault v c vt s = fst (loadVaultDetails v c (address vt) s)"

text \<open>\<open>String.prototype.toLowerCase\<close> on the Latin-1 range the model's characters cover.\<close>

definition js_lower_char :: "char \<Rightarrow> char" where
  "js_lower_char c =
     (let k = (of_char c :: nat)
      in if (65 \<le> k \<and> k \<le> 90) \<or> (192 \<le> k \<and> k \<le> 222 \<and> k \<noteq> 215) then char_of (k + 32) else c)"

definition isVaultOwner :: "address \<Rightarrow> vault \<Rightarrow> bool" where
  "isVaultOwner acct vt \<longleftrightarrow> map js_lower_char (owner vt) = map js_lower_char acct"

text \<open>\<open>VaultCategory[category as keyof typeof VaultCategory] || category\<close>: the enum is
  indexed by its member names.\<close>

definition category_key :: "string \<Rightarrow> VaultCategory option" where
  "category_key k =
     map_of [(''Travel'', Travel), (''Party'', Party), (''Medical'', Medical), (''Emergency'', Emergency),
             (''Savings'', Savings), (''Home'', Home), (''Family'', Family), (''Education'', Education),
             (''Entertainment'', Entertainment), (''Sport'', Sport), (''Other'', Other)] k"

definition getCategoryLabel :: "string \<Rightarrow> string" where
  "getCategoryLabel c = js_or_str (map_option categoryValue (category_key c)) c"

subsection \<open>Exploring public vaults: \<open>VaultExploreComponent\<close>\<close>

record explore_component =
  ex_publicVaults :: "vault_entry list"
  ex_filteredVaults :: "vault_entry list"
  ex_categories :: "string list"
  ex_loading :: bool
  ex_isConnected :: bool
  ex_searchTerm :: string
  ex_selectedCategory :: string
  ex_sortBy :: string

definition explore_initial :: explore_component where
  "explore_initial =
     \<lparr>ex_publicVaults = [], ex_filteredVaults = [], ex_categories = [], ex_loading = True,
      ex_isConnected = False, ex_searchTerm = [], ex_selectedCategory = [], ex_sortBy = ''newest''\<rparr>"

text \<open>\<open>loadVaults\<close> only clears the loading flag (the call of \<open>loadPublicVaults\<close> is
  commented out); \<open>extractCategories\<close> fills a local set that is never stored;
  \<open>applyFilters\<close> copies the public vaults (the filters and sorts are commented out).\<close>

definition explore_loadVaults :: "explore_component \<Rightarrow> explore_component" where
  "explore_loadVaults e = e\<lparr>ex_loading := False\<rparr>"

definition explore_extractCategories :: "explore_component \<Rightarrow> explore_component" where
  "explore_extractCategories e = e"

definition explore_applyFilters :: "explore_component \<Rightarrow> explore_component" where
  "explore_applyFilters e = e\<lparr>ex_filteredVaults := ex_publicVaults e\<rparr>"

definition explore_ngOnInit :: "bool \<Rightarrow> explore_component \<Rightarrow> explore_component" where
  "explore_ngOnInit b e = explore_loadVaults (e\<lparr>ex_isConnected := b\<rparr>)"

text \<open>The operations of the page: initialisation, a value of \<open>isConnected$\<close>, the three
  methods, and the filter fields the template binds.\<close>

datatype explore_op =
    ExInit bool | ExConnected bool | ExLoad | ExExtract | ExApply
  | ExSearch string | ExCategory string | ExSort string

fun explore_step :: "explore_op \<Rightarrow> explore_component \<Rightarrow> explore_component" where
  "explore_step (ExInit b) e = explore_ngOnInit b e"
| "explore_step (ExConnected b) e = e\<lparr>ex_isConnected := b\<rparr>"
| "explore_step ExLoad e = explore_loadVaults e"
| "explore_step ExExtract e = explore_extractCategories e"
| "explore_step ExApply e = explore_applyFilters e"
| "explore_step (ExSearch t) e = e\<lparr>ex_searchTerm := t\<rparr>"
| "explore_step (ExCategory t) e = e\<lparr>ex_selectedCategory := t\<rparr>"
| "explore_step (ExSort t) e = e\<lparr>ex_sortBy := t\<rparr>"

inductive explore_reachable :: "explore_component \<Rightarrow> bool" where
  init: "explore_reachable explore_initial"
| step: "explore_reachable e \<Longrightarrow> explore_reachable (explore_step op e)"

definition categoryIcons :: "(string \<times> string) list" where
  "categoryIcons =
     [(''Personal'', ''person''), (''Business'', ''business''), (''Charity'', ''volunteer_activism''),
      (''Education'', ''school''), (''Health'', ''local_hospital''), (''Technology'', ''computer''),
      (''Art'', ''palette''), (''Community'', ''people''), (''Other'', ''category'')]"

definition getVaultIcon :: "string \<Rightarrow> string" where
  "getVaultIcon c = js_or_str (map_of categoryIcons c) ''account_balance''"

text \<open>\<open>getProgressPercentage\<close>: \<open>0\<close> for a non-positive or unreadable target or an
  unreadable balance, otherwise \<open>Math.min((balance / target) * 100, 100)\<close>.\<close>

definition getProgressPercentage :: "string \<Rightarrow> string \<Rightarrow> jsdouble" where
  "getProgressPercentage b t =
     (let bn = parseFloat b; tn = parseFloat t
      in if js_le tn (Fin 0) \<or> is_nan tn \<or> is_nan bn then Fin 0
         else js_min (js_mul (js_div bn tn) (Fin 100)) (Fin 100))"

subsection \<open>The shell and the home page\<close>

record app_component =
  app_isConnected :: bool
  app_walletAddress :: address

text \<open>The subscriptions of \<open>AppComponent.ngOnInit\<close> (and of \<open>HomeComponent\<close>, which
  keeps \<open>isConnected\<close> only) read \<open>isConnected$\<close> and \<open>account$\<close>.\<close>

definition app_observe :: "web3 \<Rightarrow> app_component \<Rightarrow> app_component" where
  "app_observe s a = a\<lparr>app_isConnected := isConnected s, app_walletAddress := account s\<rparr>"

definition app_disconnectWallet :: "web3 \<Rightarrow> app_component \<Rightarrow> web3 \<times> app_component" where
  "app_disconnectWallet s a =
     (let s' = disconnectWallet s in (s', (app_observe s' a)\<lparr>app_isConnected := False, app_walletAddress := []\<rparr>))"

definition home_observe :: "web3 \<Rightarrow> bool \<Rightarrow> bool" where
  "home_observe s b = isConnected s"


definition example_form :: create_form where
  "example_form = \<lparr>cf_name = ''Viaje'', cf_description = ''Ahorro'', cf_category = ''Viaje'',
     cf_imageURI = ''ipfs://x'', cf_isPublic = True, cf_target = ''1''\<rparr>"

subsection \<open>Lemmas\<close>

lemma split_slash_no_slash: "CHR ''/'' \<notin> set a \<Longrightarrow> split_slash a = [a]"
  by (induction a) auto

lemma path_segments_word:
  assumes "a \<noteq> []" and "CHR ''/'' \<notin> set a"
  shows "path_segments a = [a]"
proof -
  have "split_slash a = [a]" using assms(2) by (rule split_slash_no_slash)
  then show ?thesis using assms(1) by (simp add: path_segments_def)
qed

lemma routes_segments_short: "r \<in> set routes \<Longrightarrow> length (route_segments r) \<le> 1"
  by (auto simp: routes_def path_segments_def)

lemma recognize_long: "1 < length segs \<Longrightarrow> recognize segs = None"
proof -
  assume l: "1 < length segs"
  have "find (\<lambda>r. route_segments r = segs) routes = None"
    using l by (fastforce simp: find_None_iff dest: routes_segments_short)
  then show ?thesis by (simp add: recognize_def routes_def)
qed

text \<open>After one redirect every match ends: the result does not change with more fuel.\<close>

lemma recognize_fuel_settles: "recognize_fuel (Suc (Suc k)) segs = recognize_fuel 2 segs"
  by (simp add: routes_def path_segments_def numeral_2_eq_2)

lemma js_mul_100_nonneg:
  assumes "x = PInf \<or> (\<exists>r. x = Fin r \<and> 0 \<le> r)"
  shows "js_mul x (Fin 100) = PInf \<or> (\<exists>r. js_mul x (Fin 100) = Fin r \<and> 0 \<le> r)"
proof (cases "x = PInf")
  case True
  then show ?thesis by simp
next
  case False
  then obtain r where x: "x = Fin r" and r: "0 \<le> r" using assms by auto
  then have "0 \<le> r * 100" by simp
  then show ?thesis using round_rat_nonneg [of "r * 100"] x by simp
qed

lemma js_min_100:
  assumes "x = PInf \<or> (\<exists>r. x = Fin r \<and> 0 \<le> r)"
  shows "\<exists>r. js_min x (Fin 100) = Fin r \<and> 0 \<le> r \<and> r \<le> 100"
  using assms by (auto simp: js_min_def)

lemma getVaultIcon_categories: "getVaultIcon (categoryValue k) = ''account_balance''"
  by (cases k) (simp_all add: getVaultIcon_def categoryIcons_def js_or_str_def)

subsection \<open>Properties of the components\<close>

text \<open>
  C35: Submitting a valid creation form with no operation pending, a factory bound and a target
  that parses, submits the creation transaction and then throws (\<open>takeUntilDestroyed()\<close>
  outside an injection context) before subscribing: the service stays loading, the
  component's \<open>isLoading\<close> becomes true and no success is shown, and from then on every
  submission returns without doing anything.
\<close>

theorem vaultCreate_submit_blocks:
  assumes "create_form_valid f" and "\<not> cc_isLoading cc" and "sv_factory v = Some fa"
    and "parseEther (cf_target f) = Inr amt"
  shows "vaultCreate_onSubmit v f (cc, s) =
           ((cc\<lparr>cc_isLoading := True\<rparr>, s\<lparr>loading := True, error := None\<rparr>),
            Some (CallCreateSingleOwnerVault fa (cf_name f) (cf_description f) (cf_category f)
                    (cf_imageURI f) (cf_isPublic f) amt),
            Threw takeUntilDestroyed_error) \<and>
         (\<forall>f2. vaultCreate_onSubmit v f2 (cc\<lparr>cc_isLoading := True\<rparr>, s\<lparr>loading := True, error := None\<rparr>) =
                ((cc\<lparr>cc_isLoading := True\<rparr>, s\<lparr>loading := True, error := None\<rparr>), None, Returned))"
proof -
  have t: "cf_target f \<noteq> []" using assms(1) by (simp add: create_form_valid_def required_valid_def)
  show ?thesis
    using assms t
    by (simp add: vaultCreate_onSubmit_def createSingleOwnerVault_sync_def create_request_def
        observe_service_def vsvc_defs Let_def)
qed

theorem vaultCreate_submit_blocks_witness:
  "create_form_valid example_form \<and> \<not> cc_isLoading create_component_initial \<and>
   parseEther (cf_target example_form) = Inr 1000000000000000000 \<and>
   snd (snd (vaultCreate_onSubmit example_view example_form (create_component_initial, vsvc_initial))) =
     Threw takeUntilDestroyed_error"
proof -
  have p1: "parseFloat ''1'' = Fin 1"
    using parseFloat_decimal [of "''1''" "[]"]
    by (simp add: is_dec_char_def digits_value_def hex_val_def nearest_double_def floor_log2_def nbits_pos
        round_div_def pow2_def Let_def)
  have m: "min_target = Fin (7378697629483821 / 73786976294838206464)"
    by (simp add: min_target_def nearest_double_def floor_log2_def nbits_pos round_div_def pow2_def Let_def)
  have v: "create_form_valid example_form"
    by (simp add: create_form_valid_def example_form_def required_valid_def minLength_valid_def
        maxLength_valid_def min_valid_def p1 m)
  have pe: "parseEther (cf_target example_form) = Inr 1000000000000000000"
    by (simp add: example_form_def)
  have fa: "sv_factory example_view = Some ''0xf1Da8fA04bE703cC52bc8Ac269a439111FeaD838''"
    by (simp add: example_view_def)
  have nl: "\<not> cc_isLoading create_component_initial" by (simp add: create_component_initial_def)
  show ?thesis
    using vaultCreate_submit_blocks [OF v nl fa pe, of vsvc_initial] v nl pe by simp
qed

text \<open>
  The page the create component navigates to after a creation, \<open>/vault/<address>\<close>,
  matches no route of the application.
\<close>

theorem created_vault_url_unrouted:
  assumes "a \<noteq> []" and "CHR ''/'' \<notin> set a"
  shows "created_vault_url a = [''vault'', a] \<and> recognize (created_vault_url a) = None"
proof -
  have v: "path_segments ''/vault'' = [''vault'']" by (simp add: path_segments_def)
  have u: "created_vault_url a = [''vault'', a]"
    using path_segments_word [OF assms] v by (simp add: created_vault_url_def navigate_segments_def)
  then show ?thesis using recognize_long [of "[''vault'', a]"] by simp
qed

theorem created_vault_url_unrouted_witness:
  "''0x00000000000000000000000000000000000000b1'' \<noteq> [] \<and>
   CHR ''/'' \<notin> set ''0x00000000000000000000000000000000000000b1'' \<and>
   recognize (created_vault_url ''0x00000000000000000000000000000000000000b1'') = None"
proof -
  have h: "''0x00000000000000000000000000000000000000b1'' \<noteq> [] \<and>
           CHR ''/'' \<notin> set ''0x00000000000000000000000000000000000000b1''" by simp
  then show ?thesis using created_vault_url_unrouted [of "''0x00000000000000000000000000000000000000b1''"] by blast
qed

text \<open>
  C37: On the explore page, in every state reachable from its initial state by any sequence of
  its operations, the public vaults and the filtered vaults are empty: the page never
  loads a vault.
\<close>

theorem explore_reachable_empty:
  "explore_reachable e \<Longrightarrow> ex_publicVaults e = [] \<and> ex_filteredVaults e = []"
proof (induction rule: explore_reachable.induct)
  case init
  then show ?case by (simp add: explore_initial_def)
next
  case (step e op)
  then show ?case
    by (cases op) (simp_all add: explore_ngOnInit_def explore_loadVaults_def explore_extractCategories_def
        explore_applyFilters_def)
qed

theorem explore_reachable_empty_witness:
  "explore_reachable (explore_step ExApply (explore_step (ExInit True) explore_initial)) \<and>
   ex_publicVaults (explore_step ExApply (explore_step (ExInit True) explore_initial)) = []"
proof -
  have r: "explore_reachable (explore_step ExApply (explore_step (ExInit True) explore_initial))"
    by (intro explore_reachable.step explore_reachable.init)
  then show ?thesis using explore_reachable_empty [OF r] by simp
qed

text \<open>
  C38: The progress percentage of a vault whose balance reads as a non-negative number and
  whose target reads as a number is a number between 0 and 100, on every branch
  (non-positive target, overflow of the quotient, rounding).
\<close>

theorem getProgressPercentage_bounds:
  assumes "parseFloat b = Fin x" and "0 \<le> x" and "parseFloat t = Fin y"
  shows "\<exists>r. getProgressPercentage b t = Fin r \<and> 0 \<le> r \<and> r \<le> 100"
proof (cases "y \<le> 0")
  case True
  then show ?thesis using assms by (simp add: getProgressPercentage_def js_le_def)
next
  case False
  then have d: "js_div (Fin x) (Fin y) = round_rat (x / y)" by simp
  have "0 \<le> x / y" using assms(2) False by simp
  then have "js_div (Fin x) (Fin y) = PInf \<or> (\<exists>r. js_div (Fin x) (Fin y) = Fin r \<and> 0 \<le> r)"
    using d round_rat_nonneg by simp
  then obtain r where "js_min (js_mul (js_div (Fin x) (Fin y)) (Fin 100)) (Fin 100) = Fin r \<and> 0 \<le> r \<and> r \<le> 100"
    using js_min_100 js_mul_100_nonneg by blast
  then show ?thesis using assms False by (simp add: getProgressPercentage_def js_le_def)
qed

theorem getProgressPercentage_bounds_witness:
  "parseFloat ''2'' = Fin 2 \<and> (0::rat) \<le> 2 \<and> parseFloat ''1'' = Fin 1 \<and>
   getProgressPercentage ''2'' ''1'' = Fin 100"
proof -
  have p2: "parseFloat ''2'' = Fin 2"
    using parseFloat_decimal [of "''2''" "[]"]
    by (simp add: is_dec_char_def digits_value_def hex_val_def nearest_double_def floor_log2_def nbits_pos
        round_div_def pow2_def Let_def)
  have p1: "parseFloat ''1'' = Fin 1"
    using parseFloat_decimal [of "''1''" "[]"]
    by (simp add: is_dec_char_def digits_value_def hex_val_def nearest_double_def floor_log2_def nbits_pos
        round_div_def pow2_def Let_def)
  have g: "getProgressPercentage ''2'' ''1'' = Fin 100"
    using getProgressPercentage_bounds [OF p2 _ p1]
    by (simp add: getProgressPercentage_def p1 p2 js_le_def js_min_def round_rat_def nearest_double_def
        floor_log2_def nbits_pos round_div_def pow2_def Let_def)
  show ?thesis using p1 p2 g by simp
qed

text \<open>
  When \<open>isConnected$\<close> emits \<open>true\<close> with the vault list on screen, the service's own
  subscription and the list's subscription both reload the user's vaults; the second
  reload leaves the state the first one produced.
\<close>

theorem vaultList_double_load:
  "vaultList_onConnected True v c (on_isConnected True v c s) = on_isConnected True v c s"
proof -
  have "fst (loadUserVaults v c (fst (loadUserVaults v c s))) = fst (loadUserVaults v c s)"
    by (simp add: loadUserVaults_def vsvc_defs Let_def split: option.split sum.split)
  then show ?thesis by (simp add: vaultList_onConnected_def on_isConnected_def)
qed



end
