(* ===== verification/Balances.thy ===== *)
theory Balances
  imports Session Ether
begin

text \<open>
  The balance helpers of \<open>Web3Service\<close> (\<open>src/src/app/services/web3.service.ts\<close>):
  \<open>getAddressBalance\<close>, \<open>hasEnoughBalance\<close> and \<open>getSepETH\<close>. They read the session and
  the chain and change no state. The provider's \<open>getBalance\<close> is an input, an amount of
  wei or the message of the error it throws. No component calls these methods.
\<close>

type_synonym balance_reader = "address \<Rightarrow> string + int"

text \<open>\<open>getAddressBalance(address)\<close>: without a provider it throws; otherwise it prints the
  balance with \<open>formatEther\<close>, and a failed read is rethrown.\<close>

definition getAddressBalance :: "balance_reader \<Rightarrow> address \<Rightarrow> web3 \<Rightarrow> string + string" where
  "getAddressBalance getBalance a s =
     (if \<not> provider s then Inl ''No hay un proveedor disponible''
      else case getBalance a of
             Inl e \<Rightarrow> Inl e
           | Inr b \<Rightarrow> Inr (formatEther b))"

text \<open>\<open>hasEnoughBalance(amount)\<close>: false without a provider or an account; otherwise the
  account's balance must cover the amount plus a gas allowance of 0.01 ether; a failed
  read or an unparsable amount gives false.\<close>

definition hasEnoughBalance :: "balance_reader \<Rightarrow> string \<Rightarrow> web3 \<Rightarrow> bool" where
  "hasEnoughBalance getBalance amount s =
     (if \<not> provider s \<or> account s = [] then False
      else case getBalance (account s) of
             Inl e \<Rightarrow> False
           | Inr b \<Rightarrow>
               (case parseEther amount of
                  Inl m \<Rightarrow> False
                | Inr amountWei \<Rightarrow>
                    (case parseEther ''0.01'' of
                       Inl m \<Rightarrow> False
                     | Inr gasEstimate \<Rightarrow> amountWei + gasEstimate \<le> b)))"

text \<open>\<open>getSepETH()\<close> opens the faucet page: its effect is the URL it opens.\<close>

definition getSepETH :: string where
  "getSepETH = ''https://sepoliafaucet.com/''"

subsection \<open>Lemmas\<close>

lemma parseEther_gas: "parseEther ''0.01'' = Inr 10000000000000000"
  by (simp add: parseEther_def is_dec_char_def digits_value_def hex_val_def)

text \<open>The check in closed form: a provider, an account, a readable balance and an amount
  that parses, with the balance at least the amount plus \<open>10\<^sup>1\<^sup>6\<close> wei.\<close>

lemma hasEnoughBalance_iff:
  "hasEnoughBalance gb amount s \<longleftrightarrow>
     provider s \<and> account s \<noteq> [] \<and>
     (\<exists>b w. gb (account s) = Inr b \<and> parseEther amount = Inr w \<and> w + 10000000000000000 \<le> b)"
  by (auto simp: hasEnoughBalance_def parseEther_gas split: sum.split)

text \<open>A balance read through \<open>getAddressBalance\<close> reads back with \<open>parseEther\<close> as the
  amount the provider reported.\<close>

lemma getAddressBalance_roundtrip:
  assumes "provider s" and "gb a = Inr b" and "- (2 ^ 511) \<le> b" and "b < 2 ^ 511"
  shows "map_sum id parseEther (getAddressBalance gb a s) = Inr (Inr b)"
  using assms formatEther_roundtrip by (simp add: getAddressBalance_def)

end
