(* ===== verification/SessionSpec.thy ===== *)
theory SessionSpec
  imports Session
begin

text \<open>
  The session of \<open>Web3Service\<close> against the specification's connection state machine
  (spec, section 4.1: Disconnected, Connected with a network id, a network change
  re-entering Connected, an empty account list or a provider disconnect leading back to
  Disconnected). \<open>conn_abs\<close> maps a session state to its abstract state; \<open>session_spec\<close>
  is the abstract machine, its transitions labelled by the same operations as
  \<open>session_step\<close> and by whether a provider is injected (notifications only come from
  one). The proofs use pre- and postconditions (\<open>validE\<close>): the connection flag implies
  the provider object, which every method keeps; then each step is shown to be an
  abstract transition. The theory also shows that the network fields are well formed in
  every reachable state, and that a connection can always be re-established.
\<close>

text \<open>The abstract session: disconnected, or connected on a network.\<close>

datatype conn_state = Disconnected | Connected jsnum

definition conn_abs :: "web3 \<Rightarrow> conn_state" where
  "conn_abs s = (if isConnected s then Connected (networkId s) else Disconnected)"

fun account_list :: "js_val \<Rightarrow> bool" where
  "account_list (JStrArr (a # as)) = True"
| "account_list v = False"

fun chain_payload :: "js_val \<Rightarrow> bool" where
  "chain_payload (JStr h) = True"
| "chain_payload v = False"

text \<open>The transitions the specification allows. \<open>connect()\<close> leads from Disconnected to
  Connected or fails without a change (a connected session stays as it is); \<open>disconnect()\<close>
  and a provider disconnect lead to Disconnected; \<open>accountsChanged\<close> with an empty list
  (or a payload that is not a list) disconnects, with accounts it keeps the state;
  \<open>chainChanged\<close> re-enters Connected with the new id when connected; without a
  provider no notification arrives.\<close>

inductive session_spec :: "bool \<Rightarrow> session_op \<Rightarrow> conn_state \<Rightarrow> conn_state \<Rightarrow> bool" where
  connect_ok: "session_spec p Connect Disconnected (Connected n)"
| connect_keep: "session_spec p Connect c c"
| disconnect: "session_spec p Disconnect c Disconnected"
| ensure: "session_spec p EnsureNetwork c c"
| open_modal: "session_spec p OpenModal c c"
| close_modal: "session_spec p CloseModal c c"
| accounts_empty: "\<not> account_list v \<Longrightarrow> session_spec True (AccountsChangedEv v) c Disconnected"
| accounts_switch: "account_list v \<Longrightarrow> session_spec True (AccountsChangedEv v) c c"
| chain_connected: "session_spec True (ChainChangedEv (JStr h)) (Connected n) (Connected (parseInt_hex h))"
| chain_disconnected: "session_spec True (ChainChangedEv v) Disconnected Disconnected"
| chain_ignored: "\<not> chain_payload v \<Longrightarrow> session_spec True (ChainChangedEv v) c c"
| provider_disconnect: "session_spec True DisconnectEv c Disconnected"
| no_provider_accounts: "session_spec False (AccountsChangedEv v) c c"
| no_provider_chain: "session_spec False (ChainChangedEv v) c c"
| no_provider_disconnect: "session_spec False DisconnectEv c c"

text \<open>The invariant the refinement needs: a connected session holds a provider object.\<close>

definition conn_inv :: "sess \<Rightarrow> bool" where
  "conn_inv st \<longleftrightarrow> (isConnected (snd st) \<longrightarrow> provider (snd st))"

text \<open>The network fields agree: \<open>isCorrectNetwork$\<close> only on Sepolia, and
  \<open>networkName$\<close> the name of \<open>networkId$\<close> (or both still at their initial values).\<close>

definition network_wf :: "web3 \<Rightarrow> bool" where
  "network_wf s \<longleftrightarrow>
     (isCorrectNetwork s \<longrightarrow> networkId s = Num targetNetworkId) \<and>
     (networkName s = getNetworkName (networkId s) \<or> (networkName s = [] \<and> networkId s = Num 0))"

abbreviation sess_network_wf :: "sess \<Rightarrow> bool" where
  "sess_network_wf st \<equiv> network_wf (snd st)"

subsection \<open>Lemmas\<close>

lemma validE_updE: "(\<And>w s. P (w, s) \<Longrightarrow> Q (w, f s)) \<Longrightarrow> validE P (updE f) Q"
  unfolding updE_def by (rule validE_modifyE) auto

lemma validE_bind_readE: "(\<And>v. validE (\<lambda>st. P st \<and> g (snd st) = v) (f v) Q) \<Longrightarrow> validE P (bindE (readE g) f) Q"
  unfolding readE_def by (rule validE_bind_getsE) (simp add: case_prod_beta)

lemma validE_bind_readW: "(\<And>v. validE (\<lambda>st. P st \<and> h (fst st) = v) (f v) Q) \<Longrightarrow> validE P (bindE (readW h) f) Q"
  unfolding readW_def by (rule validE_bind_getsE) (simp add: case_prod_beta)

lemma preserves_initContracts:
  assumes "\<And>w s a. P (w, s) \<Longrightarrow> P (w, s\<lparr>vaultFactoryContract := Some a, vaultContract := Some a\<rparr>)"
    and "\<And>w s. P (w, s) \<Longrightarrow> P (w, s\<lparr>vaultContract := None\<rparr>)"
  shows "preservesE P (initContracts n)"
  unfolding initContracts_def
  by (intro preserves_rules) (auto intro: assms)

lemma initWeb3_conn: "validE conn_inv initWeb3 conn_inv"
  unfolding initWeb3_def
  apply (rule validE_bind_readW)
  apply (rule validE_if)
   apply (rule validE_throwE; simp)
  apply (rule validE_catchE [where R = "\<lambda>st. provider (snd st)"])
    apply (rule validE_seqE [where R = "\<lambda>st. provider (snd st)"])
      apply (rule validE_updE; simp)
     apply (rule validE_preserves)
     apply (intro preserves_rules preserves_initContracts; simp add: record_network_def)
    apply simp
   apply (rule validE_seqE [where R = conn_inv])
     apply (rule validE_updE; simp add: conn_inv_def resetState_def)
    apply (rule validE_throwE; simp)
   apply simp
  apply (simp add: conn_inv_def)
  done

lemma initializeWeb3WithAccount_conn: "validE conn_inv (initializeWeb3WithAccount a) conn_inv"
  unfolding initializeWeb3WithAccount_def
  apply (rule validE_catchE [where R = "\<lambda>st. provider (snd st)"])
    apply (rule validE_seqE [where R = "\<lambda>st. provider (snd st)"])
      apply (rule validE_updE; simp)
     apply (rule validE_preserves)
     apply (intro preserves_rules preserves_initContracts; simp add: record_network_def)
    apply simp
   apply (rule validE_updE; simp add: conn_inv_def resetState_def)
  apply (simp add: conn_inv_def)
  done

lemma checkForSavedSession_conn: "validE conn_inv checkForSavedSession conn_inv"
  unfolding checkForSavedSession_def silentlyReconnect_def
  apply (rule validE_bind_readE)
  apply (rule validE_if)
   apply (rule validE_bind_readW)
   apply (rule validE_if)
    apply (rule validE_returnE; simp)
   apply (rule validE_catchE [where R = conn_inv])
     apply (rule validE_bind_readW)
     apply (rule validE_if)
      apply (rule validE_weaken [OF initializeWeb3WithAccount_conn]; simp)
     apply (rule validE_returnE; simp)
    apply (rule validE_returnE; simp)
   apply simp
  apply (rule validE_returnE; simp)
  done

text \<open>The branch of \<open>connectWallet\<close> that runs with a provider object keeps the provider,
  and with it the connection and the network id.\<close>

lemma connectWallet_provider_branch:
  assumes "\<And>w s a. P (w, s) \<Longrightarrow> P (w, s\<lparr>account := a\<rparr>)" and "\<And>w s. P (w, s) \<Longrightarrow> P (w, s\<lparr>isConnected := True\<rparr>)"
    and "\<And>w s st. P (w, s) \<Longrightarrow> P (w, s\<lparr>storage := st\<rparr>)" and "\<And>w s. P (w, s) \<Longrightarrow> P (w, s\<lparr>signer := True\<rparr>)"
    and "\<And>w w' s. P (w, s) \<Longrightarrow> P (w', s)"
    and "\<And>w s a. P (w, s) \<Longrightarrow> P (w, s\<lparr>vaultFactoryContract := Some a, vaultContract := Some a\<rparr>)"
    and "\<And>w s. P (w, s) \<Longrightarrow> P (w, s\<lparr>vaultContract := None\<rparr>)"
    and "\<And>w s. P (w, s) \<Longrightarrow> P (w, s\<lparr>walletModalVisible := True\<rparr>)"
    and "\<And>w s. P (w, s) \<Longrightarrow> P (w, s\<lparr>walletModalVisible := False\<rparr>)"
    and "\<And>st. P st \<Longrightarrow> provider (snd st)"
    and "\<And>st. P st \<Longrightarrow> Q st"
  shows "validE P connectWallet Q"
  unfolding connectWallet_def
  apply (rule validE_seqE [where R = P])
    apply (rule validE_updE; simp add: assms(9))
   apply (rule validE_catchE [where R = P])
     apply (rule validE_bind_readE)
     apply (rule validE_if)
      apply (rule validE_False; use assms(10) in auto)
     apply (rule validE_weaken [where P' = P and Q' = P])
       apply (rule validE_preserves)
       apply (intro preserves_rules preserves_initContracts; use assms in auto)
      apply simp
     apply simp
    apply (rule validE_seqE [where R = P])
      apply (rule validE_updE; simp add: assms(8))
     apply (rule validE_throwE; simp add: assms(11))
    apply (simp add: assms(11))
   apply (simp add: assms(11))
  apply (simp add: assms(11))
  done

lemma connectWallet_conn: "validE conn_inv connectWallet conn_inv"
  unfolding connectWallet_def
  apply (rule validE_seqE [where R = conn_inv])
    apply (rule validE_updE; simp add: conn_inv_def)
   apply (rule validE_catchE [where R = conn_inv])
     apply (rule validE_bind_readE)
     apply (rule validE_if)
      apply (rule validE_weaken [OF initWeb3_conn]; simp)
     apply (rule validE_weaken [where P' = "\<lambda>st. provider (snd st)" and Q' = "\<lambda>st. provider (snd st)"])
       apply (rule validE_preserves)
       apply (intro preserves_rules preserves_initContracts; simp)
      apply simp
     apply (simp add: conn_inv_def)
    apply (rule validE_seqE [where R = conn_inv])
      apply (rule validE_updE; simp add: conn_inv_def)
     apply (rule validE_throwE; simp)
    apply simp
   apply simp
  apply simp
  done

lemma connectWallet_connected:
  "validE (\<lambda>st. provider (snd st) \<and> isConnected (snd st) \<and> networkId (snd st) = n) connectWallet
          (\<lambda>st. isConnected (snd st) \<and> networkId (snd st) = n)"
  by (rule connectWallet_provider_branch) simp_all

lemma chainChanged_conn: "preservesE conn_inv (chainChanged v)"
proof (cases v)
  case (JStr h)
  show ?thesis
    unfolding chainChanged_def Let_def JStr js_val.case
    by (intro preserves_rules preserves_initContracts) (simp_all add: conn_inv_def record_network_def)
qed (simp_all add: chainChanged_def preserves_returnE)

lemma chainChanged_network:
  "validE (\<lambda>st. isConnected (snd st) = b) (chainChanged (JStr h))
          (\<lambda>st. isConnected (snd st) = b \<and> networkId (snd st) = parseInt_hex h)"
  unfolding chainChanged_def Let_def js_val.case
  apply (rule validE_seqE [where R = "\<lambda>st. isConnected (snd st) = b \<and> networkId (snd st) = parseInt_hex h"])
    apply (rule validE_updE; simp add: record_network_def)
   apply (rule validE_preserves)
   apply (intro preserves_rules preserves_initContracts; simp)
  apply simp
  done

lemma chainChanged_other: "\<not> chain_payload v \<Longrightarrow> chainChanged v st = (st, Inr ())"
  by (cases v) (simp_all add: chainChanged_def exc_defs)

lemma ensureCorrectNetwork_keeps: "preservesE (\<lambda>st. snd st = s) ensureCorrectNetwork"
  unfolding ensureCorrectNetwork_def by (intro preserves_rules) simp_all

lemma conn_abs_disconnectWallet [simp]: "conn_abs (disconnectWallet s) = Disconnected"
  by (simp add: conn_abs_def disconnectWallet_def resetState_def)

lemma accountsChanged_list:
  "account_list v \<Longrightarrow> conn_abs (accountsChanged v s) = conn_abs s"
  by (cases v rule: account_list.cases) (simp_all add: accountsChanged_def conn_abs_def)

lemma accountsChanged_other:
  "\<not> account_list v \<Longrightarrow> accountsChanged v s = disconnectWallet s"
  by (cases v rule: account_list.cases) (simp_all add: accountsChanged_def)

lemma session_step_conn_inv:
  assumes "conn_inv st"
  shows "conn_inv (session_step op st)"
proof (cases op)
  case Connect
  then show ?thesis using validE_fst [OF connectWallet_conn assms] by simp
next
  case EnsureNetwork
  then show ?thesis using preservesE_fst [OF ensureCorrectNetwork_keeps, of st] assms
    by (simp add: conn_inv_def)
next
  case (ChainChangedEv v)
  then show ?thesis using assms preservesE_fst [OF chainChanged_conn assms] by (cases st) simp
next
  case (AccountsChangedEv v)
  then show ?thesis using assms
    by (cases st) (auto simp: conn_inv_def accountsChanged_def disconnectWallet_def resetState_def
        split: js_val.split list.split)
qed (use assms in \<open>cases st, simp_all add: conn_inv_def disconnectWallet_def resetState_def
      providerDisconnect_def openConnectWalletModal_def closeConnectWalletModal_def\<close>)+

lemma session_reachable_conn_inv: "session_reachable st \<Longrightarrow> conn_inv st"
proof (induction rule: session_reachable.induct)
  case (init w st)
  have "conn_inv (w, web3_initial st)" by (simp add: conn_inv_def web3_initial_def)
  then show ?case unfolding web3_constructor_def by (rule validE_fst [OF checkForSavedSession_conn])
next
  case (step st op)
  from step.IH show ?case by (rule session_step_conn_inv)
next
  case (env w s w')
  then show ?case by (simp add: conn_inv_def)
qed

lemma session_step_refines:
  assumes ci: "conn_inv st"
  shows "session_spec (installed (fst st)) op (conn_abs (snd st)) (conn_abs (snd (session_step op st)))"
proof -
  obtain w s where st: "st = (w, s)" by (cases st)
  show ?thesis
  proof (cases op)
    case Connect
    show ?thesis
    proof (cases "isConnected s")
      case True
      then have "provider s" using ci st by (simp add: conn_inv_def)
      then have "isConnected (snd (session_step op st)) \<and> networkId (snd (session_step op st)) = networkId s"
        using validE_fst [OF connectWallet_connected [of "networkId s"], of st] True Connect st by simp
      then show ?thesis using Connect True st by (simp add: conn_abs_def session_spec.connect_keep)
    next
      case False
      then have d: "conn_abs (snd st) = Disconnected" using st by (simp add: conn_abs_def)
      show ?thesis
        unfolding d Connect
        by (cases "conn_abs (snd (session_step Connect st))") (simp_all add: session_spec.connect_ok session_spec.connect_keep)
    qed
  next
    case EnsureNetwork
    have "snd (session_step op st) = s" using preservesE_fst [OF ensureCorrectNetwork_keeps, of st] EnsureNetwork st by simp
    then show ?thesis using EnsureNetwork st by (simp add: session_spec.ensure)
  next
    case (ChainChangedEv v)
    show ?thesis
    proof (cases "installed w")
      case False
      then show ?thesis using ChainChangedEv st by (simp add: session_spec.no_provider_chain)
    next
      case inst: True
      show ?thesis
      proof (cases "chain_payload v")
        case False
        then show ?thesis using ChainChangedEv inst st chainChanged_other [OF False, of st]
          by (simp add: session_spec.chain_ignored)
      next
        case True
        then obtain h where v: "v = JStr h" by (cases v) simp_all
        have "isConnected (snd (session_step op st)) = isConnected s \<and>
              networkId (snd (session_step op st)) = parseInt_hex h"
          using validE_fst [OF chainChanged_network [of "isConnected s" h], of st] ChainChangedEv v inst st
          by simp
        then show ?thesis using ChainChangedEv v inst st
          by (cases "isConnected s") (simp_all add: conn_abs_def session_spec.chain_connected session_spec.chain_disconnected)
      qed
    qed
  next
    case (AccountsChangedEv v)
    show ?thesis
    proof (cases "installed w")
      case False
      then show ?thesis using AccountsChangedEv st by (simp add: session_spec.no_provider_accounts)
    next
      case True
      then show ?thesis using AccountsChangedEv st
        by (cases "account_list v")
           (simp_all add: accountsChanged_list accountsChanged_other session_spec.accounts_switch session_spec.accounts_empty)
    qed
  next
    case DisconnectEv
    then show ?thesis using st
      by (cases "installed w") (simp_all add: providerDisconnect_def session_spec.provider_disconnect session_spec.no_provider_disconnect)
  next
    case Disconnect
    then show ?thesis using st by (simp add: session_spec.disconnect)
  next
    case OpenModal
    then show ?thesis using st by (simp add: conn_abs_def openConnectWalletModal_def session_spec.open_modal)
  next
    case CloseModal
    then show ?thesis using st by (simp add: conn_abs_def closeConnectWalletModal_def session_spec.close_modal)
  qed
qed

lemma network_wf_record [simp]: "network_wf (record_network n s)"
  by (cases n) (simp_all add: network_wf_def record_network_def)

lemma network_wf_fields:
  "network_wf (s\<lparr>account := a\<rparr>) = network_wf s" "network_wf (s\<lparr>storage := st\<rparr>) = network_wf s"
  "network_wf (s\<lparr>provider := p\<rparr>) = network_wf s" "network_wf (s\<lparr>signer := g\<rparr>) = network_wf s"
  "network_wf (s\<lparr>isConnected := c\<rparr>) = network_wf s" "network_wf (s\<lparr>walletModalVisible := m\<rparr>) = network_wf s"
  "network_wf (s\<lparr>vaultFactoryContract := x\<rparr>) = network_wf s"
  "network_wf (s\<lparr>vaultContract := y\<rparr>) = network_wf s"
  by (simp_all add: network_wf_def)

lemma network_wf_reset [simp]: "network_wf s \<Longrightarrow> network_wf (resetState s)"
  and network_wf_disconnect [simp]: "network_wf s \<Longrightarrow> network_wf (disconnectWallet s)"
  by (simp_all add: network_wf_def resetState_def disconnectWallet_def)

lemmas network_wf_simps = network_wf_fields network_wf_reset network_wf_record

lemma network_wf_methods:
  "preservesE sess_network_wf initWeb3" "preservesE sess_network_wf connectWallet"
  "preservesE sess_network_wf checkForSavedSession" "preservesE sess_network_wf (chainChanged v)"
  "preservesE sess_network_wf ensureCorrectNetwork"
proof -
  show i: "preservesE sess_network_wf initWeb3"
    unfolding initWeb3_def by (intro preserves_rules preserves_initContracts; simp add: network_wf_simps)
  show "preservesE sess_network_wf connectWallet"
    unfolding connectWallet_def by (intro preserves_rules preserves_initContracts i; simp add: network_wf_simps)
  show "preservesE sess_network_wf checkForSavedSession"
    unfolding checkForSavedSession_def silentlyReconnect_def initializeWeb3WithAccount_def
    by (intro preserves_rules preserves_initContracts; simp add: network_wf_simps)
  show "preservesE sess_network_wf ensureCorrectNetwork"
    unfolding ensureCorrectNetwork_def by (intro preserves_rules) simp_all
  show "preservesE sess_network_wf (chainChanged v)"
  proof (cases v)
    case (JStr h)
    show ?thesis
      unfolding chainChanged_def Let_def JStr js_val.case
      by (intro preserves_rules preserves_initContracts; simp add: network_wf_simps)
  qed (simp_all add: chainChanged_def preserves_returnE)
qed

lemma session_step_network_wf: "network_wf (snd st) \<Longrightarrow> network_wf (snd (session_step op st))"
  using network_wf_methods
  by (cases st; cases op)
     (auto simp: preservesE_def providerDisconnect_def accountsChanged_def openConnectWalletModal_def
        closeConnectWalletModal_def network_wf_simps split: js_val.split list.split)

lemma session_reachable_network_wf: "session_reachable st \<Longrightarrow> network_wf (snd st)"
proof (induction rule: session_reachable.induct)
  case (init w st)
  have "network_wf (snd (w, web3_initial st))" by (simp add: network_wf_def web3_initial_def)
  then show ?case unfolding web3_constructor_def by (rule preservesE_fst [OF network_wf_methods(3)])
next
  case (step st op)
  from step.IH show ?case by (rule session_step_network_wf)
next
  case (env w s w')
  then show ?case by simp
qed

lemma constructor_empty: "web3_constructor w Map.empty = (w, web3_initial Map.empty)"
  by (simp add: web3_constructor_def checkForSavedSession_def web3_initial_def js_truthy_def exc_defs sess_defs)

lemma initWeb3_on_target:
  assumes "installed w" and "eth_requestAccounts w = (w1, Inr (a # as))"
    and "get_signer w1 = Inr ()" and "chain w1 = targetNetworkId"
  shows "\<exists>s'. initWeb3 (w, s) = ((w1, s'), Inr ()) \<and> isConnected s' \<and> networkId s' = Num targetNetworkId \<and>
     account s' = a \<and> vaultContract s' = Some ''0xf1Da8fA04bE703cC52bc8Ac269a439111FeaD838'' \<and>
     storage s' ''networkId'' = Some ''11155111''"
  using assms
  by (simp add: initWeb3_def exc_defs sess_defs record_network_def initContracts_target)

lemma connectWallet_disconnected:
  assumes "\<not> provider s" and "initWeb3 (w, s\<lparr>walletModalVisible := False\<rparr>) = (st', Inr ())"
  shows "connectWallet (w, s) = (st', Inr ())"
  using assms by (simp add: connectWallet_def exc_defs sess_defs)

subsection \<open>Properties of the session against the specification\<close>

text \<open>
  C15: The session refines the specification's connection state machine: from every
  reachable state, every step (a method run to its end or a provider notification) is a
  transition the specification allows between the abstract states: connect leads from
  Disconnected to Connected or changes nothing, a connected session stays on its network
  when connect is called again, disconnect and a provider disconnect lead to
  Disconnected, an empty account list disconnects, and a chain change re-enters Connected
  with the new network id.
\<close>

theorem session_refines_spec:
  assumes "session_reachable st"
  shows "session_spec (installed (fst st)) op (conn_abs (snd st)) (conn_abs (snd (session_step op st)))"
  by (rule session_step_refines [OF session_reachable_conn_inv [OF assms]])

theorem session_refines_spec_witness:
  "session_reachable (web3_constructor (example_wallet 11155111 [1, 11155111, 31337]) Map.empty) \<and>
   session_spec True Connect Disconnected
     (conn_abs (snd (session_step Connect (web3_constructor (example_wallet 11155111 [1, 11155111, 31337]) Map.empty))))"
proof -
  have r: "session_reachable (web3_constructor (example_wallet 11155111 [1, 11155111, 31337]) Map.empty)"
    by (rule session_reachable.init)
  have d: "conn_abs (snd (web3_constructor (example_wallet 11155111 [1, 11155111, 31337]) Map.empty)) = Disconnected"
    by (simp add: constructor_empty conn_abs_def web3_initial_def)
  show ?thesis using r session_refines_spec [OF r, of Connect] d by (simp add: constructor_empty example_wallet_def)
qed

text \<open>
  C24: In every reachable session state the network fields are well formed:
  \<open>isCorrectNetwork$\<close> is true only when \<open>networkId$\<close> is Sepolia's id, and
  \<open>networkName$\<close> is the name of \<open>networkId$\<close> unless both are still at their initial
  values.
\<close>

theorem reachable_network_wf: "session_reachable st \<Longrightarrow> network_wf (snd st)"
  by (rule session_reachable_network_wf)

theorem reachable_network_wf_witness:
  "session_reachable (session_step Connect (web3_constructor (example_wallet 11155111 [1, 11155111, 31337]) Map.empty)) \<and>
   network_wf (snd (session_step Connect (web3_constructor (example_wallet 11155111 [1, 11155111, 31337]) Map.empty)))"
proof -
  have r: "session_reachable (session_step Connect (web3_constructor (example_wallet 11155111 [1, 11155111, 31337]) Map.empty))"
    by (intro session_reachable.intros)
  show ?thesis using r reachable_network_wf [OF r] by simp
qed

text \<open>
  C4: A connection can always be re-established: from every reachable session, with a
  wallet on Sepolia whose user grants an account, disconnecting and connecting again
  leads to a reachable state that is Connected on Sepolia for that account, bound to the
  Sepolia factory, with the network id saved for a later silent reconnection.
\<close>

theorem session_reconnect:
  assumes "session_reachable (w, s)" and "installed w" and "eth_requestAccounts w = (w1, Inr (a # as))"
    and "get_signer w1 = Inr ()" and "chain w1 = targetNetworkId"
  shows "\<exists>s'. session_step Connect (session_step Disconnect (w, s)) = (w1, s') \<and> session_reachable (w1, s') \<and>
     conn_abs s' = Connected (Num targetNetworkId) \<and> account s' = a \<and>
     vaultContract s' = Some ''0xf1Da8fA04bE703cC52bc8Ac269a439111FeaD838'' \<and>
     storage s' ''networkId'' = Some ''11155111''"
proof -
  obtain s' where i: "initWeb3 (w, (disconnectWallet s)\<lparr>walletModalVisible := False\<rparr>) = ((w1, s'), Inr ())"
    and p: "isConnected s' \<and> networkId s' = Num targetNetworkId \<and> account s' = a \<and>
       vaultContract s' = Some ''0xf1Da8fA04bE703cC52bc8Ac269a439111FeaD838'' \<and>
       storage s' ''networkId'' = Some ''11155111''"
    using initWeb3_on_target [OF assms(2-5)] by blast
  have np: "\<not> provider (disconnectWallet s)" by (simp add: disconnectWallet_def resetState_def)
  have st: "session_step Connect (session_step Disconnect (w, s)) = (w1, s')"
    using connectWallet_disconnected [OF np i] by simp
  have "session_reachable (session_step Connect (session_step Disconnect (w, s)))"
    using assms(1) by (intro session_reachable.step)
  then show ?thesis using st p by (simp add: conn_abs_def)
qed

theorem session_reconnect_witness:
  "session_reachable (example_wallet 11155111 [1, 11155111, 31337], web3_initial Map.empty) \<and>
   (\<exists>s'. session_step Connect (session_step Disconnect (example_wallet 11155111 [1, 11155111, 31337], web3_initial Map.empty)) =
      ((example_wallet 11155111 [1, 11155111, 31337])\<lparr>permitted := [''0x00000000000000000000000000000000000000aa'']\<rparr>, s') \<and>
    conn_abs s' = Connected (Num 11155111) \<and> account s' = ''0x00000000000000000000000000000000000000aa'')"
proof -
  have r: "session_reachable (example_wallet 11155111 [1, 11155111, 31337], web3_initial Map.empty)"
    using session_reachable.init [of "example_wallet 11155111 [1, 11155111, 31337]" Map.empty]
    by (simp add: constructor_empty)
  have i: "installed (example_wallet 11155111 [1, 11155111, 31337])" by (simp add: example_wallet_def)
  have g: "get_signer ((example_wallet 11155111 [1, 11155111, 31337])\<lparr>permitted := [''0x00000000000000000000000000000000000000aa'']\<rparr>) = Inr ()"
    by simp
  have c: "chain ((example_wallet 11155111 [1, 11155111, 31337])\<lparr>permitted := [''0x00000000000000000000000000000000000000aa'']\<rparr>) = targetNetworkId"
    by (simp add: example_wallet_def targetNetworkId_def)
  show ?thesis
    using r session_reconnect [OF r i requestAccounts_example g c]
    by (auto simp: targetNetworkId_def)
qed

end
