(* ===== verification/NumberFormat.thy ===== *)
theory NumberFormat
  imports JsNumber
begin

text \<open>
  Printing a JavaScript number with \<open>Number.prototype.toFixed\<close> (ECMAScript 2024,
  section 21.1.3.3), and the vault list's \<open>formatBalance\<close>
  (\<open>src/src/app/components/vault-list/vault-list.component.ts\<close>), which shows a vault's
  balance string as \<open>parseFloat(balance).toFixed(4)\<close>. The rounding of \<open>toFixed\<close>
  is that of the exact value of the double (the integer \<open>n\<close> nearest to
  \<open>x \<cdot> 10\<^sup>f\<close>, the larger one on a tie); at or above \<open>10\<^sup>2\<^sup>1\<close> it prints
  \<open>Number::toString\<close>, whose digits are the shortest that read back as the same double
  (the closest such, the even one on a tie, as the standard recommends and engines do).
\<close>

text \<open>Steps 11.b and 11.c of \<open>toFixed\<close>: the digits of \<open>n\<close>, padded with zeros to
  more than \<open>f\<close> digits, with the point before the last \<open>f\<close>.\<close>

definition fixed_digits :: "nat \<Rightarrow> nat \<Rightarrow> string" where
  "fixed_digits f n =
     (let m = radix_digits 10 n
      in if f = 0 then m
         else
           (let m' = (if length m \<le> f then replicate (f + 1 - length m) (CHR ''0'') @ m else m);
                k = length m'
            in take (k - f) m' @ CHR ''.'' # drop (k - f) m'))"

text \<open>\<open>Number::toString\<close> for a value \<open>x \<ge> 10\<^sup>2\<^sup>1\<close> with \<open>d\<close> integer digits:
  the \<open>k\<close>-digit significands \<open>s\<close> with \<open>s \<cdot> 10\<^sup>d\<^sup>-\<^sup>k\<close> rounding to \<open>x\<close>, of the two
  around \<open>x\<close> the closer, the even one on a tie; the search takes the least \<open>k\<close>. For
  \<open>k = d\<close> the significand is \<open>x\<close> itself with exponent 0, which is the value of the
  search when no shorter one exists.\<close>

definition shortest_candidate :: "rat \<Rightarrow> nat \<Rightarrow> nat \<Rightarrow> nat option" where
  "shortest_candidate x d k =
     (let e = d - k; p = (10::nat) ^ e;
          lo = nat \<lfloor>x / of_nat p\<rfloor>; hi = lo + 1;
          okl = (nearest_double (lo * p) 1 = Fin x); okh = (nearest_double (hi * p) 1 = Fin x);
          dl = x - of_nat (lo * p); dh = of_nat (hi * p) - x
      in if okl \<and> okh then Some (if dl < dh then lo else if dh < dl then hi else if even lo then lo else hi)
         else if okl then Some lo else if okh then Some hi else None)"

fun shortest_search :: "rat \<Rightarrow> nat \<Rightarrow> nat list \<Rightarrow> nat \<times> nat" where
  "shortest_search x d [] = (nat \<lfloor>x\<rfloor>, 0)"
| "shortest_search x d (k # ks) =
     (case shortest_candidate x d k of Some s \<Rightarrow> (s, d - k) | None \<Rightarrow> shortest_search x d ks)"

text \<open>The exponential form that \<open>Number::toString\<close> takes above \<open>10\<^sup>2\<^sup>1\<close>: the
  first digit, a point and the others when there are others, \<open>e+\<close> and the exponent.\<close>

definition number_toString_large :: "rat \<Rightarrow> string" where
  "number_toString_large x =
     (let d = length (radix_digits 10 (nat \<lfloor>x\<rfloor>));
          (s, e) = shortest_search x d [1..<d];
          ds = radix_digits 10 s;
          sig = rev (dropWhile (\<lambda>c. c = CHR ''0'') (rev ds))
      in hd sig # (if tl sig = [] then [] else CHR ''.'' # tl sig) @ ''e+'' @ radix_digits 10 (e + length ds - 1))"

text \<open>\<open>toFixed(f)\<close>: a \<open>RangeError\<close> for more than 100 digits; \<open>NaN\<close> and the
  infinities print as \<open>Number::toString\<close> does; a negative value gets \<open>-\<close> and is printed
  by its absolute value (so \<open>-0.00001\<close> prints as \<open>-0.0000\<close>).\<close>

definition toFixed :: "jsdouble \<Rightarrow> nat \<Rightarrow> string + string" where
  "toFixed x f =
     (if 100 < f then Inl ''toFixed() digits argument must be between 0 and 100''
      else Inr (case x of
        DNaN \<Rightarrow> ''NaN''
      | PInf \<Rightarrow> ''Infinity''
      | NInf \<Rightarrow> ''-Infinity''
      | Fin r \<Rightarrow>
          (let s = (if r < 0 then ''-'' else []); a = \<bar>r\<bar>
           in s @ (if 10 ^ 21 \<le> a then number_toString_large a
                   else fixed_digits f (nat \<lfloor>a * 10 ^ f + 1 / 2\<rfloor>)))))"

text \<open>\<open>formatBalance(balance)\<close> of \<open>VaultListComponent\<close>.\<close>

definition formatBalance :: "string \<Rightarrow> string + string" where
  "formatBalance balance = toFixed (parseFloat balance) 4"


subsection \<open>Lemmas\<close>

lemmas double_eval_simps = parseFloat_def split_sign_def exponent_part_def is_exp_char_def
  is_dec_char_def is_js_space_def digits_value_def hex_val_def nearest_double_def floor_log2_def
  nbits_pos round_div_def pow2_def Let_def

lemmas format_eval_simps = formatBalance_def toFixed_def fixed_digits_def number_toString_large_def
  shortest_candidate_def radix_digits_lt radix_digits_ge digit_char_def char_of_eq_iff

lemma floor_numeral_div [simp]: "\<lfloor>(numeral a :: rat) / numeral b\<rfloor> = numeral a div numeral b"
  using floor_divide_of_int_eq [of "numeral a" "numeral b", where 'a = rat] by simp

lemma replicate_numeral [simp]: "replicate (numeral n) x = x # replicate (pred_numeral n) x"
  by (simp add: numeral_eq_Suc)

lemma fixed_digits_shape:
  assumes "0 < f"
  shows "\<exists>d1 d2. fixed_digits f n = d1 @ CHR ''.'' # d2 \<and> d1 \<noteq> [] \<and> length d2 = f \<and>
           list_all is_dec_char (d1 @ d2) \<and> digits_value 10 (d1 @ d2) = n"
proof -
  define m where "m = radix_digits 10 n"
  define m' where "m' = (if length m \<le> f then replicate (f + 1 - length m) CHR ''0'' @ m else m)"
  have len: "f < length m'" by (simp add: m'_def)
  then have "m' \<noteq> []" by auto
  have dec: "list_all is_dec_char m'"
    using radix_digits_dec [of n] by (simp add: m'_def m_def list_all_iff is_dec_char_def)
  have val: "digits_value 10 m' = n"
    by (simp add: m'_def m_def digits_value_append digits_value_replicate_zero digits_value_radix_digits_gen)
  have fd: "fixed_digits f n = take (length m' - f) m' @ CHR ''.'' # drop (length m' - f) m'"
    using assms by (simp add: fixed_digits_def Let_def m_def m'_def)
  have "list_all is_dec_char (take (length m' - f) m' @ drop (length m' - f) m')"
    using dec by simp
  then have "fixed_digits f n = take (length m' - f) m' @ CHR ''.'' # drop (length m' - f) m' \<and>
      take (length m' - f) m' \<noteq> [] \<and> length (drop (length m' - f) m') = f \<and>
      list_all is_dec_char (take (length m' - f) m' @ drop (length m' - f) m') \<and>
      digits_value 10 (take (length m' - f) m' @ drop (length m' - f) m') = n"
    using fd len val \<open>m' \<noteq> []\<close> by simp
  then show ?thesis by blast
qed

lemma toFixed_fixed:
  "0 \<le> r \<Longrightarrow> r < 10 ^ 21 \<Longrightarrow> f \<le> 100 \<Longrightarrow> toFixed (Fin r) f = Inr (fixed_digits f (nat \<lfloor>r * 10 ^ f + 1 / 2\<rfloor>))"
  by (simp add: toFixed_def)

lemma round_half_bound:
  assumes "0 \<le> y"
  shows "2 * \<bar>of_nat (nat \<lfloor>y + 1 / 2\<rfloor>) - y\<bar> \<le> (1::rat)"
proof -
  have "0 \<le> \<lfloor>y + 1 / 2\<rfloor>" using assms by simp
  then have n: "(of_nat (nat \<lfloor>y + 1 / 2\<rfloor>) :: rat) = of_int \<lfloor>y + 1 / 2\<rfloor>" by simp
  have a: "of_int \<lfloor>y + 1 / 2\<rfloor> \<le> y + 1 / 2" by (rule of_int_floor_le)
  have b: "y + 1 / 2 < of_int \<lfloor>y + 1 / 2\<rfloor> + 1" using floor_correct [of "y + 1 / 2"] by simp
  have "\<bar>of_int \<lfloor>y + 1 / 2\<rfloor> - y\<bar> \<le> (1 / 2 :: rat)"
    unfolding abs_le_iff using a b by (intro conjI; linarith)
  then show ?thesis unfolding n using mult_left_mono [of _ "1 / 2" "2 :: rat"] by simp
qed

text \<open>
  C21: For a balance string that \<open>parseFloat\<close> reads as a value \<open>r\<close> in
  \<open>[0, 10\<^sup>2\<^sup>1)\<close>, \<open>formatBalance\<close> prints digits, a point and exactly four decimals,
  and the printed string reads back as the double nearest to \<open>n / 10\<^sup>4\<close> for an integer
  \<open>n\<close> within one half of \<open>r \<cdot> 10\<^sup>4\<close>: the display is the balance rounded to four
  decimals.
\<close>

theorem formatBalance_roundtrip:
  assumes "parseFloat b = Fin r" and "0 \<le> r" and "r < 10 ^ 21"
  shows "\<exists>n d1 d2. formatBalance b = Inr (d1 @ CHR ''.'' # d2) \<and> length d2 = 4 \<and>
           parseFloat (d1 @ CHR ''.'' # d2) = nearest_double n (10 ^ 4) \<and>
           2 * \<bar>of_nat n - r * 10 ^ 4\<bar> \<le> 1"
proof -
  define n where "n = nat \<lfloor>r * 10 ^ 4 + 1 / 2\<rfloor>"
  obtain d1 d2 where d: "fixed_digits 4 n = d1 @ CHR ''.'' # d2" "d1 \<noteq> []" "length d2 = 4"
    "list_all is_dec_char (d1 @ d2)" "digits_value 10 (d1 @ d2) = n"
    using fixed_digits_shape [of 4 n] by auto
  have fb: "formatBalance b = Inr (d1 @ CHR ''.'' # d2)"
    using assms d(1) by (simp add: formatBalance_def toFixed_fixed n_def)
  have pf: "parseFloat (d1 @ CHR ''.'' # d2) = nearest_double n (10 ^ 4)"
  proof -
    have "d2 \<noteq> []" using d(3) by auto
    then show ?thesis using parseFloat_decimal [of d1 d2] d by simp
  qed
  have "2 * \<bar>of_nat n - r * 10 ^ 4\<bar> \<le> (1::rat)"
    unfolding n_def by (rule round_half_bound) (simp add: assms(2))
  then show ?thesis using fb pf d(3) by blast
qed


lemma parseFloat_exp:
  assumes "is_dec_char c" and "list_all is_dec_char d2" and "length d2 \<le> E"
  shows "parseFloat (c # (if d2 = [] then [] else CHR ''.'' # d2) @ ''e+'' @ radix_digits 10 E) =
           nearest_double (digits_value 10 (c # d2) * 10 ^ (E - length d2)) 1"
proof -
  let ?t = "''e+'' @ radix_digits 10 E"
  let ?s = "c # (if d2 = [] then [] else CHR ''.'' # d2) @ ?t"
  have ex: "exponent_part ?t = int E"
    using radix_digits_dec [of E]
    by (simp add: exponent_part_def is_exp_char_def split_sign_def takeWhile_list_all digits_value_radix_digits_gen)
  have sp: "dropWhile is_js_space ?s = ?s" using assms(1) dec_not_space by simp
  have sg: "split_sign ?s = (False, ?s)" using assms(1) dec_not_sign by (simp add: split_sign_def)
  have inf: "take 8 ?s \<noteq> ''Infinity''" using assms(1) dec_not_sign by auto
  have e: "\<not> is_dec_char CHR ''e''" "\<not> is_dec_char CHR ''.''" by (simp_all add: is_dec_char_def)
  have tw: "takeWhile is_dec_char ?s = [c]" using assms(1) e by simp
  have nx: "nat (int E - int (length d2)) = E - length d2" using assms(3) by simp
  show ?thesis
  proof (cases "d2 = []")
    case True
    then show ?thesis using sp sg inf tw ex assms(3) e
      by (simp add: parseFloat_def Let_def del: takeWhile_eq_all_conv)
  next
    case False
    have tw2: "takeWhile is_dec_char (d2 @ ?t) = d2"
      by (rule takeWhile_dec_prefix [OF assms(2)]) (simp add: is_dec_char_def)
    show ?thesis using False sp sg inf tw tw2 ex assms(3) nx
      by (simp add: parseFloat_def Let_def del: takeWhile_eq_all_conv)
  qed
qed

lemma digits_value_zeros_suffix:
  "set zs \<subseteq> {CHR ''0''} \<Longrightarrow> digits_value 10 (xs @ zs) = digits_value 10 xs * 10 ^ length zs"
proof -
  assume "set zs \<subseteq> {CHR ''0''}"
  then have "zs = replicate (length zs) CHR ''0''" by (simp add: replicate_length_same subset_iff)
  then have "digits_value 10 zs = 0" by (metis digits_value_replicate_zero)
  then show ?thesis by (simp add: digits_value_append)
qed

lemma strip_zeros_value:
  "digits_value 10 ds =
     digits_value 10 (rev (dropWhile (\<lambda>c. c = CHR ''0'') (rev ds))) *
     10 ^ (length ds - length (rev (dropWhile (\<lambda>c. c = CHR ''0'') (rev ds))))"
proof -
  let ?P = "\<lambda>c. c = CHR ''0''"
  define sig zs where "sig = rev (dropWhile ?P (rev ds))" and "zs = rev (takeWhile ?P (rev ds))"
  have "rev (takeWhile ?P (rev ds) @ dropWhile ?P (rev ds)) = ds" by simp
  then have ds: "sig @ zs = ds" unfolding sig_def zs_def rev_append .
  have z: "set zs \<subseteq> {CHR ''0''}" unfolding zs_def by (auto dest: set_takeWhileD)
  have l: "length ds - length sig = length zs" using ds by auto
  have "digits_value 10 ds = digits_value 10 sig * 10 ^ length zs"
    unfolding ds [symmetric] by (rule digits_value_zeros_suffix [OF z])
  then show ?thesis unfolding sig_def [symmetric] l .
qed

lemma candidate_choice:
  "(if a \<and> b then Some (if c1 then l else if c2 then h else if c3 then l else h)
    else if a then Some l else if b then Some h else None) = Some s \<Longrightarrow> (s = l \<and> a) \<or> (s = h \<and> b)"
  by (auto split: if_splits)

lemma shortest_candidate_rounds:
  assumes "shortest_candidate x d k = Some s"
  shows "nearest_double (s * 10 ^ (d - k)) 1 = Fin x"
proof -
  define p :: nat where "p = 10 ^ (d - k)"
  define lo where "lo = nat \<lfloor>x / of_nat p\<rfloor>"
  have "(s = lo \<and> nearest_double (lo * p) 1 = Fin x) \<or> (s = lo + 1 \<and> nearest_double ((lo + 1) * p) 1 = Fin x)"
    using assms unfolding shortest_candidate_def Let_def p_def [symmetric] lo_def [symmetric] by (rule candidate_choice)
  then show ?thesis unfolding p_def by auto
qed

lemma shortest_search_rounds:
  "nearest_double (nat \<lfloor>x\<rfloor>) 1 = Fin x \<Longrightarrow> shortest_search x d ks = (s, e) \<Longrightarrow>
   nearest_double (s * 10 ^ e) 1 = Fin x"
  by (induction ks) (auto split: option.splits dest!: shortest_candidate_rounds)


text \<open>What the vault list shows: an exact half at the fifth decimal is rounded as the
  double reads it, so 0.00015 ether (a double just below) shows as \<open>0.0001\<close> while
  0.03125 (exact in binary) shows as \<open>0.0313\<close>; \<open>10\<^sup>2\<^sup>1\<close> ether shows without
  decimals, and a string that is no number as \<open>NaN\<close>.\<close>

lemma formatBalance_display:
  "formatBalance (formatEther 150000000000000) = Inr ''0.0001''"
  "formatBalance ''0.03125'' = Inr ''0.0313''"
  "formatBalance ''1000000000000000000000'' = Inr ''1e+21''"
  "formatBalance ''abc'' = Inr ''NaN''"
  by (simp_all add: format_eval_simps double_eval_simps formatEther_def trim_fraction_def)

theorem formatBalance_roundtrip_witness:
  "parseFloat ''1.5'' = Fin (3 / 2) \<and> 0 \<le> (3 / 2 :: rat) \<and> (3 / 2 :: rat) < 10 ^ 21 \<and>
   (\<exists>n d1 d2. formatBalance ''1.5'' = Inr (d1 @ CHR ''.'' # d2) \<and> length d2 = 4 \<and>
      parseFloat (d1 @ CHR ''.'' # d2) = nearest_double n (10 ^ 4) \<and>
      2 * \<bar>of_nat n - 3 / 2 * 10 ^ 4\<bar> \<le> (1 :: rat))"
proof -
  have p: "parseFloat ''1.5'' = Fin (3 / 2)" by (simp add: double_eval_simps)
  show ?thesis using formatBalance_roundtrip [OF p] p by simp
qed


end
