(* ===== verification/UiActions.thy ===== *)
theory UiActions
  imports Components
begin

text \<open>
  The components' entry points into the session service, and the service getters they
  read: \<open>connectWallet()\<close> of \<open>AppComponent\<close> (\<open>src/src/app/app.component.ts\<close>), of
  \<open>VaultListComponent\<close> and of \<open>VaultCreateComponent\<close>
  (\<open>src/src/app/components/\<close>), which call \<open>Web3Service.connectWallet()\<close> and differ
  in what they do with its rejection; the vault list's \<open>openDepositDialog\<close> and
  \<open>openWithdrawDialog\<close>, which hand the vault to a dialog as its data; and the
  synchronous getters of \<open>Web3Service\<close>.
\<close>

subsection \<open>Connecting from the components\<close>

text \<open>\<open>AppComponent.connectWallet()\<close> calls the service without awaiting the promise or
  handling its rejection: a rejection is an unhandled promise rejection, the third
  component of the result. The shell's fields follow the subjects it subscribed to in
  \<open>ngOnInit\<close>.\<close>

definition app_connectWallet :: "sess \<Rightarrow> app_component \<Rightarrow> (sess \<times> app_component) \<times> web3_error option" where
  "app_connectWallet st a =
     (case connectWallet st of
        (st', r) \<Rightarrow> ((st', app_observe (snd st') a), case r of Inl e \<Rightarrow> Some e | Inr u \<Rightarrow> None))"

text \<open>\<open>HomeComponent.connectWallet()\<close> (\<open>src/src/app/components/home/home.component.ts\<close>)
  does the same; its field \<open>isConnected\<close> follows \<open>isConnected$\<close>.\<close>

definition home_connectWallet :: "sess \<Rightarrow> bool \<Rightarrow> (sess \<times> bool) \<times> web3_error option" where
  "home_connectWallet st b =
     (case connectWallet st of
        (st', r) \<Rightarrow> ((st', home_observe (snd st') b), case r of Inl e \<Rightarrow> Some e | Inr u \<Rightarrow> None))"

text \<open>\<open>VaultListComponent.connectWallet()\<close>: a rejection is caught and only logged.\<close>

definition vaultList_connectWallet :: "sess \<Rightarrow> sess" where
  "vaultList_connectWallet st = fst (connectWallet st)"

text \<open>\<open>VaultCreateComponent.connectWallet()\<close>: a rejection is caught and shown in the
  component's \<open>error\<close> field.\<close>

definition connect_failed_message :: string where
  "connect_failed_message = ''Failed to connect wallet. Please try again.''"

definition vaultCreate_connectWallet :: "sess \<Rightarrow> create_component \<Rightarrow> sess \<times> create_component" where
  "vaultCreate_connectWallet st cc =
     (case connectWallet st of
        (st', Inl e) \<Rightarrow> (st', cc\<lparr>cc_error := connect_failed_message\<rparr>)
      | (st', Inr u) \<Rightarrow> (st', cc))"

subsection \<open>Opening the dialogs from the vault list\<close>

text \<open>\<open>dialog.open(C, {data: {vault}})\<close>: the dialog component to create and the vault
  it receives as \<open>MAT_DIALOG_DATA\<close>, which its \<open>deposit()\<close> or \<open>withdraw()\<close> reads.\<close>

datatype dialog_kind = DepositDialogComponent | WithdrawDialogComponent

record dialog_config =
  dc_component :: dialog_kind
  dc_vault :: vault

definition openDepositDialog :: "vault \<Rightarrow> dialog_config" where
  "openDepositDialog vt = \<lparr>dc_component = DepositDialogComponent, dc_vault = vt\<rparr>"

definition openWithdrawDialog :: "vault \<Rightarrow> dialog_config" where
  "openWithdrawDialog vt = \<lparr>dc_component = WithdrawDialogComponent, dc_vault = vt\<rparr>"

text \<open>What the opened dialog submits: the component's method with the vault of its data,
  the amount (and recipient) typed in its form.\<close>

definition dialog_submit ::
  "dialog_config \<Rightarrow> session_view \<Rightarrow> chain_state \<Rightarrow> string \<Rightarrow> string \<Rightarrow> tx_outcome \<Rightarrow> nat \<Rightarrow> vsvc \<Rightarrow>
     dialog_result option" where
  "dialog_submit d v c amount recipient out now s =
     (case dc_component d of
        DepositDialogComponent \<Rightarrow> deposit_dialog v c (dc_vault d) amount out now s
      | WithdrawDialogComponent \<Rightarrow> withdraw_dialog v c (dc_vault d) amount recipient out now s)"

subsection \<open>Getters of the session service\<close>

definition svc_isConnected :: "web3 \<Rightarrow> bool" where
  "svc_isConnected s = isConnected s"

definition svc_isCorrectNetwork :: "web3 \<Rightarrow> bool" where
  "svc_isCorrectNetwork s = isCorrectNetwork s"

definition getNetworkNameText :: "web3 \<Rightarrow> string" where
  "getNetworkNameText s = networkName s"

definition getTargetNetworkName :: string where
  "getTargetNetworkName = getNetworkName (Num targetNetworkId)"

text \<open>The create component's getters \<open>isConnected\<close> and \<open>account\<close>.\<close>

definition vaultCreate_isConnected :: "web3 \<Rightarrow> bool" where
  "vaultCreate_isConnected s = svc_isConnected s"

definition vaultCreate_account :: "web3 \<Rightarrow> address" where
  "vaultCreate_account s = account s"

subsection \<open>Lemmas\<close>

text \<open>A connection request the user rejects, with a provider: the service re-opens its
  connect dialog and rethrows the wallet's error.\<close>

lemma connectWallet_rejected:
  assumes "provider s" and "installed w" and "eth_requestAccounts w = (w', Inl code)"
  shows "connectWallet (w, s) = ((w', s\<lparr>walletModalVisible := True\<rparr>), Inl (RpcError code))"
  using assms by (simp add: connectWallet_def exc_defs updE_def readE_def readW_def walletE_def)

text \<open>Every component's connect runs the service's \<open>connectWallet\<close> to its end: on the
  session it is the step \<open>Connect\<close>.\<close>

lemma ui_connect_step:
  "fst (fst (app_connectWallet st a)) = session_step Connect st"
  "fst (fst (home_connectWallet st b)) = session_step Connect st"
  "vaultList_connectWallet st = session_step Connect st"
  "fst (vaultCreate_connectWallet st cc) = session_step Connect st"
  by (simp_all add: app_connectWallet_def home_connectWallet_def vaultList_connectWallet_def
      vaultCreate_connectWallet_def split: prod.split sum.split)

lemma getTargetNetworkName_value: "getTargetNetworkName = ''Sepolia Testnet''"
  by (simp add: getTargetNetworkName_def getNetworkName_def targetNetworkId_def networkNames_def js_or_str_def)



end
