(* ===== verification/DateFormat.thy ===== *)
theory DateFormat
  imports Prelude
begin

text \<open>
  \<open>getFormattedDate(timestamp)\<close> of the explore page
  (\<open>src/src/app/components/vault-explore/vault-explore.component.ts\<close>),
  \<open>new Date(timestamp * 1000).toLocaleDateString()\<close>, with the date arithmetic of
  ECMAScript (section 21.4.1): \<open>Day\<close>, \<open>DayFromYear\<close>, \<open>DaysInYear\<close>,
  \<open>YearFromTime\<close>, \<open>MonthFromTime\<close>, \<open>DateFromTime\<close> and \<open>MakeDay\<close>, on days since
  the epoch. The spec defines the year as the largest \<open>y\<close> with
  \<open>DayFromYear y \<le> d\<close>; \<open>YearFromDay\<close> computes it from the mean year of 146097/400 days
  and one correction. What the browser contributes is an input: the time-zone offset
  (\<open>LocalTime\<close>, in milliseconds, as a function of the UTC time) and the locale, of
  which the short date forms of \<open>en-US\<close> and \<open>es-ES\<close> are modelled; the year is printed
  as a decimal integer, which is what these locales print for years from 1 on.
\<close>

definition msPerDay :: int where
  "msPerDay = 86400000"

definition DayFromYear :: "int \<Rightarrow> int" where
  "DayFromYear y = 365 * (y - 1970) + (y - 1969) div 4 - (y - 1901) div 100 + (y - 1601) div 400"

definition DaysInYear :: "int \<Rightarrow> int" where
  "DaysInYear y =
     (if y mod 4 \<noteq> 0 then 365 else if y mod 100 \<noteq> 0 then 366 else if y mod 400 \<noteq> 0 then 365 else 366)"

text \<open>\<open>YearFromTime\<close> on the day number: the estimate from the mean Gregorian year is
  at most one year off (\<open>DayFromYear_bounds\<close>), and one comparison on each side corrects it.\<close>

definition YearFromDay :: "int \<Rightarrow> int" where
  "YearFromDay d =
     (let y = 1970 + (400 * d) div 146097
      in if d < DayFromYear y then y - 1 else if DayFromYear (y + 1) \<le> d then y + 1 else y)"

text \<open>The first day within the year of each month, as in \<open>MonthFromTime\<close> and
  \<open>DateFromTime\<close>, with the leap day from March on.\<close>

definition month_starts :: "bool \<Rightarrow> int list" where
  "month_starts leap =
     (let l = (if leap then 1 else 0)
      in [0, 31, 59 + l, 90 + l, 120 + l, 151 + l, 181 + l, 212 + l, 243 + l, 273 + l, 304 + l, 334 + l])"

definition MonthFromDay :: "int \<Rightarrow> nat" where
  "MonthFromDay d =
     (let y = YearFromDay d; dwy = d - DayFromYear y
      in length (takeWhile (\<lambda>s. s \<le> dwy) (tl (month_starts (DaysInYear y = 366)))))"

definition DateFromDay :: "int \<Rightarrow> int" where
  "DateFromDay d =
     (let y = YearFromDay d; dwy = d - DayFromYear y
      in dwy - month_starts (DaysInYear y = 366) ! MonthFromDay d + 1)"

text \<open>The number of days of month \<open>m\<close> (0-based), and the dates \<open>MakeDay\<close> accepts
  without carrying into the next month.\<close>

definition days_in_month :: "bool \<Rightarrow> nat \<Rightarrow> int" where
  "days_in_month leap m =
     (if Suc m < 12 then month_starts leap ! Suc m else if leap then 366 else 365) - month_starts leap ! m"

definition valid_date :: "int \<Rightarrow> nat \<Rightarrow> int \<Rightarrow> bool" where
  "valid_date y m dt \<longleftrightarrow> m < 12 \<and> 1 \<le> dt \<and> dt \<le> days_in_month (DaysInYear y = 366) m"

definition MakeDay :: "int \<Rightarrow> nat \<Rightarrow> int \<Rightarrow> int" where
  "MakeDay y m dt = DayFromYear y + month_starts (DaysInYear y = 366) ! m + dt - 1"

text \<open>\<open>toLocaleDateString()\<close> with the default options: the short date of the locale.\<close>

datatype date_locale = EnUS | EsES

definition locale_date :: "date_locale \<Rightarrow> int \<Rightarrow> nat \<Rightarrow> int \<Rightarrow> string" where
  "locale_date loc y m dt =
     (case loc of
        EnUS \<Rightarrow> int_to_radix 10 (int m + 1) @ ''/'' @ int_to_radix 10 dt @ ''/'' @ int_to_radix 10 y
      | EsES \<Rightarrow> int_to_radix 10 dt @ ''/'' @ int_to_radix 10 (int m + 1) @ ''/'' @ int_to_radix 10 y)"

text \<open>\<open>getFormattedDate\<close>: a time value beyond \<open>8.64 \<cdot> 10\<^sup>1\<^sup>5\<close> ms is an invalid
  date (\<open>TimeClip\<close>); otherwise the local day \<open>\<lfloor>LocalTime(t) / msPerDay\<rfloor>\<close> is
  printed. Timestamps are integers (the code's come from \<open>Math.floor(Date.now() / 1000)\<close>),
  for which \<open>timestamp * 1000\<close> is exact in the valid range.\<close>

definition getFormattedDate :: "date_locale \<Rightarrow> (int \<Rightarrow> int) \<Rightarrow> int \<Rightarrow> string" where
  "getFormattedDate loc offset timestamp =
     (let t = timestamp * 1000
      in if 8640000000000000 < \<bar>t\<bar> then ''Invalid Date''
         else
           (let d = (t + offset t) div msPerDay
            in locale_date loc (YearFromDay d) (MonthFromDay d) (DateFromDay d)))"

subsection \<open>Lemmas\<close>

lemma div_succ_int:
  fixes a c :: int
  assumes "0 < c"
  shows "(a + 1) div c = a div c + (if (a + 1) mod c = 0 then 1 else 0)"
proof -
  define q r where "q = a div c" and "r = a mod c"
  have a: "a = c * q + r" unfolding q_def r_def by simp
  have r: "0 \<le> r" "r < c" using assms unfolding r_def by simp_all
  show ?thesis
  proof (cases "r = c - 1")
    case True
    then have "a + 1 = c * (q + 1)" using a by (simp add: algebra_simps)
    then show ?thesis using assms by (simp add: q_def)
  next
    case False
    then have e: "a + 1 = (r + 1) + q * c" using a by (simp add: algebra_simps)
    have "0 \<le> r + 1" "r + 1 < c" using r False by simp_all
    then have "(a + 1) div c = q" "(a + 1) mod c = r + 1" unfolding e using assms by simp_all
    then show ?thesis using r by (simp add: q_def)
  qed
qed

lemma mod_shift: "(y - 1968) mod 4 = y mod (4::int)" "(y - 1900) mod 100 = y mod (100::int)"
  "(y - 1600) mod 400 = y mod (400::int)"
proof -
  have "y - 1968 = y + (-492) * 4" "y - 1900 = y + (-19) * 100" "y - 1600 = y + (-4) * 400" by simp_all
  then show "(y - 1968) mod 4 = y mod (4::int)" "(y - 1900) mod 100 = y mod (100::int)"
    "(y - 1600) mod 400 = y mod (400::int)" by (simp_all only: mod_mult_self1)
qed

lemma DayFromYear_succ: "DayFromYear (y + 1) = DayFromYear y + DaysInYear y"
proof -
  have s4: "(y + 1 - 1969) div 4 = (y - 1969) div 4 + (if y mod 4 = 0 then 1 else 0)"
    using div_succ_int [of 4 "y - 1969"] by (simp add: mod_shift)
  have s100: "(y + 1 - 1901) div 100 = (y - 1901) div 100 + (if y mod 100 = 0 then 1 else 0)"
    using div_succ_int [of 100 "y - 1901"] by (simp add: mod_shift)
  have s400: "(y + 1 - 1601) div 400 = (y - 1601) div 400 + (if y mod 400 = 0 then 1 else 0)"
    using div_succ_int [of 400 "y - 1601"] by (simp add: mod_shift)
  have d: "y mod 100 = 0 \<Longrightarrow> y mod 4 = 0" "y mod 400 = 0 \<Longrightarrow> y mod 100 = 0"
    using dvd_trans [of 4 100 y] dvd_trans [of 100 400 y] by (auto simp: mod_eq_0_iff_dvd)
  show ?thesis unfolding DayFromYear_def DaysInYear_def s4 s100 s400 using d by auto
qed

lemma div_bounds_int:
  assumes "0 < (c::int)"
  shows "c * (a div c) \<le> a \<and> a < c * (a div c) + c"
proof -
  have "a = c * (a div c) + a mod c" by simp
  moreover have "0 \<le> a mod c" "a mod c < c" using assms by simp_all
  ultimately show ?thesis by linarith
qed

lemma DayFromYear_bounds:
  "146097 * (y - 1970) - 506 \<le> 400 * DayFromYear y \<and> 400 * DayFromYear y \<le> 146097 * (y - 1970) + 589"
  using div_bounds_int [of 4 "y - 1969", OF zero_less_numeral] div_bounds_int [of 100 "y - 1901", OF zero_less_numeral]
    div_bounds_int [of 400 "y - 1601", OF zero_less_numeral]
  unfolding DayFromYear_def by (simp only: distrib_left right_diff_distrib) linarith

lemma DaysInYear_range: "365 \<le> DaysInYear y \<and> DaysInYear y \<le> 366"
  by (simp add: DaysInYear_def)

lemma DayFromYear_grows: "DayFromYear y + 365 * int k \<le> DayFromYear (y + int k)"
proof (induction k)
  case 0
  then show ?case by simp
next
  case (Suc k)
  have e: "y + int (Suc k) = (y + int k) + 1" by simp
  have "DayFromYear (y + int (Suc k)) = DayFromYear (y + int k) + DaysInYear (y + int k)"
    unfolding e by (rule DayFromYear_succ)
  then show ?case using Suc.IH DaysInYear_range [of "y + int k"] by simp
qed

lemma DayFromYear_mono: "y \<le> y' \<Longrightarrow> DayFromYear y \<le> DayFromYear y'"
  using DayFromYear_grows [of y "nat (y' - y)"] by simp

lemma YearFromDay_correct: "DayFromYear (YearFromDay d) \<le> d \<and> d < DayFromYear (YearFromDay d + 1)"
proof -
  define y where "y = 1970 + (400 * d) div 146097"
  have q: "146097 * (y - 1970) \<le> 400 * d \<and> 400 * d < 146097 * (y - 1970) + 146097"
    using div_bounds_int [of 146097 "400 * d", OF zero_less_numeral] by (simp add: y_def)
  have b1: "400 * DayFromYear (y - 1) \<le> 146097 * (y - 1 - 1970) + 589"
    and b2: "146097 * (y + 2 - 1970) - 506 \<le> 400 * DayFromYear (y + 2)"
    using DayFromYear_bounds [of "y - 1"] DayFromYear_bounds [of "y + 2"] by simp_all
  have e: "y - 1 + 1 = y" "y + 1 + 1 = y + 2" by simp_all
  show ?thesis
  proof (cases "d < DayFromYear y")
    case True
    then have yr: "YearFromDay d = y - 1" by (simp add: YearFromDay_def y_def [symmetric] Let_def)
    have "400 * DayFromYear (y - 1) \<le> 400 * d"
      using q b1 by (simp only: right_diff_distrib distrib_left) linarith
    then show ?thesis using True yr by simp
  next
    case False
    show ?thesis
    proof (cases "DayFromYear (y + 1) \<le> d")
      case True
      then have yr: "YearFromDay d = y + 1" using False by (simp add: YearFromDay_def y_def [symmetric] Let_def)
      have "400 * d < 400 * DayFromYear (y + 2)"
        using q b2 by (simp only: right_diff_distrib distrib_left) linarith
      then show ?thesis using True yr by (simp add: add.assoc)
    next
      case c: False
      then show ?thesis using False by (simp add: YearFromDay_def y_def [symmetric] Let_def)
    qed
  qed
qed

lemma YearFromDay_iff: "(DayFromYear y \<le> d \<and> d < DayFromYear (y + 1)) \<longleftrightarrow> YearFromDay d = y"
proof
  assume a: "DayFromYear y \<le> d \<and> d < DayFromYear (y + 1)"
  have c: "DayFromYear (YearFromDay d) \<le> d \<and> d < DayFromYear (YearFromDay d + 1)" by (rule YearFromDay_correct)
  show "YearFromDay d = y"
  proof (rule ccontr)
    assume "YearFromDay d \<noteq> y"
    then have "y + 1 \<le> YearFromDay d \<or> YearFromDay d + 1 \<le> y" by linarith
    then show False
      using a c DayFromYear_mono [of "y + 1" "YearFromDay d"] DayFromYear_mono [of "YearFromDay d + 1" y] by auto
  qed
next
  assume "YearFromDay d = y"
  then show "DayFromYear y \<le> d \<and> d < DayFromYear (y + 1)" using YearFromDay_correct [of d] by simp
qed

lemma takeWhile_le_count:
  fixes xs :: "int list"
  assumes "sorted xs" and "i < length xs" and "xs ! i \<le> v" and "Suc i < length xs \<Longrightarrow> v < xs ! Suc i"
  shows "length (takeWhile (\<lambda>s. s \<le> v) (tl xs)) = i"
proof -
  have "takeWhile (\<lambda>s. s \<le> v) (tl xs) = take i (tl xs)"
  proof (rule takeWhile_eq_take_P_nth)
    fix j assume "j < i" "j < length (tl xs)"
    then show "tl xs ! j \<le> v" using assms(1,3) sorted_nth_mono [of xs "Suc j" i] assms(2) by (simp add: nth_tl)
  next
    assume "i < length (tl xs)"
    then have "Suc i < length xs" by simp
    then show "\<not> tl xs ! i \<le> v" using assms(4) by (simp add: nth_tl not_le)
  qed
  then show ?thesis using assms(2) by simp
qed

lemma takeWhile_le_bounds:
  fixes xs :: "int list"
  assumes "xs \<noteq> []" and "hd xs \<le> v" and m: "m = length (takeWhile (\<lambda>s. s \<le> v) (tl xs))"
  shows "m < length xs \<and> xs ! m \<le> v \<and> (Suc m < length xs \<longrightarrow> v < xs ! Suc m)"
proof -
  have l: "m < length xs" using m assms(1) length_takeWhile_le [of _ "tl xs"] by (cases xs) (auto simp: less_Suc_eq_le)
  have "xs ! m \<le> v"
  proof (cases m)
    case 0
    then show ?thesis using assms(1,2) by (simp add: hd_conv_nth)
  next
    case (Suc k)
    then have "k < length (takeWhile (\<lambda>s. s \<le> v) (tl xs))" using m by simp
    then have "takeWhile (\<lambda>s. s \<le> v) (tl xs) ! k \<in> set (takeWhile (\<lambda>s. s \<le> v) (tl xs))" by (rule nth_mem)
    then have "tl xs ! k \<le> v" using takeWhile_nth [OF \<open>k < _\<close>] by (auto dest: set_takeWhileD)
    moreover have "k < length (tl xs)"
      using \<open>k < _\<close> length_takeWhile_le [of "\<lambda>s. s \<le> v" "tl xs"] by linarith
    ultimately show ?thesis using Suc by (simp add: nth_tl)
  qed
  moreover have "Suc m < length xs \<longrightarrow> v < xs ! Suc m"
  proof
    assume "Suc m < length xs"
    then have "m < length (tl xs)" by simp
    then have "\<not> tl xs ! m \<le> v" using nth_length_takeWhile [of "\<lambda>s. s \<le> v" "tl xs"] m by simp
    then show "v < xs ! Suc m" using \<open>m < length (tl xs)\<close> by (simp add: nth_tl not_le)
  qed
  ultimately show ?thesis using l by simp
qed

lemma month_starts_facts:
  "sorted (month_starts l)" "length (month_starts l) = 12" "hd (month_starts l) = 0"
  "month_starts l ! 0 = 0" "m < 12 \<Longrightarrow> month_starts l ! m \<le> 335"
proof -
  show "sorted (month_starts l)" "length (month_starts l) = 12" "hd (month_starts l) = 0" "month_starts l ! 0 = 0"
    by (simp_all add: month_starts_def Let_def)
  have l: "length (month_starts l) = 12" by (simp add: month_starts_def Let_def)
  have "list_all (\<lambda>s. s \<le> 335) (month_starts l)" by (simp add: month_starts_def Let_def)
  then show "m < 12 \<Longrightarrow> month_starts l ! m \<le> 335" using l unfolding list_all_length by auto
qed

lemma DaysInYear_cases: "DaysInYear y = (if DaysInYear y = 366 then 366 else 365)"
  using DaysInYear_range [of y] by auto

lemma civil_of_day:
  "valid_date (YearFromDay d) (MonthFromDay d) (DateFromDay d) \<and>
   MakeDay (YearFromDay d) (MonthFromDay d) (DateFromDay d) = d"
proof -
  define y where "y = YearFromDay d"
  define l where "l = (DaysInYear y = 366)"
  define dwy where "dwy = d - DayFromYear y"
  define m where "m = MonthFromDay d"
  have yr: "0 \<le> dwy \<and> dwy < (if l then 366 else 365)"
    using YearFromDay_correct [of d] DayFromYear_succ [of y] DaysInYear_cases [of y]
    by (simp add: y_def [symmetric] dwy_def l_def)
  have md: "m = length (takeWhile (\<lambda>s. s \<le> dwy) (tl (month_starts l)))"
    by (simp add: m_def MonthFromDay_def y_def dwy_def l_def Let_def)
  have ne: "month_starts l \<noteq> []" using month_starts_facts(2) [of l] by auto
  have b: "m < 12 \<and> month_starts l ! m \<le> dwy \<and> (Suc m < 12 \<longrightarrow> dwy < month_starts l ! Suc m)"
    using takeWhile_le_bounds [OF ne _ md] month_starts_facts(2,3) [of l] yr by simp
  have dt: "DateFromDay d = dwy - month_starts l ! m + 1"
    by (simp add: DateFromDay_def m_def y_def dwy_def l_def Let_def)
  show ?thesis
    unfolding valid_date_def MakeDay_def days_in_month_def y_def [symmetric] m_def [symmetric]
      l_def [symmetric] dt
    using b yr by (auto simp: dwy_def)
qed

lemma month_starts_nonneg: "m < 12 \<Longrightarrow> 0 \<le> month_starts l ! m"
  using sorted_nth_mono [of "month_starts l" 0 m] month_starts_facts(1,2,4) [of l] by simp

text \<open>The civil date of a day is a round trip: for every valid date, the year, month and
  day that \<open>YearFromTime\<close>, \<open>MonthFromTime\<close> and \<open>DateFromTime\<close> read from
  \<open>MakeDay\<close> of it are that date.\<close>

lemma date_roundtrip:
  assumes "valid_date y m dt"
  shows "YearFromDay (MakeDay y m dt) = y \<and> MonthFromDay (MakeDay y m dt) = m \<and> DateFromDay (MakeDay y m dt) = dt"
proof -
  define l where "l = (DaysInYear y = 366)"
  have m: "m < 12" "1 \<le> dt" "dt \<le> days_in_month l m" using assms by (simp_all add: valid_date_def l_def)
  define k where "k = month_starts l ! m + dt - 1"
  have lo: "month_starts l ! m \<le> k" using m(2) by (simp add: k_def)
  have hi: "Suc m < 12 \<Longrightarrow> k < month_starts l ! Suc m" using m(3) by (simp add: k_def days_in_month_def)
  have top: "k < (if l then 366 else 365)"
  proof (cases "Suc m < 12")
    case True
    then show ?thesis using hi month_starts_facts(5) [of "Suc m" l] by auto
  next
    case False
    then show ?thesis using m(3) by (simp add: k_def days_in_month_def)
  qed
  have k0: "0 \<le> k" using lo month_starts_nonneg [OF m(1), of l] by simp
  have d: "MakeDay y m dt = DayFromYear y + k" by (simp add: MakeDay_def k_def l_def)
  have y: "YearFromDay (MakeDay y m dt) = y"
    using YearFromDay_iff [of y "MakeDay y m dt"] d k0 top DayFromYear_succ [of y] DaysInYear_cases [of y]
    by (simp add: l_def)
  have mo: "MonthFromDay (MakeDay y m dt) = m"
    using takeWhile_le_count [OF month_starts_facts(1) _ lo hi] m(1) month_starts_facts(2) [of l] y d
    by (simp add: MonthFromDay_def l_def Let_def)
  have "DateFromDay (MakeDay y m dt) = dt"
    using y mo d by (simp add: DateFromDay_def l_def k_def Let_def)
  then show ?thesis using y mo by simp
qed

text \<open>\<open>YearFromDay\<close> is \<open>YearFromTime\<close> as ECMAScript defines it: the largest year
  whose first day is not after the given day.\<close>

lemma YearFromDay_greatest: "YearFromDay d = (GREATEST y. DayFromYear y \<le> d)"
proof (rule Greatest_equality [symmetric])
  show "DayFromYear (YearFromDay d) \<le> d" using YearFromDay_correct [of d] by simp
next
  fix y assume y: "DayFromYear y \<le> d"
  show "y \<le> YearFromDay d"
  proof (rule ccontr)
    assume "\<not> y \<le> YearFromDay d"
    then have "DayFromYear (YearFromDay d + 1) \<le> DayFromYear y" by (intro DayFromYear_mono) simp
    then show False using y YearFromDay_correct [of d] by simp
  qed
qed

text \<open>Dates as the explore page shows them: 9 November 2025 at midnight UTC in the
  United States and, five hours behind UTC, in Spanish; and a timestamp out of range.\<close>

lemma YearFromDay_2025: "YearFromDay 20400 = 2025" "YearFromDay 20401 = 2025"
  by (simp_all add: YearFromDay_def DayFromYear_def Let_def)

lemma civil_2025_11:
  "MonthFromDay 20400 = 10" "DateFromDay 20400 = 8" "MonthFromDay 20401 = 10" "DateFromDay 20401 = 9"
  by (simp_all add: MonthFromDay_def DateFromDay_def YearFromDay_2025 DayFromYear_def DaysInYear_def
      month_starts_def Let_def)

lemma getFormattedDate_examples:
  "getFormattedDate EnUS (\<lambda>t. 0) 1762646400 = ''11/9/2025''"
  "getFormattedDate EsES (\<lambda>t. - 18000000) 1762646400 = ''8/11/2025''"
  "getFormattedDate EnUS (\<lambda>t. 0) 8640000000001 = ''Invalid Date''"
  by (simp_all add: getFormattedDate_def locale_date_def msPerDay_def YearFromDay_2025 civil_2025_11
      int_to_radix_def radix_digits_lt radix_digits_ge digit_char_def char_of_eq_iff Let_def)


text \<open>
  C36: The date shown is the date of the timestamp: for every valid date and every
  timestamp within that local day (the offset of the time zone at that instant included),
  \<open>getFormattedDate\<close> prints that year, month and day.
\<close>

theorem getFormattedDate_roundtrip:
  assumes "valid_date y m dt" and "t = (86400 * MakeDay y m dt + s) * 1000"
    and "\<bar>t\<bar> \<le> 8640000000000000" and "0 \<le> 1000 * s + offset t" and "1000 * s + offset t < msPerDay"
  shows "getFormattedDate loc offset (86400 * MakeDay y m dt + s) = locale_date loc y m dt"
proof -
  have "t + offset t = msPerDay * MakeDay y m dt + (1000 * s + offset t)"
    using assms(2) by (simp add: msPerDay_def algebra_simps)
  then have "(t + offset t) div msPerDay = MakeDay y m dt"
    using assms(4,5) by (simp add: msPerDay_def)
  then show ?thesis using date_roundtrip [OF assms(1)] assms(2,3) by (simp add: getFormattedDate_def Let_def)
qed

theorem getFormattedDate_roundtrip_witness:
  "valid_date 2024 1 29 \<and> MakeDay 2024 1 29 = 19782 \<and>
   (86400 * 19782 + 43200) * 1000 = (86400 * MakeDay 2024 1 29 + 43200) * 1000 \<and>
   \<bar>(86400 * 19782 + 43200) * 1000\<bar> \<le> (8640000000000000::int) \<and>
   0 \<le> 1000 * 43200 + (- 18000000::int) \<and> 1000 * 43200 + (- 18000000) < msPerDay \<and>
   getFormattedDate EsES (\<lambda>t. - 18000000) (86400 * MakeDay 2024 1 29 + 43200) = locale_date EsES 2024 1 29"
proof -
  have v: "valid_date 2024 1 29"
    by (simp add: valid_date_def days_in_month_def DaysInYear_def month_starts_def)
  have md: "MakeDay 2024 1 29 = 19782"
    by (simp add: MakeDay_def DayFromYear_def DaysInYear_def month_starts_def)
  show ?thesis
    using getFormattedDate_roundtrip [OF v refl, of 43200 "\<lambda>t. - 18000000" EsES] v md
    by (simp add: msPerDay_def)
qed

end
