(* ===== verification/Spec2Isabelle.thy ===== *)
theory Spec2Isabelle
  imports Components Balances SessionSpec NumberFormat UiActions DateFormat
begin

text \<open>
  \<^bold>\<open>A verification development for the Tims web client.\<close>

  The repository is an Angular client that connects a browser wallet and calls vault
  contracts through a factory. Its parts, leaves first: the injected wallet provider
  (external), the wallet session manager and contract gateway
  (\<open>src/src/app/services/web3.service.ts\<close>, class \<open>Web3Service\<close>), the vault
  orchestration service (\<open>src/src/app/services/vault.service.ts\<close>, class
  \<open>VaultService\<close>, which reads the session through its getters), and the presentation
  components and dialogs that forward user intents.

  \<^bold>\<open>Theories.\<close>
  \<^item> \<open>Prelude\<close>: the JavaScript values and runtime functions the code relies on
    (\<open>number\<close> with \<open>NaN\<close> as \<open>jsnum\<close>, \<open>Number.prototype.toString(10|16)\<close> as
    \<open>int_to_radix\<close>, \<open>parseInt(s, 16)\<close> as \<open>parseInt_hex\<close>, truthiness, \<open>||\<close> on
    strings); a state-exception monad (\<open>returnE\<close>, \<open>throwE\<close>, \<open>bindE\<close> for
    \<open>await\<close>, \<open>catchE\<close> for \<open>try/catch\<close>, \<open>modifyE\<close>) in which every
    \<open>async\<close> method is written statement by statement, with compositional invariant
    rules (\<open>preservesE\<close>, collection \<open>preserves_rules\<close>) and pre/postcondition
    rules that follow the flow of a method (\<open>validE\<close>, collection \<open>valid_rules\<close>); the
    named collections
    \<open>js_simps\<close>, \<open>exc_simps\<close>, \<open>op_defs\<close>.
  \<^item> \<open>Wallet\<close>: the provider as environment, from the standard the spec names
    (\<open>eth_accounts\<close>, \<open>eth_requestAccounts\<close>, \<open>wallet_switchEthereumChain\<close>,
    \<open>wallet_addEthereumChain\<close>, the signer, the \<open>chainChanged\<close> payload). The user's
    answers to prompts are fields of the record \<open>wallet\<close>, so every request has one
    outcome; errors carry the standard codes (4001, 4100, 4902).
  \<^item> \<open>Gateway\<close>: \<open>targetNetworkId\<close>, \<open>contractConfig\<close>, \<open>networkNames\<close>,
    \<open>getNetworkName\<close>, the lookup of \<open>initContracts\<close> (\<open>config_lookup\<close>), the chain id
    parameter and \<open>switchToTargetNetwork\<close>.
  \<^item> \<open>Session\<close>: the record \<open>web3\<close> (fields and subjects of \<open>Web3Service\<close>,
    \<open>localStorage\<close> as the map \<open>storage\<close>); \<open>resetState\<close>, \<open>disconnectWallet\<close>,
    \<open>initContracts\<close>, \<open>initializeWeb3WithAccount\<close>, \<open>silentlyReconnect\<close>,
    \<open>checkForSavedSession\<close>, the constructor, \<open>initWeb3\<close>, \<open>connectWallet\<close>, the
    listeners \<open>accountsChanged\<close>, \<open>chainChanged\<close>, \<open>providerDisconnect\<close>,
    \<open>ensureCorrectNetwork\<close>, \<open>getVaultContract\<close> and the modal methods; the step
    function \<open>session_step\<close> (a method run to its end or one notification delivered) and
    the reachable states \<open>session_reachable\<close>, where between steps the user may change
    anything in the wallet.
  \<^item> \<open>SessionSpec\<close>: the connection state machine of the spec (section 4.1) as the
    inductive relation \<open>session_spec\<close> on \<open>conn_state\<close> (\<open>Disconnected\<close> or
    \<open>Connected\<close> to a network), the abstraction \<open>conn_abs\<close> of a session, and the
    invariants of the reachable sessions proved with \<open>validE\<close>: a connected session has a
    provider (\<open>conn_inv\<close>), and the network fields agree (\<open>network_wf\<close>).
  \<^item> \<open>Balances\<close>: the balance helpers of \<open>Web3Service\<close> (\<open>getAddressBalance\<close>,
    \<open>hasEnoughBalance\<close> with its 0.01 ether gas allowance, \<open>getSepETH\<close>), with the
    provider's \<open>getBalance\<close> as an input.

  \<^item> \<open>Ether\<close>: \<open>ethers\<close>' \<open>parseEther\<close> and \<open>formatEther\<close> (18 decimals,
    signed 512-bit range, the library's error messages), modelled from their documented
    behaviour since the library is not code of the repository; every amount in the range
    prints to a string that reads back as itself (\<open>formatEther_roundtrip\<close>).
  \<^item> \<open>Models\<close>: \<open>src/src/app/models/vault.model.ts\<close> and \<open>transaction.model.ts\<close>
    (enums as datatypes, interfaces as records; the placeholder \<open>{} as Vault\<close> is
    \<open>EmptyVault\<close>).
  \<^item> \<open>Vaults\<close>: \<open>VaultService\<close> of \<open>src/src/app/services/vault.service.ts\<close>. Its
    subjects are the record \<open>vsvc\<close>; the session is read through the interface
    \<open>session_view\<close> (the four getters); contract reads are the environment
    \<open>chain_state\<close> and each submitted transaction has a \<open>tx_outcome\<close>. Every method
    (\<open>createSingleOwnerVault\<close>, \<open>loadUserVaults\<close>, \<open>loadPublicVaults\<close>,
    \<open>loadVaultDetails\<close>, \<open>depositToVault\<close>, \<open>withdrawFromVault\<close>, the four owner
    operations through \<open>owner_tx_op\<close>, \<open>canDeposit\<close>, the private helpers and the
    constructor's subscription) returns the final state, the emitted value and the contract
    call it submitted; \<open>vault_step\<close> runs one of them.
  \<^item> \<open>JsNumber\<close>: JavaScript numbers as binary64 values (exact rationals with
    \<open>Infinity\<close> and \<open>NaN\<close>), rounding to nearest even with subnormals and overflow
    (\<open>nearest_double\<close>, \<open>round_rat\<close>), \<open>parseFloat\<close>, and \<open><\<close>, \<open><=\<close>, \<open>/\<close>,
    \<open>*\<close>, \<open>Math.min\<close>. Rounding is monotone (\<open>nearest_double_mono\<close>, from the
    bounds of \<open>floor_log2\<close> and the half-unit error of \<open>round_div\<close>), which is what lets
    a \<open>min\<close> validator be checked on every amount above its bound.
  \<^item> \<open>Dialogs\<close>: the deposit and withdraw dialogs (\<open>src/src/app/dialogs/\<close>): Angular's
    \<open>required\<close>, \<open>min\<close>, \<open>max\<close> and \<open>pattern\<close> validators, the forms, and
    \<open>deposit()\<close> and \<open>withdraw()\<close> calling the vault service; \<open>onCancel()\<close>; the
    withdraw form as a state (\<open>withdraw_component\<close>: the controls' values and the errors
    \<open>setErrors\<close> leaves) under typing, \<open>useMaxAmount()\<close> and \<open>validateAmount()\<close>, with
    its reachable states \<open>withdraw_reachable\<close>.
  \<^item> \<open>Components\<close>: the route table and Angular's recognition of a URL; the create
    component (\<open>onSubmit\<close> runs the synchronous part \<open>createSingleOwnerVault_sync\<close> of
    the service method, then \<open>takeUntilDestroyed()\<close> throws); the vault list
    (\<open>ngOnInit\<close>, \<open>selectVault\<close>, \<open>isVaultOwner\<close>, \<open>getCategoryLabel\<close>); the
    explore page as a step function \<open>explore_step\<close> with its reachable states, its icon
    table and \<open>getProgressPercentage\<close>; the shell and home page subscriptions.
  \<^item> \<open>NumberFormat\<close>: \<open>Number.prototype.toFixed\<close> (with \<open>Number::toString\<close>,
    shortest round-tripping digits, for values from \<open>10\<^sup>2\<^sup>1\<close> on) and the vault list's
    \<open>formatBalance\<close>.
  \<^item> \<open>UiActions\<close>: the components' \<open>connectWallet()\<close> (shell, home page, vault list, create
    component) and what each does with a rejection; the vault list's dialog openings and the
    dialog run on the vault it was given; the getters of \<open>Web3Service\<close> the components
    read.
  \<^item> \<open>DateFormat\<close>: the explore page's \<open>getFormattedDate\<close>, with ECMAScript's date
    arithmetic (\<open>DayFromYear\<close>, \<open>YearFromTime\<close> as \<open>YearFromDay\<close>,
    \<open>MonthFromTime\<close>, \<open>DateFromTime\<close>, \<open>MakeDay\<close>); the time-zone offset and the
    locale (\<open>en-US\<close> or \<open>es-ES\<close>) are inputs.
  \<^item> This theory: \<open>view_of\<close>, the session seen through the getters, and the properties
    that span both services.

  \<^bold>\<open>What is proved.\<close>
  Session: the binding invariant (the published factory binding equals the private one, a
  binding implies a signer, and the factory is a configured one) holds in every reachable
  state, by a compositional proof in which every statement of every method keeps it (C1).
  Every step of every reachable session is a transition of the spec's connection state
  machine between the abstractions of its states (C15, a simulation), and in every reachable
  state \<open>isCorrectNetwork$\<close> implies the Sepolia id and \<open>networkName$\<close> is the name of
  \<open>networkId$\<close> unless both are still at their initial values (C24). From every reachable session, disconnecting and connecting again
  with a wallet on Sepolia whose user grants an account reaches a connected session bound to
  the Sepolia factory with the network saved (C4). The configuration resolves exactly its
  two networks (C2), an unconfigured network fails without a partial binding (C3),
  notifications disconnect and rebind as the spec asks (C6, C14), and the chain id printed
  for the wallet parses back (C8). Where the code departs from its intent or the spec:
  a connection from an unconfigured network fails after a successful switch because
  \<open>initContracts\<close> reads the network id from before the switch (C5), a connection from
  Hardhat binds the Hardhat factory while the wallet is on Sepolia (C11), a chain change
  away from Sepolia keeps the previous factory in the field the vault service reads (lemma
  \<open>chainChanged_off_target\<close>, and C29 below), an unknown chain is added but not switched to (C9), the network id survives a disconnect
  (C7), and a disconnected session can carry an account (C13).

  Vault service: a rejected or reverted transaction leaves every cached collection as it
  was (C16) and every returning operation clears \<open>loading$\<close> (C27); an owner without
  vaults gets the empty list without detail reads (lemma \<open>loadUserVaults_no_owned\<close>); an unreadable vault is a
  placeholder in the listing (C18); a confirmed deposit yields its transaction record and
  the vault as the chain reports it (C19); a creation publishes the new address and reloads
  (lemma \<open>create_confirmed\<close>), and reports a missing creation event (C20). Departures: no amount or balance check
  before a deposit (C23) or withdrawal (C22) is submitted, \<open>bigint\<close> vault types all
  read as \<open>SingleOwner\<close> (lemma \<open>mapVaultType_values\<close>), a failed detail read is published as \<open>{}\<close> without
  error (C25), and an invalid creation target throws with \<open>loading$\<close> left set (C26).

  Dialogs and components: a deposit or withdrawal submitted through a dialog is of a positive
  number of wei, and a withdrawal goes to a well-formed address for no more than the balance
  as \<open>parseFloat\<close> reads it (C30, C31); but that comparison is in binary64, so one wei
  above a balance of 1.5 ether is submitted (C32), and the dialog rejects positive amounts
  below 0.000001 (lemma \<open>deposit_dialog_below_minimum\<close>). In every state the withdraw form reaches, it is invalid exactly when
  its validators fail, so \<open>validateAmount\<close> adds nothing and \<open>withdraw_dialog\<close> is
  \<open>withdraw()\<close> in all of them (C12); for a vault read from the chain with at least
  0.000001 ether, \<open>Max\<close> then \<open>Withdraw\<close> submits exactly its balance in wei, through
  \<open>formatEther\<close>, the validators, \<open>parseFloat\<close> and \<open>parseEther\<close> (C40). What \<open>createSingleOwnerVault\<close> submits is decided by its
  synchronous part (C34); the create component submits and then throws before subscribing,
  which leaves it loading and blocked (C35), and navigates to an unrouted URL (lemma \<open>created_vault_url_unrouted\<close>). The
  explore page never lists a vault (C37); its progress percentage stays within 0 and 100
  (C38). Route recognition follows the one redirect of the table and settles: any fuel
  from two on gives the result of \<open>recognize\<close> (C39). The vault list shows a balance
  with exactly four decimals, which read back as the balance rounded to four decimals
  (C21); above \<open>10\<^sup>2\<^sup>1\<close> it prints the shortest exponential form, which reads back as
  the same double (C33). A rejected connection re-opens the session's connect modal and
  nothing else; the shell and the home page leave the rejection unhandled and the vault list only logs it,
  while only the create component shows a message (C10), although the spec asks for a
  user-visible message. The year of a day is computed from the mean Gregorian year with one
  correction, and it is the largest year whose first day is not after it, as ECMAScript
  defines \<open>YearFromTime\<close> (C17); reading year, month and day back from \<open>MakeDay\<close> of a
  valid date gives that date (C36). Every component's connect is the session's step \<open>Connect\<close>
  (lemma \<open>ui_connect_step\<close>), so the session theorems hold after it.

  Across both: in every reachable session, a creation goes to a configured factory with a
  signer held (C28), and after a chain change away from Sepolia it still goes to the
  previous network's factory (C29).

  \<^bold>\<open>Scheduling.\<close>
  Methods run to their end before the next step: this is the schedule in which provider
  notifications arrive after the method that caused them. Effects made before a throw are
  kept, as in the code. The binding invariant does not depend on this choice (its proof
  covers each statement); the other theorems describe complete runs. A vault operation's
  result is its state once the subscriptions it starts (the reloads after a transaction)
  have settled; the outer pipeline's last effect is \<open>setLoading(false)\<close>, which the
  reloads also end with, so the final state does not depend on their order.

  \<^bold>\<open>Not modelled (yet).\<close>
  The opening of the faucet page (only its URL is modelled); locales other than
  \<open>en-US\<close> and \<open>es-ES\<close> for \<open>toLocaleDateString\<close>, and the era notation these
  locales use for years before 1, which timestamps from \<open>Date.now()\<close> do not reach;
  \<open>loadVaultTransactions\<close>' commented-out log query (the code returns the empty list);
  the \<open>asObservable()\<close> getters, which are the subjects themselves; the value a dialog passes to \<open>close\<close>, which no caller reads.
  Templates are not in the repository: form controls hold the typed
  text. The contracts are out of scope: their answers are inputs of the model. Integer
  JavaScript numbers (chain ids) are exact integers, decimal ones binary64 values without
  signed zero; white space for \<open>parseInt\<close> and \<open>parseFloat\<close> is its ASCII part, and
  strings are Latin-1. Library error texts are their short messages.
\<close>

text \<open>The session as the vault service sees it through the getters of
  \<open>Web3Service\<close> (\<open>getAccount\<close>, \<open>getVaultFactoryContract\<close>, \<open>getSigner\<close>,
  \<open>getProvider\<close>).\<close>

definition view_of :: "web3 \<Rightarrow> session_view" where
  "view_of s = \<lparr>sv_account = account s, sv_factory = vaultFactoryContract s, sv_signer = signer s,
     sv_provider = provider s\<rparr>"

text \<open>
  C28: In every reachable state of the session, a vault creation that the vault service
  submits goes to one of the configured factory addresses, and the session holds a signer:
  the service never submits to an address the configuration does not name.
\<close>

theorem reachable_create_configured:
  assumes "session_reachable st"
    and "snd (snd (createSingleOwnerVault (view_of (snd st)) c req out vs)) = Some call"
  shows "\<exists>f nm d ct i p amt. call = CallCreateSingleOwnerVault f nm d ct i p amt \<and>
           f \<in> snd ` set contractConfig \<and> signer (snd st)"
proof -
  from create_call_factory [OF assms(2)] obtain f nm d ct i p amt
    where f: "vaultFactoryContract (snd st) = Some f" and call: "call = CallCreateSingleOwnerVault f nm d ct i p amt"
    by (auto simp: view_of_def)
  from session_reachable_binding [OF assms(1)] f show ?thesis
    using call by (auto simp: binding_inv_def)
qed

subsection \<open>Properties across the session and the vault service\<close>

text \<open>Connecting on Sepolia from a fresh page binds the Sepolia factory.\<close>

lemma connect_example:
  "vaultFactoryContract (snd (fst (connectWallet (web3_constructor (example_wallet 11155111 [1, 11155111, 31337]) Map.empty))))
   = Some ''0xf1Da8fA04bE703cC52bc8Ac269a439111FeaD838''"
  apply (simp add: web3_constructor_def checkForSavedSession_def connectWallet_def initWeb3_def exc_defs sess_defs record_network_def initContracts_target web3_initial_def Let_def silentlyReconnect_def js_truthy_def eth_accounts_def requestAccounts_example targetNetworkId_def initContracts_configured config_lookup_target[unfolded targetNetworkId_def])
  done

theorem reachable_create_configured_witness:
  "session_reachable (session_step Connect (web3_constructor (example_wallet 11155111 [1, 11155111, 31337]) Map.empty)) \<and>
   snd (snd (createSingleOwnerVault
     (view_of (snd (session_step Connect (web3_constructor (example_wallet 11155111 [1, 11155111, 31337]) Map.empty))))
     example_chain (example_request ''1'') (Rejected ''user rejected action'') vsvc_initial)) =
     Some (CallCreateSingleOwnerVault ''0xf1Da8fA04bE703cC52bc8Ac269a439111FeaD838'' ''Viaje'' [] ''Viaje'' [] True
       1000000000000000000) \<and>
   signer (snd (session_step Connect (web3_constructor (example_wallet 11155111 [1, 11155111, 31337]) Map.empty)))"
proof -
  have r: "session_reachable (session_step Connect (web3_constructor (example_wallet 11155111 [1, 11155111, 31337]) Map.empty))"
    by (rule session_reachable.step [OF session_reachable.init])
  have c: "snd (snd (createSingleOwnerVault
     (view_of (snd (session_step Connect (web3_constructor (example_wallet 11155111 [1, 11155111, 31337]) Map.empty))))
     example_chain (example_request ''1'') (Rejected ''user rejected action'') vsvc_initial)) =
     Some (CallCreateSingleOwnerVault ''0xf1Da8fA04bE703cC52bc8Ac269a439111FeaD838'' ''Viaje'' [] ''Viaje'' [] True
       1000000000000000000)"
    by (simp add: createSingleOwnerVault_def view_of_def connect_example example_request_def Let_def)
  show ?thesis using reachable_create_configured [OF r c] r c by auto
qed

text \<open>
  C29: After a \<open>chainChanged\<close> notification to a network other than the target, the
  session records the new network id, and a vault creation the service then submits still
  goes to the factory bound on the previous network: the stale binding reaches the chain.
\<close>

theorem create_after_chain_change:
  assumes "\<not> js_num_eq (parseInt_hex h) targetNetworkId" and "vaultFactoryContract s = Some f"
    and "parseEther (if target (req_metadata req) = [] then ''0'' else target (req_metadata req)) = Inr amt"
  shows "networkId (snd (fst (chainChanged (JStr h) (w, s)))) = parseInt_hex h \<and>
         snd (snd (createSingleOwnerVault (view_of (snd (fst (chainChanged (JStr h) (w, s))))) c req out vs)) =
           Some (CallCreateSingleOwnerVault f (name (req_metadata req)) (description (req_metadata req))
              (category (req_metadata req)) (imageURI (req_metadata req)) (isPublic (req_metadata req)) amt)"
proof -
  obtain s' where cc: "fst (chainChanged (JStr h) (w, s)) = (w, s')"
    and f: "vaultFactoryContract s' = vaultFactoryContract s" and n: "networkId s' = parseInt_hex h"
    using assms(1) by (simp add: chainChanged_def Let_def exc_defs sess_defs record_network_def)
  then show ?thesis
    using create_call_submitted [OF _ assms(3), of "view_of s'" f c out vs] assms(2)
    by (simp add: view_of_def)
qed

theorem create_after_chain_change_witness:
  "\<not> js_num_eq (parseInt_hex (chain_hex 31337)) targetNetworkId \<and>
   vaultFactoryContract (web3_initial Map.empty\<lparr>signer := True,
     vaultFactoryContract := Some ''0xf1Da8fA04bE703cC52bc8Ac269a439111FeaD838'',
     vaultContract := Some ''0xf1Da8fA04bE703cC52bc8Ac269a439111FeaD838''\<rparr>) =
     Some ''0xf1Da8fA04bE703cC52bc8Ac269a439111FeaD838'' \<and>
   parseEther (if target (req_metadata (example_request ''1'')) = [] then ''0''
     else target (req_metadata (example_request ''1''))) = Inr 1000000000000000000 \<and>
   networkId (snd (fst (chainChanged (JStr (chain_hex 31337)) (example_wallet 31337 [31337],
     web3_initial Map.empty\<lparr>signer := True,
     vaultFactoryContract := Some ''0xf1Da8fA04bE703cC52bc8Ac269a439111FeaD838'',
     vaultContract := Some ''0xf1Da8fA04bE703cC52bc8Ac269a439111FeaD838''\<rparr>)))) = Num 31337"
proof -
  have p: "parseInt_hex (chain_hex 31337) = Num 31337" by (simp add: parseInt_chain_hex)
  show ?thesis
    using create_after_chain_change [of "chain_hex 31337"
        "web3_initial Map.empty\<lparr>signer := True, vaultFactoryContract := Some ''0xf1Da8fA04bE703cC52bc8Ac269a439111FeaD838'',
           vaultContract := Some ''0xf1Da8fA04bE703cC52bc8Ac269a439111FeaD838''\<rparr>"
        "''0xf1Da8fA04bE703cC52bc8Ac269a439111FeaD838''" "example_request ''1''" 1000000000000000000
        "example_wallet 31337 [31337]" example_chain "Rejected ''user rejected action''" vsvc_initial]
    by (simp add: p targetNetworkId_def example_request_def)
qed


end
